theory Spec2Isabelle
  imports Complex_Main "HOL-Library.Word"
begin

unbundle bit_operations_syntax

section \<open>Scalars and arrays\<close>

text \<open>
  \<open>TacsScalar\<close> is modelled by the real numbers: the statements below are about the
  arithmetic the code writes down, not about rounding.  A C array or pointer
  (\<open>TacsScalar a[]\<close>, \<open>TacsScalar *a\<close>, \<open>double pt[3]\<close>) is the sequence of cells
  reachable from it: cell \<open>k\<close> of the model is \<open>a[k]\<close>.
\<close>

type_synonym TacsScalar = real
type_synonym array = "nat \<Rightarrow> real"

text \<open>A local array written slot by slot, e.g. \<open>temp[0] = volume; temp[1] = integral_temp\<close>.\<close>

definition array_of :: "real list \<Rightarrow> array" where
  "array_of xs = (\<lambda>i. if i < length xs then xs ! i else 0)"

text \<open>\<open>memset(a, 0, n*sizeof(TacsScalar))\<close>: the first \<open>n\<close> cells are set to zero, one by one.\<close>

definition memset_zero :: "array \<Rightarrow> nat \<Rightarrow> array" where
  "memset_zero a n = fold (\<lambda>i b. b(i := 0)) [0..<n] a"

text \<open>
  Division of two scalars.  The C++ operator does not trap: a zero divisor gives the
  IEEE values NaN or infinity, which are no real numbers.  HOL's \<open>x / 0 = 0\<close> would hide
  that, so the quotient is \<open>None\<close> exactly when the divisor is zero.
\<close>

definition TacsDiv :: "TacsScalar \<Rightarrow> TacsScalar \<Rightarrow> TacsScalar option" where
  "TacsDiv a b = (if b = 0 then None else Some (a / b))"

section \<open>TACSAverageTemperature (src/functions/TACSAverageTemperature.cpp)\<close>

text \<open>
  The function object holds two accumulators.  The element and its basis are abstract
  classes of headers outside this file; they are records of the member functions that
  the function object calls.  \<open>getElementBasis\<close> may return a null pointer (\<open>None\<close>).
  \<open>evalPointQuantity\<close> returns the number of components and writes the quantity through
  its last argument: the model passes the initial content of that cell (\<open>temp = 0.0\<close>)
  and gets the pair (count, content afterwards).  \<open>addPointQuantitySVSens\<close> and
  \<open>addPointQuantityDVSens\<close> read the scaling \<open>dfdq\<close> through a pointer: the model passes
  the value stored there, which is \<open>None\<close> when the caller stored a quotient that is no
  real number.
\<close>

datatype EvaluationType = INITIALIZE | INTEGRATE

datatype ElementQuantity = TACS_TEMPERATURE | TACS_OTHER_QUANTITY int

record TACSElementBasis =
  ebasis_getNumQuadraturePoints :: int
  ebasis_getQuadraturePoint :: "nat \<Rightarrow> real \<times> array"
  ebasis_getJacobianTransform :: "nat \<Rightarrow> array \<Rightarrow> array \<Rightarrow> TacsScalar"

record TACSElement =
  element_getNumNodes :: nat
  element_getNumVariables :: nat
  element_getElementBasis :: "TACSElementBasis option"
  element_evalPointQuantity ::
    "int \<Rightarrow> ElementQuantity \<Rightarrow> real \<Rightarrow> nat \<Rightarrow> array \<Rightarrow> array \<Rightarrow> array \<Rightarrow> array \<Rightarrow> array
       \<Rightarrow> TacsScalar \<Rightarrow> int \<times> TacsScalar"
  element_addPointQuantitySVSens ::
    "int \<Rightarrow> ElementQuantity \<Rightarrow> real \<Rightarrow> TacsScalar \<Rightarrow> TacsScalar \<Rightarrow> TacsScalar \<Rightarrow> nat \<Rightarrow> array
       \<Rightarrow> array \<Rightarrow> array \<Rightarrow> array \<Rightarrow> array \<Rightarrow> TacsScalar option \<Rightarrow> array \<Rightarrow> array"
  element_addPointQuantityDVSens ::
    "int \<Rightarrow> ElementQuantity \<Rightarrow> real \<Rightarrow> TacsScalar \<Rightarrow> nat \<Rightarrow> array
       \<Rightarrow> array \<Rightarrow> array \<Rightarrow> array \<Rightarrow> array \<Rightarrow> TacsScalar option \<Rightarrow> int \<Rightarrow> array \<Rightarrow> array"

record TACSAverageTemperature =
  volume :: TacsScalar
  integral_temp :: TacsScalar

text \<open>The constructor.\<close>

definition TACSAverageTemperature_new :: TACSAverageTemperature where
  "TACSAverageTemperature_new = \<lparr>volume = 0, integral_temp = 0\<rparr>"

definition getFunctionValue :: "TACSAverageTemperature \<Rightarrow> TacsScalar option" where
  "getFunctionValue f = TacsDiv (integral_temp f) (volume f)"

definition initEvaluation :: "EvaluationType \<Rightarrow> TACSAverageTemperature \<Rightarrow> TACSAverageTemperature" where
  "initEvaluation ftype f = f\<lparr>integral_temp := 0, volume := 0\<rparr>"

text \<open>
  Modelled from the spec: \<open>MPI_Allreduce\<close> with \<open>MPI_SUM\<close> is the library's collective
  ("a global sum-reduction across parallel partitions"): every rank of the communicator
  sends a buffer of \<open>count\<close> cells and receives, cell by cell, the sum of all the buffers
  sent.
\<close>

definition MPI_Allreduce_SUM :: "array list \<Rightarrow> nat \<Rightarrow> array" where
  "MPI_Allreduce_SUM sends count =
     (\<lambda>k. if k < count then sum_list (map (\<lambda>temp. temp k) sends) else 0)"

text \<open>
  \<open>finalEvaluation\<close> is collective: it is modelled on the list of the function objects
  of all ranks of the communicator at once.  Each rank fills \<open>temp\<close>, the reduction is
  taken, and each rank stores \<open>result[0]\<close> and \<open>result[1]\<close>.
\<close>

definition finalEvaluation ::
  "EvaluationType \<Rightarrow> TACSAverageTemperature list \<Rightarrow> TACSAverageTemperature list" where
  "finalEvaluation ftype ranks =
     (let temps = map (\<lambda>f. array_of [volume f, integral_temp f]) ranks;
          result = MPI_Allreduce_SUM temps 2
      in map (\<lambda>f. f\<lparr>volume := result 0, integral_temp := result 1\<rparr>) ranks)"

text \<open>The body of the quadrature loop of \<open>elementWiseEval\<close>, for the point \<open>i\<close>.\<close>

definition elementWiseEval_point ::
  "int \<Rightarrow> TACSElement \<Rightarrow> TACSElementBasis \<Rightarrow> real \<Rightarrow> array \<Rightarrow> array \<Rightarrow> array \<Rightarrow> array
     \<Rightarrow> nat \<Rightarrow> TACSAverageTemperature \<Rightarrow> TACSAverageTemperature" where
  "elementWiseEval_point elemIndex element basis time Xpts vars dvars ddvars i f =
     (let (weight, pt) = ebasis_getQuadraturePoint basis i;
          (count, temp) = element_evalPointQuantity element elemIndex TACS_TEMPERATURE
                            time i pt Xpts vars dvars ddvars 0
      in if count \<ge> 1 then
           (let detJ = ebasis_getJacobianTransform basis i pt Xpts
            in f\<lparr>volume := volume f + detJ * weight,
                 integral_temp := integral_temp f + detJ * weight * temp\<rparr>)
         else f)"

definition elementWiseEval ::
  "EvaluationType \<Rightarrow> int \<Rightarrow> TACSElement \<Rightarrow> real \<Rightarrow> TacsScalar \<Rightarrow> array \<Rightarrow> array \<Rightarrow> array \<Rightarrow> array
     \<Rightarrow> TACSAverageTemperature \<Rightarrow> TACSAverageTemperature" where
  "elementWiseEval ftype elemIndex element time scale Xpts vars dvars ddvars f =
     (case element_getElementBasis element of
        None \<Rightarrow> f
      | Some basis \<Rightarrow>
          fold (elementWiseEval_point elemIndex element basis time Xpts vars dvars ddvars)
            [0..<nat (ebasis_getNumQuadraturePoints basis)] f)"

text \<open>
  The sensitivities.  \<open>dfdq = detJ*weight/volume\<close> is a division by the stored volume.
  Nothing tests the divisor: the quotient, a real number or not, is stored in \<open>dfdq\<close>
  and handed to the element, and the loop goes on to the next point.
\<close>

definition getElementSVSens_point ::
  "TACSAverageTemperature \<Rightarrow> int \<Rightarrow> TACSElement \<Rightarrow> TACSElementBasis \<Rightarrow> real
     \<Rightarrow> TacsScalar \<Rightarrow> TacsScalar \<Rightarrow> TacsScalar \<Rightarrow> array \<Rightarrow> array \<Rightarrow> array \<Rightarrow> array
     \<Rightarrow> nat \<Rightarrow> array \<Rightarrow> array" where
  "getElementSVSens_point f elemIndex element basis time alpha beta gamma Xpts vars dvars ddvars
     i dfdu =
     (let (weight, pt) = ebasis_getQuadraturePoint basis i;
          (count, temp) = element_evalPointQuantity element elemIndex TACS_TEMPERATURE
                            time i pt Xpts vars dvars ddvars 0
      in if count \<ge> 1 then
           (let detJ = ebasis_getJacobianTransform basis i pt Xpts;
                dfdq = TacsDiv (detJ * weight) (volume f)
            in element_addPointQuantitySVSens element elemIndex TACS_TEMPERATURE time
                 alpha beta gamma i pt Xpts vars dvars ddvars dfdq dfdu)
         else dfdu)"

definition getElementSVSens ::
  "TACSAverageTemperature \<Rightarrow> int \<Rightarrow> TACSElement \<Rightarrow> real \<Rightarrow> TacsScalar \<Rightarrow> TacsScalar \<Rightarrow> TacsScalar
     \<Rightarrow> array \<Rightarrow> array \<Rightarrow> array \<Rightarrow> array \<Rightarrow> array \<Rightarrow> array" where
  "getElementSVSens f elemIndex element time alpha beta gamma Xpts vars dvars ddvars dfdu =
     (let numVars = element_getNumVariables element;
          dfdu0 = memset_zero dfdu numVars
      in case element_getElementBasis element of
           None \<Rightarrow> dfdu0
         | Some basis \<Rightarrow>
             fold (getElementSVSens_point f elemIndex element basis time alpha beta gamma
                     Xpts vars dvars ddvars)
               [0..<nat (ebasis_getNumQuadraturePoints basis)] dfdu0)"

definition getElementXptSens ::
  "TACSAverageTemperature \<Rightarrow> int \<Rightarrow> TACSElement \<Rightarrow> real \<Rightarrow> TacsScalar
     \<Rightarrow> array \<Rightarrow> array \<Rightarrow> array \<Rightarrow> array \<Rightarrow> array \<Rightarrow> array" where
  "getElementXptSens f elemIndex element time scale Xpts vars dvars ddvars dfdXpts =
     (let numNodes = element_getNumNodes element
      in memset_zero dfdXpts (3 * numNodes))"

definition addElementDVSens_point ::
  "TACSAverageTemperature \<Rightarrow> int \<Rightarrow> TACSElement \<Rightarrow> TACSElementBasis \<Rightarrow> real
     \<Rightarrow> TacsScalar \<Rightarrow> array \<Rightarrow> array \<Rightarrow> array \<Rightarrow> array \<Rightarrow> int
     \<Rightarrow> nat \<Rightarrow> array \<Rightarrow> array" where
  "addElementDVSens_point f elemIndex element basis time scale Xpts vars dvars ddvars dvLen
     i dfdx =
     (let (weight, pt) = ebasis_getQuadraturePoint basis i;
          (count, U0) = element_evalPointQuantity element elemIndex TACS_TEMPERATURE
                          time i pt Xpts vars dvars ddvars 0
      in if count \<ge> 1 then
           (let detJ = ebasis_getJacobianTransform basis i pt Xpts;
                dfdq = TacsDiv (detJ * weight) (volume f)
            in element_addPointQuantityDVSens element elemIndex TACS_TEMPERATURE time
                 scale i pt Xpts vars dvars ddvars dfdq dvLen dfdx)
         else dfdx)"

definition addElementDVSens ::
  "TACSAverageTemperature \<Rightarrow> int \<Rightarrow> TACSElement \<Rightarrow> real \<Rightarrow> TacsScalar
     \<Rightarrow> array \<Rightarrow> array \<Rightarrow> array \<Rightarrow> array \<Rightarrow> int \<Rightarrow> array \<Rightarrow> array" where
  "addElementDVSens f elemIndex element time scale Xpts vars dvars ddvars dvLen dfdx =
     (case element_getElementBasis element of
        None \<Rightarrow> dfdx
      | Some basis \<Rightarrow>
          fold (addElementDVSens_point f elemIndex element basis time scale
                  Xpts vars dvars ddvars dvLen)
            [0..<nat (ebasis_getNumQuadraturePoints basis)] dfdx)"

subsection \<open>The evaluation protocol\<close>

text \<open>
  Modelled from the spec: the caller of the function object (the assembler, not part of
  these files) evaluates it the way the spec describes an aggregator: on every
  partition the accumulators are reset, the function object visits the partition's
  elements one after the other, and a global sum-reduction across the partitions for
  both accumulators follows, before the value is read.  A visit is one call of
  \<open>elementWiseEval\<close> with its arguments.
\<close>

record element_visit =
  visit_elemIndex :: int
  visit_element :: TACSElement
  visit_time :: real
  visit_scale :: TacsScalar
  visit_Xpts :: array
  visit_vars :: array
  visit_dvars :: array
  visit_ddvars :: array

definition visit_element_eval ::
  "EvaluationType \<Rightarrow> element_visit \<Rightarrow> TACSAverageTemperature \<Rightarrow> TACSAverageTemperature" where
  "visit_element_eval ftype v f =
     elementWiseEval ftype (visit_elemIndex v) (visit_element v) (visit_time v) (visit_scale v)
       (visit_Xpts v) (visit_vars v) (visit_dvars v) (visit_ddvars v) f"

definition evaluate_partition ::
  "EvaluationType \<Rightarrow> TACSAverageTemperature \<times> element_visit list \<Rightarrow> TACSAverageTemperature" where
  "evaluate_partition ftype p =
     fold (visit_element_eval ftype) (snd p) (initEvaluation ftype (fst p))"

definition evaluate_function ::
  "EvaluationType \<Rightarrow> (TACSAverageTemperature \<times> element_visit list) list
     \<Rightarrow> TACSAverageTemperature list" where
  "evaluate_function ftype partitions =
     finalEvaluation ftype (map (evaluate_partition ftype) partitions)"

subsection \<open>What the aggregate is supposed to be\<close>

text \<open>
  The contributing quadrature points of one visit, each with its physical measure
  \<open>weight * detJ\<close> and its temperature, written from the claim's words and without the
  accumulators: a point contributes when the element has a basis and reports at least
  one component for the temperature there.
\<close>

definition contributing_point ::
  "element_visit \<Rightarrow> TACSElementBasis \<Rightarrow> nat \<Rightarrow> (TacsScalar \<times> TacsScalar) list" where
  "contributing_point v basis i =
     (let weight = fst (ebasis_getQuadraturePoint basis i);
          pt = snd (ebasis_getQuadraturePoint basis i);
          q = element_evalPointQuantity (visit_element v) (visit_elemIndex v)
                TACS_TEMPERATURE (visit_time v) i pt (visit_Xpts v) (visit_vars v)
                (visit_dvars v) (visit_ddvars v) 0
      in if fst q \<ge> 1
         then [(weight * ebasis_getJacobianTransform basis i pt (visit_Xpts v), snd q)]
         else [])"

definition contributing_points :: "element_visit \<Rightarrow> (TacsScalar \<times> TacsScalar) list" where
  "contributing_points v =
     (case element_getElementBasis (visit_element v) of
        None \<Rightarrow> []
      | Some basis \<Rightarrow>
          concat (map (contributing_point v basis)
            [0..<nat (ebasis_getNumQuadraturePoints basis)]))"

definition all_points ::
  "(TACSAverageTemperature \<times> element_visit list) list \<Rightarrow> (TacsScalar \<times> TacsScalar) list" where
  "all_points partitions = concat (map (\<lambda>p. concat (map contributing_points (snd p))) partitions)"

definition weighted_temperature_sum :: "(TacsScalar \<times> TacsScalar) list \<Rightarrow> TacsScalar" where
  "weighted_temperature_sum pts = sum_list (map (\<lambda>(m, temp). m * temp) pts)"

definition measure_sum :: "(TacsScalar \<times> TacsScalar) list \<Rightarrow> TacsScalar" where
  "measure_sum pts = sum_list (map fst pts)"

subsection \<open>Whether a visit contributes\<close>

text \<open>
  The count that \<open>evalPointQuantity\<close> reports at the quadrature point \<open>i\<close>, and whether
  an element has a basis and at least one point with a count of one or more: then
  the loops of the function object reach their accumulation statements.
\<close>

definition point_count ::
  "int \<Rightarrow> TACSElement \<Rightarrow> TACSElementBasis \<Rightarrow> real \<Rightarrow> array \<Rightarrow> array \<Rightarrow> array \<Rightarrow> array \<Rightarrow> nat \<Rightarrow> int" where
  "point_count elemIndex element basis time Xpts vars dvars ddvars i =
     fst (element_evalPointQuantity element elemIndex TACS_TEMPERATURE time i
            (snd (ebasis_getQuadraturePoint basis i)) Xpts vars dvars ddvars 0)"

definition contributes ::
  "int \<Rightarrow> TACSElement \<Rightarrow> real \<Rightarrow> array \<Rightarrow> array \<Rightarrow> array \<Rightarrow> array \<Rightarrow> bool" where
  "contributes elemIndex element time Xpts vars dvars ddvars =
     (case element_getElementBasis element of
        None \<Rightarrow> False
      | Some basis \<Rightarrow>
          list_ex (\<lambda>i. point_count elemIndex element basis time Xpts vars dvars ddvars i \<ge> 1)
            [0..<nat (ebasis_getNumQuadraturePoints basis)])"

definition visit_contributes :: "element_visit \<Rightarrow> bool" where
  "visit_contributes v =
     contributes (visit_elemIndex v) (visit_element v) (visit_time v)
       (visit_Xpts v) (visit_vars v) (visit_dvars v) (visit_ddvars v)"

subsection \<open>The scalings of the sensitivities\<close>

text \<open>
  The calls that a sensitivity makes to the element, with the scaling that the element
  is handed at the quadrature point \<open>i\<close> given from outside as \<open>dfdq basis i\<close>: the element
  is called once for each point with a count of one or more, in the order of the
  points; \<open>getElementSVSens\<close> zeroes the first \<open>numVars\<close> cells before.  The quotient of the
  claim is \<open>detJ * weight / volume\<close>.
\<close>

definition volume_quotient ::
  "TACSAverageTemperature \<Rightarrow> array \<Rightarrow> TACSElementBasis \<Rightarrow> nat \<Rightarrow> TacsScalar option" where
  "volume_quotient f Xpts basis i =
     TacsDiv (ebasis_getJacobianTransform basis i (snd (ebasis_getQuadraturePoint basis i)) Xpts
                * fst (ebasis_getQuadraturePoint basis i))
       (volume f)"

definition SVSens_calls ::
  "(TACSElementBasis \<Rightarrow> nat \<Rightarrow> TacsScalar option) \<Rightarrow> int \<Rightarrow> TACSElement \<Rightarrow> real
     \<Rightarrow> TacsScalar \<Rightarrow> TacsScalar \<Rightarrow> TacsScalar \<Rightarrow> array \<Rightarrow> array \<Rightarrow> array \<Rightarrow> array
     \<Rightarrow> array \<Rightarrow> array" where
  "SVSens_calls dfdq elemIndex element time alpha beta gamma Xpts vars dvars ddvars dfdu =
     (case element_getElementBasis element of
        None \<Rightarrow> memset_zero dfdu (element_getNumVariables element)
      | Some basis \<Rightarrow>
          fold (\<lambda>i acc.
                  if point_count elemIndex element basis time Xpts vars dvars ddvars i \<ge> 1
                  then element_addPointQuantitySVSens element elemIndex TACS_TEMPERATURE time
                         alpha beta gamma i (snd (ebasis_getQuadraturePoint basis i))
                         Xpts vars dvars ddvars (dfdq basis i) acc
                  else acc)
            [0..<nat (ebasis_getNumQuadraturePoints basis)]
            (memset_zero dfdu (element_getNumVariables element)))"

definition DVSens_calls ::
  "(TACSElementBasis \<Rightarrow> nat \<Rightarrow> TacsScalar option) \<Rightarrow> int \<Rightarrow> TACSElement \<Rightarrow> real
     \<Rightarrow> TacsScalar \<Rightarrow> array \<Rightarrow> array \<Rightarrow> array \<Rightarrow> array \<Rightarrow> int \<Rightarrow> array \<Rightarrow> array" where
  "DVSens_calls dfdq elemIndex element time scale Xpts vars dvars ddvars dvLen dfdx =
     (case element_getElementBasis element of
        None \<Rightarrow> dfdx
      | Some basis \<Rightarrow>
          fold (\<lambda>i acc.
                  if point_count elemIndex element basis time Xpts vars dvars ddvars i \<ge> 1
                  then element_addPointQuantityDVSens element elemIndex TACS_TEMPERATURE time
                         scale i (snd (ebasis_getQuadraturePoint basis i))
                         Xpts vars dvars ddvars (dfdq basis i) dvLen acc
                  else acc)
            [0..<nat (ebasis_getNumQuadraturePoints basis)] dfdx)"

subsection \<open>A concrete element for the aggregate\<close>

text \<open>
  A two-node bar along the x axis that carries a temperature field: one quadrature
  point of weight 2 at the midpoint, \<open>detJ\<close> half the distance of its nodes, the
  temperature there the mean of the two nodal temperatures.  Its state sensitivity
  adds half the scaling to either node and adds nothing when the scaling is no number;
  it has no design variables.  \<open>bar_visit b len temp\<close>
  visits such a bar of length \<open>len\<close> at the uniform temperature \<open>temp\<close>; with
  \<open>b = None\<close> the element has no basis.
\<close>

definition bar_basis :: TACSElementBasis where
  "bar_basis = \<lparr>ebasis_getNumQuadraturePoints = 1,
                 ebasis_getQuadraturePoint = (\<lambda>i. (2, array_of [0, 0, 0])),
                 ebasis_getJacobianTransform = (\<lambda>i pt Xpts. (Xpts 3 - Xpts 0) / 2)\<rparr>"

definition bar_element :: "TACSElementBasis option \<Rightarrow> TACSElement" where
  "bar_element b =
     \<lparr>element_getNumNodes = 2,
      element_getNumVariables = 2,
      element_getElementBasis = b,
      element_evalPointQuantity =
        (\<lambda>elemIndex q time i pt Xpts vars dvars ddvars temp.
           if q = TACS_TEMPERATURE then (1, (vars 0 + vars 1) / 2) else (0, temp)),
      element_addPointQuantitySVSens =
        (\<lambda>elemIndex q time alpha beta gamma i pt Xpts vars dvars ddvars dfdq dfdu.
           case dfdq of
             None \<Rightarrow> dfdu
           | Some sc \<Rightarrow>
               if q = TACS_TEMPERATURE
               then dfdu(0 := dfdu 0 + alpha * sc / 2, 1 := dfdu 1 + alpha * sc / 2)
               else dfdu),
      element_addPointQuantityDVSens =
        (\<lambda>elemIndex q time scale i pt Xpts vars dvars ddvars dfdq dvLen dfdx. dfdx)\<rparr>"

definition bar_visit :: "TACSElementBasis option \<Rightarrow> real \<Rightarrow> real \<Rightarrow> element_visit" where
  "bar_visit b len temp =
     \<lparr>visit_elemIndex = 0, visit_element = bar_element b, visit_time = 0, visit_scale = 1,
      visit_Xpts = array_of [0, 0, 0, len, 0, 0], visit_vars = array_of [temp, temp],
      visit_dvars = (\<lambda>_. 0), visit_ddvars = (\<lambda>_. 0)\<rparr>"

section \<open>TACSThermalShellElement (src/elements/shell/TACSThermalShellElement.h)\<close>

subsection \<open>The template parameters and the collaborators\<close>

text \<open>
  The element is a class template over four policies (\<open>quadrature\<close>, \<open>basis\<close>,
  \<open>director\<close>, \<open>model\<close>) and holds two collaborators (\<open>transform\<close>, \<open>con\<close>).  None
  of them is defined in the header: each is a record of the functions the element
  calls, so every statement proved about the element holds for whatever is plugged in.
  A function that writes its result through a pointer returns it instead; a function
  that adds into an array takes the array and returns it updated; template arguments
  come first.  A scalar written through a pointer (\<open>&et\<close>, \<open>&t\<close>) is cell 0 of the
  array returned.
\<close>

record quadrature =
  quadrature_getNumQuadraturePoints :: int
  quadrature_getQuadraturePoint :: "nat \<Rightarrow> real \<times> array"

record basis =
  basis_NUM_NODES :: nat
  basis_NUM_TYING_POINTS :: nat
  basis_getLayoutType :: int
  basis_getNodePoint :: "nat \<Rightarrow> array"
  basis_interpFields :: "nat \<Rightarrow> nat \<Rightarrow> array \<Rightarrow> array \<Rightarrow> array"
  basis_interpFieldsGrad :: "nat \<Rightarrow> nat \<Rightarrow> array \<Rightarrow> array \<Rightarrow> array"
  basis_addInterpFieldsTranspose :: "nat \<Rightarrow> nat \<Rightarrow> array \<Rightarrow> array \<Rightarrow> array \<Rightarrow> array"
  basis_addInterpFieldsGradTranspose :: "nat \<Rightarrow> nat \<Rightarrow> array \<Rightarrow> array \<Rightarrow> array \<Rightarrow> array"
  basis_addInterpFieldsOuterProduct ::
    "nat \<Rightarrow> nat \<Rightarrow> nat \<Rightarrow> nat \<Rightarrow> array \<Rightarrow> array \<Rightarrow> array \<Rightarrow> array"
  basis_addInterpGradOuterProduct ::
    "nat \<Rightarrow> nat \<Rightarrow> nat \<Rightarrow> nat \<Rightarrow> array \<Rightarrow> array \<Rightarrow> array \<Rightarrow> array"
  basis_interpTyingStrain :: "array \<Rightarrow> array \<Rightarrow> array"
  basis_addInterpTyingStrainTranspose :: "array \<Rightarrow> array \<Rightarrow> array \<Rightarrow> array"
  basis_addInterpTyingStrainHessian :: "array \<Rightarrow> array \<Rightarrow> array \<Rightarrow> array"

text \<open>
  \<open>computeDirectorRates\<close> is overloaded: with \<open>vars, dvars\<close> it gives the director and
  its rate, with \<open>vars, dvars, ddvars\<close> also the second rate.
\<close>

record director =
  director_NUM_PARAMETERS :: nat
  director_computeDirectorRates ::
    "nat \<Rightarrow> nat \<Rightarrow> nat \<Rightarrow> array \<Rightarrow> array \<Rightarrow> array \<Rightarrow> array \<times> array"
  director_computeDirectorRates2 ::
    "nat \<Rightarrow> nat \<Rightarrow> nat \<Rightarrow> array \<Rightarrow> array \<Rightarrow> array \<Rightarrow> array \<Rightarrow> array \<times> array \<times> array"
  director_addDirectorResidual ::
    "nat \<Rightarrow> nat \<Rightarrow> nat \<Rightarrow> array \<Rightarrow> array \<Rightarrow> array \<Rightarrow> array \<Rightarrow> array \<Rightarrow> array \<Rightarrow> array \<Rightarrow> array"
  director_addRotationConstraint :: "nat \<Rightarrow> nat \<Rightarrow> nat \<Rightarrow> array \<Rightarrow> array \<Rightarrow> array"
  director_addDirectorJacobian ::
    "nat \<Rightarrow> nat \<Rightarrow> nat \<Rightarrow> TacsScalar \<Rightarrow> TacsScalar \<Rightarrow> TacsScalar
       \<Rightarrow> array \<Rightarrow> array \<Rightarrow> array \<Rightarrow> array \<Rightarrow> array \<Rightarrow> array
       \<Rightarrow> array \<Rightarrow> array \<Rightarrow> array \<Rightarrow> array \<Rightarrow> array \<Rightarrow> array \<Rightarrow> array \<times> array"
  director_addRotationConstrJacobian ::
    "nat \<Rightarrow> nat \<Rightarrow> nat \<Rightarrow> TacsScalar \<Rightarrow> array \<Rightarrow> array \<Rightarrow> array \<Rightarrow> array \<times> array"

record model =
  model_computeTyingStrain :: "nat \<Rightarrow> basis \<Rightarrow> array \<Rightarrow> array \<Rightarrow> array \<Rightarrow> array \<Rightarrow> array"
  model_evalStrain :: "array \<Rightarrow> array \<Rightarrow> array \<Rightarrow> array"
  model_evalStrainSens ::
    "TacsScalar \<Rightarrow> array \<Rightarrow> array \<Rightarrow> array \<Rightarrow> array \<times> array \<times> array"
  model_evalStrainHessian ::
    "TacsScalar \<Rightarrow> array \<Rightarrow> array \<Rightarrow> array \<Rightarrow> array \<Rightarrow> array
       \<Rightarrow> array \<times> array \<times> array \<times> array \<times> array \<times> array"
  model_addComputeTyingStrainTranspose ::
    "nat \<Rightarrow> basis \<Rightarrow> array \<Rightarrow> array \<Rightarrow> array \<Rightarrow> array \<Rightarrow> array \<Rightarrow> array \<Rightarrow> array
       \<Rightarrow> array \<times> array"
  model_addComputeTyingStrainHessian ::
    "nat \<Rightarrow> basis \<Rightarrow> TacsScalar \<Rightarrow> array \<Rightarrow> array \<Rightarrow> array \<Rightarrow> array
       \<Rightarrow> array \<Rightarrow> array \<Rightarrow> array \<Rightarrow> array \<Rightarrow> array \<Rightarrow> array \<Rightarrow> array
       \<Rightarrow> array \<times> array \<times> array"

record TACSShellTransform =
  transform_computeTransform :: "array \<Rightarrow> array \<Rightarrow> array"

text \<open>
  The constitutive object.  Its first arguments are always \<open>elemIndex, pt, X\<close>.
\<close>

record TACSShellConstitutive =
  con_evalStress :: "int \<Rightarrow> array \<Rightarrow> array \<Rightarrow> array \<Rightarrow> array"
  con_evalMassMoments :: "int \<Rightarrow> array \<Rightarrow> array \<Rightarrow> array"
  con_evalThermalStrain :: "int \<Rightarrow> array \<Rightarrow> array \<Rightarrow> TacsScalar \<Rightarrow> array"
  con_evalHeatFlux :: "int \<Rightarrow> array \<Rightarrow> array \<Rightarrow> array \<Rightarrow> array"
  con_evalTangentHeatFlux :: "int \<Rightarrow> array \<Rightarrow> array \<Rightarrow> array"
  con_evalTangentStiffness :: "int \<Rightarrow> array \<Rightarrow> array \<Rightarrow> array"
  con_evalFailure :: "int \<Rightarrow> array \<Rightarrow> array \<Rightarrow> array \<Rightarrow> TacsScalar"
  con_evalDesignFieldValue :: "int \<Rightarrow> array \<Rightarrow> array \<Rightarrow> int \<Rightarrow> TacsScalar"

text \<open>
  What the included headers provide and the element uses: the function templates of
  \<open>TACSShellUtilities.h\<close>, the 3x3 algebra of \<open>TACSElementAlgebra.h\<close>, the static
  members \<open>extractTangentStiffness\<close> and \<open>computeStress\<close> of the constitutive class,
  and the constants of \<open>TACSElementTypes.h\<close>.  They are parameters as well.  A
  template over \<open>basis\<close>, \<open>director\<close> or \<open>model\<close> takes the policy as an argument.
  \<open>TacsShellComputeDispGrad\<close> returns \<open>detXd\<close> first, then \<open>XdinvT, XdinvzT, u0x, u1x\<close>;
  \<open>extractTangentStiffness\<close> returns \<open>A, B, D, As, drill\<close>.
\<close>

record shell_utilities =
  TacsShellComputeNodeNormals :: "basis \<Rightarrow> array \<Rightarrow> array \<times> array"
  TacsShellComputeDrillStrain ::
    "nat \<Rightarrow> nat \<Rightarrow> basis \<Rightarrow> director \<Rightarrow> model \<Rightarrow> TACSShellTransform \<Rightarrow> array \<Rightarrow> array \<Rightarrow> array
       \<Rightarrow> array \<times> array \<times> array \<times> array \<times> array"
  TacsShellComputeDispGrad ::
    "nat \<Rightarrow> basis \<Rightarrow> array \<Rightarrow> array \<Rightarrow> array \<Rightarrow> array \<Rightarrow> array \<Rightarrow> array \<Rightarrow> array \<Rightarrow> array
       \<Rightarrow> TacsScalar \<times> array \<times> array \<times> array \<times> array"
  TacsShellAddDispGradSens ::
    "nat \<Rightarrow> basis \<Rightarrow> array \<Rightarrow> array \<Rightarrow> array \<Rightarrow> array \<Rightarrow> array \<Rightarrow> array \<Rightarrow> array \<Rightarrow> array
       \<Rightarrow> array \<times> array"
  TacsShellAddDrillStrainSens ::
    "nat \<Rightarrow> nat \<Rightarrow> basis \<Rightarrow> director \<Rightarrow> model \<Rightarrow> array \<Rightarrow> array \<Rightarrow> array \<Rightarrow> array \<Rightarrow> array
       \<Rightarrow> array \<Rightarrow> array \<Rightarrow> array \<Rightarrow> array \<Rightarrow> array"
  TacsShellAddDispGradHessian ::
    "nat \<Rightarrow> basis \<Rightarrow> array \<Rightarrow> array \<Rightarrow> array \<Rightarrow> array \<Rightarrow> array \<Rightarrow> array \<Rightarrow> array
       \<Rightarrow> array \<Rightarrow> array \<Rightarrow> array \<Rightarrow> array \<times> array \<times> array"
  TacsShellAddTyingDispCoupling ::
    "basis \<Rightarrow> array \<Rightarrow> array \<Rightarrow> array \<Rightarrow> array \<Rightarrow> array \<Rightarrow> array \<Rightarrow> array \<Rightarrow> array
       \<Rightarrow> array \<times> array"
  TacsShellAddDrillStrainHessian ::
    "nat \<Rightarrow> nat \<Rightarrow> basis \<Rightarrow> director \<Rightarrow> model \<Rightarrow> array \<Rightarrow> array \<Rightarrow> array \<Rightarrow> array \<Rightarrow> array
       \<Rightarrow> array \<Rightarrow> array \<Rightarrow> array \<Rightarrow> array \<Rightarrow> array \<Rightarrow> array \<Rightarrow> array \<times> array"
  mat3x3SymmTransformTranspose :: "array \<Rightarrow> array \<Rightarrow> array"
  mat3x3SymmTransformTransSens :: "array \<Rightarrow> array \<Rightarrow> array"
  mat3x3SymmTransformTransHessian :: "array \<Rightarrow> array \<Rightarrow> array"
  vec3Dot :: "array \<Rightarrow> array \<Rightarrow> TacsScalar"
  extractTangentStiffness :: "array \<Rightarrow> array \<times> array \<times> array \<times> array \<times> TacsScalar"
  computeStress :: "array \<Rightarrow> array \<Rightarrow> array \<Rightarrow> array \<Rightarrow> TacsScalar \<Rightarrow> array \<Rightarrow> array"
  TacsGetNumVisNodes :: "int \<Rightarrow> int"
  TACS_BEAM_OR_SHELL_ELEMENT :: int
  TACS_OUTPUT_NODES :: "32 word"
  TACS_OUTPUT_DISPLACEMENTS :: "32 word"
  TACS_OUTPUT_STRAINS :: "32 word"
  TACS_OUTPUT_STRESSES :: "32 word"
  TACS_OUTPUT_EXTRAS :: "32 word"

text \<open>An instance of the template with its two members.\<close>

record TACSThermalShellElement =
  the_quadrature :: quadrature
  the_basis :: basis
  the_director :: director
  the_model :: model
  the_utilities :: shell_utilities
  transform :: TACSShellTransform
  con :: TACSShellConstitutive

definition offset :: nat where
  "offset = 4"

definition vars_per_node :: "TACSThermalShellElement \<Rightarrow> nat" where
  "vars_per_node E = offset + director_NUM_PARAMETERS (the_director E)"

definition num_nodes :: "TACSThermalShellElement \<Rightarrow> nat" where
  "num_nodes E = basis_NUM_NODES (the_basis E)"

definition size_vars :: "TACSThermalShellElement \<Rightarrow> nat" where
  "size_vars E = vars_per_node E * num_nodes E"

text \<open>
  An array argument that points into a larger array (\<open>&vars[3]\<close>, \<open>&res[3]\<close>,
  \<open>&mat[3*(size + 1)]\<close>): the callee sees the cells from \<open>k\<close> on, and what it writes
  lands there.
\<close>

definition from_cell :: "nat \<Rightarrow> array \<Rightarrow> array" where
  "from_cell k a = (\<lambda>i. a (i + k))"

definition update_from_cell :: "nat \<Rightarrow> (array \<Rightarrow> array) \<Rightarrow> array \<Rightarrow> array" where
  "update_from_cell k f a = (\<lambda>i. if i < k then a i else f (from_cell k a) (i - k))"

subsection \<open>The part that all four operations share\<close>

text \<open>
  Each operation starts with the same node-level statements (normals, drilling strain
  at the nodes, tying strain; the director rates differ in the overload) and each
  pass of its loop starts with the same statements up to \<open>e[8] = et\<close> (lines 192-221,
  303-332, 505-534 and 751-778).  They are written once here.
\<close>

record node_vars =
  nv_fn :: array
  nv_Xdn :: array
  nv_XdinvTn :: array
  nv_Tn :: array
  nv_u0xn :: array
  nv_Ctn :: array
  nv_etn :: array

definition node_level :: "TACSThermalShellElement \<Rightarrow> array \<Rightarrow> array \<Rightarrow> node_vars" where
  "node_level E Xpts vars =
     (let U = the_utilities E;
          (fn, Xdn) = TacsShellComputeNodeNormals U (the_basis E) Xpts;
          (XdinvTn, Tn, u0xn, Ctn, etn) =
             TacsShellComputeDrillStrain U (vars_per_node E) offset (the_basis E)
               (the_director E) (the_model E) (transform E) Xdn fn vars
      in \<lparr>nv_fn = fn, nv_Xdn = Xdn, nv_XdinvTn = XdinvTn, nv_Tn = Tn, nv_u0xn = u0xn,
          nv_Ctn = Ctn, nv_etn = etn\<rparr>)"

record point_vars =
  pv_X :: array
  pv_Xxi :: array
  pv_n0 :: array
  pv_T :: array
  pv_et :: TacsScalar
  pv_XdinvT :: array
  pv_XdinvzT :: array
  pv_u0x :: array
  pv_u1x :: array
  pv_detXd :: TacsScalar
  pv_e0ty :: array
  pv_e :: array

definition point_level ::
  "TACSThermalShellElement \<Rightarrow> array \<Rightarrow> array \<Rightarrow> array \<Rightarrow> array \<Rightarrow> array \<Rightarrow> array \<Rightarrow> array
     \<Rightarrow> point_vars" where
  "point_level E Xpts vars fn etn d ety pt =
     (let U = the_utilities E; B = the_basis E;
          X = basis_interpFields B 3 3 pt Xpts;
          Xxi = basis_interpFieldsGrad B 3 3 pt Xpts;
          n0 = basis_interpFields B 3 3 pt fn;
          et = basis_interpFields B 1 1 pt etn 0;
          T = transform_computeTransform (transform E) Xxi n0;
          (detXd, XdinvT, XdinvzT, u0x, u1x) =
             TacsShellComputeDispGrad U (vars_per_node E) B pt Xpts vars fn d Xxi n0 T;
          gty = basis_interpTyingStrain B pt ety;
          e0ty = mat3x3SymmTransformTranspose U XdinvT gty;
          e = (model_evalStrain (the_model E) u0x u1x e0ty)(8 := et)
      in \<lparr>pv_X = X, pv_Xxi = Xxi, pv_n0 = n0, pv_T = T, pv_et = et, pv_XdinvT = XdinvT,
          pv_XdinvzT = XdinvzT, pv_u0x = u0x, pv_u1x = u1x, pv_detXd = detXd,
          pv_e0ty = e0ty, pv_e = e\<rparr>)"

text \<open>The loop \<open>for (i = 0; i < 9; i++) em[i] = e[i] - eth[i]\<close> on a fresh local array.\<close>

definition mechanical_strain :: "array \<Rightarrow> array \<Rightarrow> array" where
  "mechanical_strain e eth = fold (\<lambda>i em. em(i := e i - eth i)) [0..<9] (\<lambda>_. 0)"

text \<open>
  The temperature at the point, the thermal strain there, the mechanical strain and
  the stress, as \<open>addResidual\<close> (lines 336 and 353-365) and \<open>getOutputData\<close> (lines
  780-796) compute them.
\<close>

record stress_vars =
  sv_t :: TacsScalar
  sv_eth :: array
  sv_em :: array
  sv_s :: array

definition mechanical_stress ::
  "TACSThermalShellElement \<Rightarrow> int \<Rightarrow> array \<Rightarrow> array \<Rightarrow> array \<Rightarrow> array \<Rightarrow> stress_vars" where
  "mechanical_stress E elemIndex vars pt X e =
     (let t = basis_interpFields (the_basis E) (vars_per_node E) 1 pt (from_cell 3 vars) 0;
          eth = con_evalThermalStrain (con E) elemIndex pt X t;
          em = mechanical_strain e eth;
          s = con_evalStress (con E) elemIndex pt X em
      in \<lparr>sv_t = t, sv_eth = eth, sv_em = em, sv_s = s\<rparr>)"

text \<open>
  The same in \<open>addJacobian\<close> (lines 538 and 577-597), where the stress comes from the
  tangent stiffness through the static \<open>computeStress\<close>.
\<close>

definition tangent_stress ::
  "TACSThermalShellElement \<Rightarrow> int \<Rightarrow> array \<Rightarrow> array \<Rightarrow> array \<Rightarrow> array \<Rightarrow> array \<times> stress_vars"
  where
  "tangent_stress E elemIndex vars pt X e =
     (let U = the_utilities E;
          t = basis_interpFields (the_basis E) (vars_per_node E) 1 pt (from_cell 3 vars) 0;
          eth = con_evalThermalStrain (con E) elemIndex pt X t;
          em = mechanical_strain e eth;
          Cs = con_evalTangentStiffness (con E) elemIndex pt X;
          (A, B, D, As, drill) = extractTangentStiffness U Cs;
          s = computeStress U A B D As drill em
      in (Cs, \<lparr>sv_t = t, sv_eth = eth, sv_em = em, sv_s = s\<rparr>))"

subsection \<open>computeEnergies\<close>

definition computeEnergies_point ::
  "TACSThermalShellElement \<Rightarrow> int \<Rightarrow> array \<Rightarrow> array \<Rightarrow> array \<Rightarrow> array \<Rightarrow> array \<Rightarrow> array
     \<Rightarrow> array \<Rightarrow> array \<Rightarrow> nat \<Rightarrow> TacsScalar \<times> TacsScalar \<Rightarrow> TacsScalar \<times> TacsScalar" where
  "computeEnergies_point E elemIndex Xpts vars dvars fn etn d ddot ety quad_index TeUe =
     (let U = the_utilities E; B = the_basis E;
          (weight, pt) = quadrature_getQuadraturePoint (the_quadrature E) quad_index;
          P = point_level E Xpts vars fn etn d ety pt;
          detXd = pv_detXd P * weight;
          e = pv_e P;
          s = con_evalStress (con E) elemIndex pt (pv_X P) e;
          Ue = snd TeUe + 0.5 * detXd * (s 0 * e 0 + s 1 * e 1 + s 2 * e 2 +
                                         s 3 * e 3 + s 4 * e 4 + s 5 * e 5 +
                                         s 6 * e 6 + s 7 * e 7 + s 8 * e 8);
          moments = con_evalMassMoments (con E) elemIndex pt (pv_X P);
          u0dot = basis_interpFields B (vars_per_node E) 3 pt dvars;
          d0dot = basis_interpFields B 3 3 pt ddot;
          Te = fst TeUe + 0.5 * detXd * (moments 0 * vec3Dot U u0dot u0dot +
                                         2.0 * moments 1 * vec3Dot U u0dot d0dot +
                                         moments 2 * vec3Dot U d0dot d0dot)
      in (Te, Ue))"

text \<open>The result is the pair \<open>(*_Te, *_Ue)\<close>.\<close>

definition computeEnergies ::
  "TACSThermalShellElement \<Rightarrow> int \<Rightarrow> real \<Rightarrow> array \<Rightarrow> array \<Rightarrow> array \<Rightarrow> TacsScalar \<times> TacsScalar"
  where
  "computeEnergies E elemIndex time Xpts vars dvars =
     (let nquad = quadrature_getNumQuadraturePoints (the_quadrature E);
          N = node_level E Xpts vars;
          (d, ddot) = director_computeDirectorRates (the_director E) (vars_per_node E) offset
                        (num_nodes E) vars dvars (nv_fn N);
          ety = model_computeTyingStrain (the_model E) (vars_per_node E) (the_basis E)
                  Xpts (nv_fn N) vars d
      in fold (computeEnergies_point E elemIndex Xpts vars dvars (nv_fn N) (nv_etn N) d ddot ety)
           [0..<nat nquad] (0, 0))"

subsection \<open>addResidual\<close>

text \<open>
  The arrays that the loop of \<open>addResidual\<close> adds into: the caller's \<open>res\<close> and the
  local accumulators, which start from zero (\<open>memset\<close>).
\<close>

record residual_acc =
  ra_res :: array
  ra_dd :: array
  ra_dTdot :: array
  ra_dety :: array
  ra_detn :: array

definition addResidual_point ::
  "TACSThermalShellElement \<Rightarrow> int \<Rightarrow> array \<Rightarrow> array \<Rightarrow> array \<Rightarrow> array \<Rightarrow> array \<Rightarrow> array
     \<Rightarrow> array \<Rightarrow> array \<Rightarrow> nat \<Rightarrow> residual_acc \<Rightarrow> residual_acc" where
  "addResidual_point E elemIndex Xpts vars ddvars fn etn d dddot ety quad_index acc =
     (let U = the_utilities E; B = the_basis E; vpn = vars_per_node E;
          (weight, pt) = quadrature_getQuadraturePoint (the_quadrature E) quad_index;
          P = point_level E Xpts vars fn etn d ety pt;
          X = pv_X P; XdinvT = pv_XdinvT P;
          detXd = pv_detXd P * weight;
          txi = basis_interpFieldsGrad B vpn 1 pt (from_cell 3 vars);
          tx = array_of [XdinvT 0 * txi 0 + XdinvT 1 * txi 1,
                         XdinvT 3 * txi 0 + XdinvT 4 * txi 1];
          q = con_evalHeatFlux (con E) elemIndex pt X tx;
          qxi = array_of [detXd * (XdinvT 0 * q 0 + XdinvT 3 * q 1),
                          detXd * (XdinvT 1 * q 0 + XdinvT 4 * q 1)];
          res1 = update_from_cell 3 (basis_addInterpFieldsGradTranspose B vpn 1 pt qxi)
                   (ra_res acc);
          S = mechanical_stress E elemIndex vars pt X (pv_e P);
          s = sv_s S;
          (du0x, du1x, de0ty) =
             model_evalStrainSens (the_model E) detXd s (pv_u0x P) (pv_u1x P);
          det = detXd * s 8;
          detn = basis_addInterpFieldsTranspose B 1 1 pt (array_of [det]) (ra_detn acc);
          (res2, dd) = TacsShellAddDispGradSens U vpn B pt (pv_T P) XdinvT (pv_XdinvzT P)
                         du0x du1x res1 (ra_dd acc);
          dgty = mat3x3SymmTransformTransSens U XdinvT de0ty;
          dety = basis_addInterpTyingStrainTranspose B pt dgty (ra_dety acc);
          moments = con_evalMassMoments (con E) elemIndex pt X;
          u0ddot = basis_interpFields B vpn 3 pt ddvars;
          d0ddot = basis_interpFields B 3 3 pt dddot;
          du0dot = array_of [detXd * (moments 0 * u0ddot 0 + moments 1 * d0ddot 0),
                             detXd * (moments 0 * u0ddot 1 + moments 1 * d0ddot 1),
                             detXd * (moments 0 * u0ddot 2 + moments 1 * d0ddot 2)];
          res3 = basis_addInterpFieldsTranspose B vpn 3 pt du0dot res2;
          dd0dot = array_of [detXd * (moments 1 * u0ddot 0 + moments 2 * d0ddot 0),
                             detXd * (moments 1 * u0ddot 1 + moments 2 * d0ddot 1),
                             detXd * (moments 1 * u0ddot 2 + moments 2 * d0ddot 2)];
          dTdot = basis_addInterpFieldsTranspose B 3 3 pt dd0dot (ra_dTdot acc)
      in \<lparr>ra_res = res3, ra_dd = dd, ra_dTdot = dTdot, ra_dety = dety, ra_detn = detn\<rparr>)"

definition addResidual ::
  "TACSThermalShellElement \<Rightarrow> int \<Rightarrow> real \<Rightarrow> array \<Rightarrow> array \<Rightarrow> array \<Rightarrow> array \<Rightarrow> array \<Rightarrow> array"
  where
  "addResidual E elemIndex time Xpts vars dvars ddvars res =
     (let U = the_utilities E; vpn = vars_per_node E;
          nquad = quadrature_getNumQuadraturePoints (the_quadrature E);
          N = node_level E Xpts vars;
          fn = nv_fn N;
          (d, ddot, dddot) = director_computeDirectorRates2 (the_director E) vpn offset
                               (num_nodes E) vars dvars ddvars fn;
          ety = model_computeTyingStrain (the_model E) vpn (the_basis E) Xpts fn vars d;
          acc = fold (addResidual_point E elemIndex Xpts vars ddvars fn (nv_etn N) d dddot ety)
                  [0..<nat nquad]
                  \<lparr>ra_res = res, ra_dd = (\<lambda>_. 0), ra_dTdot = (\<lambda>_. 0), ra_dety = (\<lambda>_. 0),
                   ra_detn = (\<lambda>_. 0)\<rparr>;
          res4 = TacsShellAddDrillStrainSens U vpn offset (the_basis E) (the_director E)
                   (the_model E) (nv_Xdn N) fn vars (nv_XdinvTn N) (nv_Tn N) (nv_u0xn N)
                   (nv_Ctn N) (ra_detn acc) (ra_res acc);
          (res5, dd) = model_addComputeTyingStrainTranspose (the_model E) vpn (the_basis E)
                         Xpts fn vars d (ra_dety acc) res4 (ra_dd acc);
          res6 = director_addDirectorResidual (the_director E) vpn offset (num_nodes E)
                   vars dvars ddvars fn (ra_dTdot acc) dd res5
      in director_addRotationConstraint (the_director E) vpn offset (num_nodes E) vars res6)"

subsection \<open>addJacobian\<close>

record jacobian_acc =
  ja_res :: array
  ja_mat :: array
  ja_dd :: array
  ja_dTdot :: array
  ja_d2d :: array
  ja_d2du :: array
  ja_d2Tdotd :: array
  ja_d2Tdotu :: array
  ja_dety :: array
  ja_d2ety :: array
  ja_d2etyu :: array
  ja_d2etyd :: array
  ja_detn :: array
  ja_d2etn :: array

text \<open>
  \<open>d2u0dot\<close> and \<open>d2Td\<close>: nine cells set to zero, then the cells 0, 4 and 8 assigned.
\<close>

definition diagonal3 :: "TacsScalar \<Rightarrow> array" where
  "diagonal3 a = (memset_zero (\<lambda>_. 0) 9)(0 := a, 4 := a, 8 := a)"

definition addJacobian_point ::
  "TACSThermalShellElement \<Rightarrow> int \<Rightarrow> TacsScalar \<Rightarrow> TacsScalar \<Rightarrow> TacsScalar \<Rightarrow> array \<Rightarrow> array
     \<Rightarrow> array \<Rightarrow> array \<Rightarrow> array \<Rightarrow> array \<Rightarrow> array \<Rightarrow> array \<Rightarrow> nat \<Rightarrow> jacobian_acc \<Rightarrow> jacobian_acc"
  where
  "addJacobian_point E elemIndex alpha beta gamma Xpts vars ddvars fn etn d dddot ety
     quad_index acc =
     (let U = the_utilities E; B = the_basis E; vpn = vars_per_node E;
          (weight, pt) = quadrature_getQuadraturePoint (the_quadrature E) quad_index;
          P = point_level E Xpts vars fn etn d ety pt;
          X = pv_X P; XdinvT = pv_XdinvT P; XdinvzT = pv_XdinvzT P; T = pv_T P;
          u0x = pv_u0x P; u1x = pv_u1x P;
          detXd = pv_detXd P * weight;
          txi = basis_interpFieldsGrad B vpn 1 pt (from_cell 3 vars);
          tx = array_of [XdinvT 0 * txi 0 + XdinvT 1 * txi 1,
                         XdinvT 3 * txi 0 + XdinvT 4 * txi 1];
          q = con_evalHeatFlux (con E) elemIndex pt X tx;
          qxi = array_of [detXd * (XdinvT 0 * q 0 + XdinvT 3 * q 1),
                          detXd * (XdinvT 1 * q 0 + XdinvT 4 * q 1)];
          res1 = update_from_cell 3 (basis_addInterpFieldsGradTranspose B vpn 1 pt qxi)
                   (ja_res acc);
          Kt = con_evalTangentHeatFlux (con E) elemIndex pt X;
          Ktmp = array_of [Kt 0 * XdinvT 0 + Kt 1 * XdinvT 3,
                           Kt 0 * XdinvT 1 + Kt 1 * XdinvT 4,
                           Kt 1 * XdinvT 0 + Kt 2 * XdinvT 3,
                           Kt 1 * XdinvT 1 + Kt 2 * XdinvT 4];
          q2xi = array_of [alpha * detXd * (XdinvT 0 * Ktmp 0 + XdinvT 3 * Ktmp 2),
                           alpha * detXd * (XdinvT 0 * Ktmp 1 + XdinvT 3 * Ktmp 3),
                           alpha * detXd * (XdinvT 1 * Ktmp 0 + XdinvT 4 * Ktmp 2),
                           alpha * detXd * (XdinvT 1 * Ktmp 1 + XdinvT 4 * Ktmp 3)];
          mat1 = update_from_cell (3 * (size_vars E + 1))
                   (basis_addInterpGradOuterProduct B vpn vpn 1 1 pt q2xi) (ja_mat acc);
          (Cs, S) = tangent_stress E elemIndex vars pt X (pv_e P);
          s = sv_s S;
          (du0x, du1x, de0ty) = model_evalStrainSens (the_model E) detXd s u0x u1x;
          (d2u0x, d2u1x, d2u0xu1x, d2e0ty, d2e0tyu0x, d2e0tyu1x) =
             model_evalStrainHessian (the_model E) (alpha * detXd) s Cs u0x u1x (pv_e0ty P);
          det = detXd * s 8;
          detn = basis_addInterpFieldsTranspose B 1 1 pt (array_of [det]) (ja_detn acc);
          (res2, dd) = TacsShellAddDispGradSens U vpn B pt T XdinvT XdinvzT
                         du0x du1x res1 (ja_dd acc);
          d2et = detXd * alpha * Cs 21;
          d2etn = basis_addInterpFieldsOuterProduct B 1 1 1 1 pt (array_of [d2et])
                    (ja_d2etn acc);
          (mat2, d2d, d2du) = TacsShellAddDispGradHessian U vpn B pt T XdinvT XdinvzT
                                d2u0x d2u1x d2u0xu1x mat1 (ja_d2d acc) (ja_d2du acc);
          dgty = mat3x3SymmTransformTransSens U XdinvT de0ty;
          d2gty = mat3x3SymmTransformTransHessian U XdinvT d2e0ty;
          (d2etyu, d2etyd) = TacsShellAddTyingDispCoupling U B pt T XdinvT XdinvzT
                               d2e0tyu0x d2e0tyu1x (ja_d2etyu acc) (ja_d2etyd acc);
          dety = basis_addInterpTyingStrainTranspose B pt dgty (ja_dety acc);
          d2ety = basis_addInterpTyingStrainHessian B pt d2gty (ja_d2ety acc);
          moments = con_evalMassMoments (con E) elemIndex pt X;
          u0ddot = basis_interpFields B vpn 3 pt ddvars;
          d0ddot = basis_interpFields B 3 3 pt dddot;
          du0dot = array_of [detXd * (moments 0 * u0ddot 0 + moments 1 * d0ddot 0),
                             detXd * (moments 0 * u0ddot 1 + moments 1 * d0ddot 1),
                             detXd * (moments 0 * u0ddot 2 + moments 1 * d0ddot 2)];
          res3 = basis_addInterpFieldsTranspose B vpn 3 pt du0dot res2;
          dd0dot = array_of [detXd * (moments 1 * u0ddot 0 + moments 2 * d0ddot 0),
                             detXd * (moments 1 * u0ddot 1 + moments 2 * d0ddot 1),
                             detXd * (moments 1 * u0ddot 2 + moments 2 * d0ddot 2)];
          dTdot = basis_addInterpFieldsTranspose B 3 3 pt dd0dot (ja_dTdot acc);
          d2u0dot = diagonal3 (gamma * detXd * moments 0);
          mat3 = basis_addInterpFieldsOuterProduct B vpn vpn 3 3 pt d2u0dot mat2;
          d2Tdotd = basis_addInterpFieldsOuterProduct B 3 3 3 3 pt
                      (diagonal3 (detXd * moments 2)) (ja_d2Tdotd acc);
          d2Tdotu = basis_addInterpFieldsOuterProduct B 3 3 3 3 pt
                      (diagonal3 (detXd * moments 1)) (ja_d2Tdotu acc)
      in \<lparr>ja_res = res3, ja_mat = mat3, ja_dd = dd, ja_dTdot = dTdot, ja_d2d = d2d,
          ja_d2du = d2du, ja_d2Tdotd = d2Tdotd, ja_d2Tdotu = d2Tdotu, ja_dety = dety,
          ja_d2ety = d2ety, ja_d2etyu = d2etyu, ja_d2etyd = d2etyd, ja_detn = detn,
          ja_d2etn = d2etn\<rparr>)"

text \<open>The result is the pair of the arrays \<open>(res, mat)\<close> after the call.\<close>

definition addJacobian ::
  "TACSThermalShellElement \<Rightarrow> int \<Rightarrow> real \<Rightarrow> TacsScalar \<Rightarrow> TacsScalar \<Rightarrow> TacsScalar
     \<Rightarrow> array \<Rightarrow> array \<Rightarrow> array \<Rightarrow> array \<Rightarrow> array \<Rightarrow> array \<Rightarrow> array \<times> array" where
  "addJacobian E elemIndex time alpha beta gamma Xpts vars dvars ddvars res mat =
     (let U = the_utilities E; vpn = vars_per_node E;
          nquad = quadrature_getNumQuadraturePoints (the_quadrature E);
          N = node_level E Xpts vars;
          fn = nv_fn N;
          (d, ddot, dddot) = director_computeDirectorRates2 (the_director E) vpn offset
                               (num_nodes E) vars dvars ddvars fn;
          ety = model_computeTyingStrain (the_model E) vpn (the_basis E) Xpts fn vars d;
          acc = fold (addJacobian_point E elemIndex alpha beta gamma Xpts vars ddvars fn
                        (nv_etn N) d dddot ety)
                  [0..<nat nquad]
                  \<lparr>ja_res = res, ja_mat = mat, ja_dd = (\<lambda>_. 0), ja_dTdot = (\<lambda>_. 0),
                   ja_d2d = (\<lambda>_. 0), ja_d2du = (\<lambda>_. 0), ja_d2Tdotd = (\<lambda>_. 0),
                   ja_d2Tdotu = (\<lambda>_. 0), ja_dety = (\<lambda>_. 0), ja_d2ety = (\<lambda>_. 0),
                   ja_d2etyu = (\<lambda>_. 0), ja_d2etyd = (\<lambda>_. 0), ja_detn = (\<lambda>_. 0),
                   ja_d2etn = (\<lambda>_. 0)\<rparr>;
          (res4, mat4) = TacsShellAddDrillStrainHessian U vpn offset (the_basis E)
                           (the_director E) (the_model E) (nv_Xdn N) fn vars (nv_XdinvTn N)
                           (nv_Tn N) (nv_u0xn N) (nv_Ctn N) (ja_detn acc) (ja_d2etn acc)
                           (ja_res acc) (ja_mat acc);
          (res5, dd) = model_addComputeTyingStrainTranspose (the_model E) vpn (the_basis E)
                         Xpts fn vars d (ja_dety acc) res4 (ja_dd acc);
          (mat5, d2d, d2du) = model_addComputeTyingStrainHessian (the_model E) vpn
                                (the_basis E) alpha Xpts fn vars d (ja_dety acc)
                                (ja_d2ety acc) (ja_d2etyu acc) (ja_d2etyd acc)
                                mat4 (ja_d2d acc) (ja_d2du acc);
          (res6, mat6) = director_addDirectorJacobian (the_director E) vpn offset
                           (num_nodes E) alpha beta gamma vars dvars ddvars fn
                           (ja_dTdot acc) dd (ja_d2Tdotd acc) (ja_d2Tdotu acc) d2d d2du
                           res5 mat5
      in director_addRotationConstrJacobian (the_director E) vpn offset (num_nodes E)
           alpha vars res6 mat6)"

subsection \<open>getOutputData\<close>

text \<open>
  The caller's buffer together with the moving pointer \<open>data\<close>: \<open>ob_pos\<close> is how far the
  pointer has advanced from where the caller passed it, so \<open>data[i]\<close> of the code is
  cell \<open>ob_pos + i\<close> of \<open>ob_data\<close>.
\<close>

record output_buffer =
  ob_data :: array
  ob_pos :: nat

definition write_cells :: "nat \<Rightarrow> (nat \<Rightarrow> TacsScalar) \<Rightarrow> output_buffer \<Rightarrow> output_buffer" where
  "write_cells n v b = b\<lparr>ob_data := fold (\<lambda>i a. a(ob_pos b + i := v i)) [0..<n] (ob_data b)\<rparr>"

definition advance :: "nat \<Rightarrow> output_buffer \<Rightarrow> output_buffer" where
  "advance n b = b\<lparr>ob_pos := ob_pos b + n\<rparr>"

definition getOutputData_node ::
  "TACSThermalShellElement \<Rightarrow> int \<Rightarrow> int \<Rightarrow> 32 word \<Rightarrow> array \<Rightarrow> array \<Rightarrow> array \<Rightarrow> array
     \<Rightarrow> array \<Rightarrow> array \<Rightarrow> nat \<Rightarrow> output_buffer \<Rightarrow> output_buffer" where
  "getOutputData_node E elemIndex etype write_flag Xpts vars fn etn d ety index b =
     (let U = the_utilities E;
          pt = basis_getNodePoint (the_basis E) index;
          P = point_level E Xpts vars fn etn d ety pt;
          X = pv_X P; e = pv_e P;
          S = mechanical_stress E elemIndex vars pt X e;
          s = sv_s S
      in if etype = TACS_BEAM_OR_SHELL_ELEMENT U then
           (let b1 = (if write_flag AND TACS_OUTPUT_NODES U \<noteq> 0
                      then advance 3 (write_cells 3 X b) else b);
                b2 = (if write_flag AND TACS_OUTPUT_DISPLACEMENTS U \<noteq> 0
                      then (let len = (if vars_per_node E > 6 then 6 else vars_per_node E);
                                c1 = write_cells len (\<lambda>i. vars (i + vars_per_node E * index)) b1;
                                c2 = c1\<lparr>ob_data := fold (\<lambda>i a. a(ob_pos c1 + i := 0))
                                                      [len..<6] (ob_data c1)\<rparr>
                            in advance 6 c2)
                      else b1);
                b3 = (if write_flag AND TACS_OUTPUT_STRAINS U \<noteq> 0
                      then advance 9 (write_cells 9 e b2) else b2);
                b4 = (if write_flag AND TACS_OUTPUT_STRESSES U \<noteq> 0
                      then advance 9 (write_cells 9 s b3) else b3);
                b5 = (if write_flag AND TACS_OUTPUT_EXTRAS U \<noteq> 0
                      then advance 4 (write_cells 4
                             (array_of [con_evalFailure (con E) elemIndex pt X e,
                                        con_evalDesignFieldValue (con E) elemIndex pt X 0,
                                        con_evalDesignFieldValue (con E) elemIndex pt X 1,
                                        con_evalDesignFieldValue (con E) elemIndex pt X 2]) b4)
                      else b4)
            in b5)
         else b)"

text \<open>The result is the caller's buffer after the call.\<close>

definition getOutputData ::
  "TACSThermalShellElement \<Rightarrow> int \<Rightarrow> int \<Rightarrow> 32 word \<Rightarrow> array \<Rightarrow> array \<Rightarrow> array \<Rightarrow> array
     \<Rightarrow> int \<Rightarrow> array \<Rightarrow> array" where
  "getOutputData E elemIndex etype write_flag Xpts vars dvars ddvars ld_data data =
     (let num_vis_nodes = TacsGetNumVisNodes (the_utilities E) (basis_getLayoutType (the_basis E));
          N = node_level E Xpts vars;
          (d, ddot) = director_computeDirectorRates (the_director E) (vars_per_node E) offset
                        (num_nodes E) vars dvars (nv_fn N);
          ety = model_computeTyingStrain (the_model E) (vars_per_node E) (the_basis E)
                  Xpts (nv_fn N) vars d
      in ob_data (fold (getOutputData_node E elemIndex etype write_flag Xpts vars (nv_fn N)
                          (nv_etn N) d ety)
                    [0..<nat num_vis_nodes] \<lparr>ob_data = data, ob_pos = 0\<rparr>))"

subsection \<open>The layout of the output, in the words of the claim\<close>

text \<open>
  \<open>write_list xs p a\<close> is the array \<open>a\<close> with the list \<open>xs\<close> stored in the cells from
  \<open>p\<close> on.  The record of a visualization node is the concatenation of the segments
  that the bits of \<open>write_flag\<close> select, in the fixed order coordinates (3),
  displacements (6, zero beyond the first \<open>min(vars_per_node, 6)\<close>), strains (9),
  stresses (9), extras (4).  \<open>buf_append\<close> stores a list at the moving pointer and
  advances it.
\<close>

definition write_list :: "real list \<Rightarrow> nat \<Rightarrow> array \<Rightarrow> array" where
  "write_list xs p a = (\<lambda>k. if p \<le> k \<and> k < p + length xs then xs ! (k - p) else a k)"

definition displacement_segment :: "TACSThermalShellElement \<Rightarrow> array \<Rightarrow> nat \<Rightarrow> real list" where
  "displacement_segment E vars index =
     map (\<lambda>i. if i < min (vars_per_node E) 6 then vars (i + vars_per_node E * index) else 0)
       [0..<6]"

definition output_record ::
  "TACSThermalShellElement \<Rightarrow> int \<Rightarrow> 32 word \<Rightarrow> array \<Rightarrow> array \<Rightarrow> array \<Rightarrow> array \<Rightarrow> array
     \<Rightarrow> array \<Rightarrow> nat \<Rightarrow> real list" where
  "output_record E elemIndex write_flag Xpts vars fn etn d ety index =
     (let U = the_utilities E;
          pt = basis_getNodePoint (the_basis E) index;
          P = point_level E Xpts vars fn etn d ety pt;
          X = pv_X P; e = pv_e P;
          s = sv_s (mechanical_stress E elemIndex vars pt X e)
      in (if write_flag AND TACS_OUTPUT_NODES U \<noteq> 0 then [X 0, X 1, X 2] else [])
       @ (if write_flag AND TACS_OUTPUT_DISPLACEMENTS U \<noteq> 0
          then displacement_segment E vars index else [])
       @ (if write_flag AND TACS_OUTPUT_STRAINS U \<noteq> 0 then map e [0..<9] else [])
       @ (if write_flag AND TACS_OUTPUT_STRESSES U \<noteq> 0 then map s [0..<9] else [])
       @ (if write_flag AND TACS_OUTPUT_EXTRAS U \<noteq> 0
          then [con_evalFailure (con E) elemIndex pt X e,
                con_evalDesignFieldValue (con E) elemIndex pt X 0,
                con_evalDesignFieldValue (con E) elemIndex pt X 1,
                con_evalDesignFieldValue (con E) elemIndex pt X 2]
          else []))"

definition output_records ::
  "TACSThermalShellElement \<Rightarrow> int \<Rightarrow> 32 word \<Rightarrow> array \<Rightarrow> array \<Rightarrow> array \<Rightarrow> real list list" where
  "output_records E elemIndex write_flag Xpts vars dvars =
     (let num_vis_nodes = TacsGetNumVisNodes (the_utilities E) (basis_getLayoutType (the_basis E));
          N = node_level E Xpts vars;
          d = fst (director_computeDirectorRates (the_director E) (vars_per_node E) offset
                     (num_nodes E) vars dvars (nv_fn N));
          ety = model_computeTyingStrain (the_model E) (vars_per_node E) (the_basis E)
                  Xpts (nv_fn N) vars d
      in map (output_record E elemIndex write_flag Xpts vars (nv_fn N) (nv_etn N) d ety)
           [0..<nat num_vis_nodes])"

definition buf_append :: "real list \<Rightarrow> output_buffer \<Rightarrow> output_buffer" where
  "buf_append xs b = \<lparr>ob_data = write_list xs (ob_pos b) (ob_data b), ob_pos = ob_pos b + length xs\<rparr>"

subsection \<open>Energies, residual and tangent matrix: the statements of the claims\<close>

text \<open>
  The residual and the matrix that a call accumulates into zeroed arrays, for a state
  at rest (\<open>dvars\<close> and \<open>ddvars\<close> zero); the matrix is assembled with \<open>alpha = 1\<close> and
  \<open>beta = gamma = 0\<close>.  Entry \<open>(i, j)\<close> of the matrix is cell \<open>i * size + j\<close>, the layout
  that the thermal block at \<open>&mat[3*(size + 1)]\<close> uses.
\<close>

definition static_residual :: "TACSThermalShellElement \<Rightarrow> int \<Rightarrow> real \<Rightarrow> array \<Rightarrow> array \<Rightarrow> array" where
  "static_residual E elemIndex time Xpts vars =
     addResidual E elemIndex time Xpts vars (\<lambda>_. 0) (\<lambda>_. 0) (\<lambda>_. 0)"

definition static_jacobian :: "TACSThermalShellElement \<Rightarrow> int \<Rightarrow> real \<Rightarrow> array \<Rightarrow> array \<Rightarrow> array" where
  "static_jacobian E elemIndex time Xpts vars =
     snd (addJacobian E elemIndex time 1 0 0 Xpts vars (\<lambda>_. 0) (\<lambda>_. 0) (\<lambda>_. 0) (\<lambda>_. 0))"

text \<open>
  Residual-Jacobian consistency as the claim states it: each entry of the matrix is the
  derivative of the residual entry of its row with respect to the variable of its
  column.
\<close>

definition jacobian_is_residual_derivative ::
  "TACSThermalShellElement \<Rightarrow> int \<Rightarrow> real \<Rightarrow> array \<Rightarrow> array \<Rightarrow> bool" where
  "jacobian_is_residual_derivative E elemIndex time Xpts vars =
     (\<forall>i < size_vars E. \<forall>j < size_vars E.
        ((\<lambda>x. static_residual E elemIndex time Xpts (vars(j := x)) i)
           has_real_derivative static_jacobian E elemIndex time Xpts vars (i * size_vars E + j))
          (at (vars j)))"

text \<open>
  The residual that a call with the rates \<open>dvars\<close> and zero accelerations accumulates
  into a zeroed array.
\<close>

definition residual_at ::
  "TACSThermalShellElement \<Rightarrow> int \<Rightarrow> real \<Rightarrow> array \<Rightarrow> array \<Rightarrow> array \<Rightarrow> array" where
  "residual_at E elemIndex time Xpts vars dvars =
     addResidual E elemIndex time Xpts vars dvars (\<lambda>_. 0) (\<lambda>_. 0)"

text \<open>
  Energy-residual consistency as the claim states it, for zero accelerations: each
  residual entry is, up to the sign that the convention fixes, the derivative of the
  kinetic minus the potential energy of \<open>computeEnergies\<close> with respect to its variable.
\<close>

definition lagrangian ::
  "TACSThermalShellElement \<Rightarrow> int \<Rightarrow> real \<Rightarrow> array \<Rightarrow> array \<Rightarrow> array \<Rightarrow> TacsScalar" where
  "lagrangian E elemIndex time Xpts dvars vars =
     fst (computeEnergies E elemIndex time Xpts vars dvars)
       - snd (computeEnergies E elemIndex time Xpts vars dvars)"

definition residual_is_energy_gradient ::
  "TACSThermalShellElement \<Rightarrow> int \<Rightarrow> real \<Rightarrow> array
     \<Rightarrow> array \<Rightarrow> array \<Rightarrow> bool"
  where
  "residual_is_energy_gradient E elemIndex time Xpts vars dvars =
     (\<exists>sign. (sign = 1 \<or> sign = - 1) \<and>
        (\<forall>k < size_vars E.
           ((\<lambda>x. lagrangian E elemIndex time Xpts dvars (vars(k := x)))
              has_real_derivative sign * residual_at E elemIndex time Xpts vars dvars k)
             (at (vars k))))"

text \<open>
  The element with another thermal strain and heat flux in its constitutive object; the
  temperature interpolated to a point.
\<close>

definition with_thermal_law ::
  "(int \<Rightarrow> array \<Rightarrow> array \<Rightarrow> TacsScalar \<Rightarrow> array) \<Rightarrow> (int \<Rightarrow> array \<Rightarrow> array \<Rightarrow> array \<Rightarrow> array)
     \<Rightarrow> TACSThermalShellElement \<Rightarrow> TACSThermalShellElement" where
  "with_thermal_law strain flux E =
     E\<lparr>con := (con E)\<lparr>con_evalThermalStrain := strain, con_evalHeatFlux := flux\<rparr>\<rparr>"

definition temperature_at :: "TACSThermalShellElement \<Rightarrow> array \<Rightarrow> array \<Rightarrow> TacsScalar" where
  "temperature_at E vars pt =
     basis_interpFields (the_basis E) (vars_per_node E) 1 pt (from_cell 3 vars) 0"

subsection \<open>The operations with the stress of a point given\<close>

text \<open>
  What the constitutive object is asked at an evaluation point: the difference of two
  strains in each of their nine slots, the temperature interpolated to the point and
  the thermal strain there, what \<open>evalStrain\<close> returns,
  the drilling strains of the nodes (as \<open>TacsShellComputeDrillStrain\<close> gives them for
  the element) interpolated to the point, and the stress that the static
  \<open>computeStress\<close> takes from the tangent stiffness of the point.
\<close>

definition strain_minus :: "array \<Rightarrow> array \<Rightarrow> array" where
  "strain_minus e eth = (\<lambda>i. if i < 9 then e i - eth i else 0)"

definition thermal_strain_at ::
  "TACSThermalShellElement \<Rightarrow> int \<Rightarrow> array \<Rightarrow> array \<Rightarrow> point_vars \<Rightarrow> array" where
  "thermal_strain_at E elemIndex vars pt P =
     con_evalThermalStrain (con E) elemIndex pt (pv_X P) (temperature_at E vars pt)"

definition evalStrain_at :: "TACSThermalShellElement \<Rightarrow> point_vars \<Rightarrow> array" where
  "evalStrain_at E P = model_evalStrain (the_model E) (pv_u0x P) (pv_u1x P) (pv_e0ty P)"

definition drilling_at :: "TACSThermalShellElement \<Rightarrow> array \<Rightarrow> array \<Rightarrow> array \<Rightarrow> TacsScalar" where
  "drilling_at E Xpts vars pt =
     basis_interpFields (the_basis E) 1 1 pt (nv_etn (node_level E Xpts vars)) 0"

definition tangent_computeStress ::
  "TACSThermalShellElement \<Rightarrow> int \<Rightarrow> array \<Rightarrow> point_vars \<Rightarrow> array \<Rightarrow> array" where
  "tangent_computeStress E elemIndex pt P em =
     (let U = the_utilities E;
          Cs = con_evalTangentStiffness (con E) elemIndex pt (pv_X P);
          (A, B, D, As, drill) = extractTangentStiffness U Cs
      in computeStress U A B D As drill em)"

text \<open>
  Each operation once more, statement by statement, with one change: the stress of an
  evaluation point is not asked of the constitutive object but given from outside, as
  a function \<open>stress\<close> of the point and of its local variables (for the output also
  the failure index, \<open>failure\<close>).  An operation hands the strain \<open>em\<close> to the stress
  evaluation exactly when it is this operation with the stress \<open>evalStress(em)\<close>
  given.  The output is written as the list of the records of the nodes.
\<close>

definition computeEnergies_from_point ::
  "(array \<Rightarrow> point_vars \<Rightarrow> array)
     \<Rightarrow> TACSThermalShellElement \<Rightarrow> int \<Rightarrow> array \<Rightarrow> array \<Rightarrow> array \<Rightarrow> array \<Rightarrow> array \<Rightarrow> array
     \<Rightarrow> array \<Rightarrow> array \<Rightarrow> nat \<Rightarrow> TacsScalar \<times> TacsScalar \<Rightarrow> TacsScalar \<times> TacsScalar" where
  "computeEnergies_from_point stress E elemIndex Xpts vars dvars fn etn d ddot ety quad_index TeUe =
     (let U = the_utilities E; B = the_basis E;
          (weight, pt) = quadrature_getQuadraturePoint (the_quadrature E) quad_index;
          P = point_level E Xpts vars fn etn d ety pt;
          detXd = pv_detXd P * weight;
          e = pv_e P;
          s = stress pt P;
          Ue = snd TeUe + 0.5 * detXd * (s 0 * e 0 + s 1 * e 1 + s 2 * e 2 +
                                         s 3 * e 3 + s 4 * e 4 + s 5 * e 5 +
                                         s 6 * e 6 + s 7 * e 7 + s 8 * e 8);
          moments = con_evalMassMoments (con E) elemIndex pt (pv_X P);
          u0dot = basis_interpFields B (vars_per_node E) 3 pt dvars;
          d0dot = basis_interpFields B 3 3 pt ddot;
          Te = fst TeUe + 0.5 * detXd * (moments 0 * vec3Dot U u0dot u0dot +
                                         2.0 * moments 1 * vec3Dot U u0dot d0dot +
                                         moments 2 * vec3Dot U d0dot d0dot)
      in (Te, Ue))"

definition computeEnergies_from ::
  "(array \<Rightarrow> point_vars \<Rightarrow> array)
     \<Rightarrow> TACSThermalShellElement \<Rightarrow> int \<Rightarrow> real \<Rightarrow> array \<Rightarrow> array \<Rightarrow> array \<Rightarrow> TacsScalar \<times> TacsScalar"
  where
  "computeEnergies_from stress E elemIndex time Xpts vars dvars =
     (let nquad = quadrature_getNumQuadraturePoints (the_quadrature E);
          N = node_level E Xpts vars;
          (d, ddot) = director_computeDirectorRates (the_director E) (vars_per_node E) offset
                        (num_nodes E) vars dvars (nv_fn N);
          ety = model_computeTyingStrain (the_model E) (vars_per_node E) (the_basis E)
                  Xpts (nv_fn N) vars d
      in fold (computeEnergies_from_point stress E elemIndex Xpts vars dvars (nv_fn N) (nv_etn N)
                 d ddot ety)
           [0..<nat nquad] (0, 0))"

definition addResidual_from_point ::
  "(array \<Rightarrow> point_vars \<Rightarrow> array)
     \<Rightarrow> TACSThermalShellElement \<Rightarrow> int \<Rightarrow> array \<Rightarrow> array \<Rightarrow> array \<Rightarrow> array \<Rightarrow> array \<Rightarrow> array
     \<Rightarrow> array \<Rightarrow> array \<Rightarrow> nat \<Rightarrow> residual_acc \<Rightarrow> residual_acc" where
  "addResidual_from_point stress E elemIndex Xpts vars ddvars fn etn d dddot ety quad_index acc =
     (let U = the_utilities E; B = the_basis E; vpn = vars_per_node E;
          (weight, pt) = quadrature_getQuadraturePoint (the_quadrature E) quad_index;
          P = point_level E Xpts vars fn etn d ety pt;
          X = pv_X P; XdinvT = pv_XdinvT P;
          detXd = pv_detXd P * weight;
          txi = basis_interpFieldsGrad B vpn 1 pt (from_cell 3 vars);
          tx = array_of [XdinvT 0 * txi 0 + XdinvT 1 * txi 1,
                         XdinvT 3 * txi 0 + XdinvT 4 * txi 1];
          q = con_evalHeatFlux (con E) elemIndex pt X tx;
          qxi = array_of [detXd * (XdinvT 0 * q 0 + XdinvT 3 * q 1),
                          detXd * (XdinvT 1 * q 0 + XdinvT 4 * q 1)];
          res1 = update_from_cell 3 (basis_addInterpFieldsGradTranspose B vpn 1 pt qxi)
                   (ra_res acc);
          s = stress pt P;
          (du0x, du1x, de0ty) =
             model_evalStrainSens (the_model E) detXd s (pv_u0x P) (pv_u1x P);
          det = detXd * s 8;
          detn = basis_addInterpFieldsTranspose B 1 1 pt (array_of [det]) (ra_detn acc);
          (res2, dd) = TacsShellAddDispGradSens U vpn B pt (pv_T P) XdinvT (pv_XdinvzT P)
                         du0x du1x res1 (ra_dd acc);
          dgty = mat3x3SymmTransformTransSens U XdinvT de0ty;
          dety = basis_addInterpTyingStrainTranspose B pt dgty (ra_dety acc);
          moments = con_evalMassMoments (con E) elemIndex pt X;
          u0ddot = basis_interpFields B vpn 3 pt ddvars;
          d0ddot = basis_interpFields B 3 3 pt dddot;
          du0dot = array_of [detXd * (moments 0 * u0ddot 0 + moments 1 * d0ddot 0),
                             detXd * (moments 0 * u0ddot 1 + moments 1 * d0ddot 1),
                             detXd * (moments 0 * u0ddot 2 + moments 1 * d0ddot 2)];
          res3 = basis_addInterpFieldsTranspose B vpn 3 pt du0dot res2;
          dd0dot = array_of [detXd * (moments 1 * u0ddot 0 + moments 2 * d0ddot 0),
                             detXd * (moments 1 * u0ddot 1 + moments 2 * d0ddot 1),
                             detXd * (moments 1 * u0ddot 2 + moments 2 * d0ddot 2)];
          dTdot = basis_addInterpFieldsTranspose B 3 3 pt dd0dot (ra_dTdot acc)
      in \<lparr>ra_res = res3, ra_dd = dd, ra_dTdot = dTdot, ra_dety = dety, ra_detn = detn\<rparr>)"

definition addResidual_from ::
  "(array \<Rightarrow> point_vars \<Rightarrow> array)
     \<Rightarrow> TACSThermalShellElement \<Rightarrow> int \<Rightarrow> real \<Rightarrow> array \<Rightarrow> array \<Rightarrow> array \<Rightarrow> array \<Rightarrow> array \<Rightarrow> array"
  where
  "addResidual_from stress E elemIndex time Xpts vars dvars ddvars res =
     (let U = the_utilities E; vpn = vars_per_node E;
          nquad = quadrature_getNumQuadraturePoints (the_quadrature E);
          N = node_level E Xpts vars;
          fn = nv_fn N;
          (d, ddot, dddot) = director_computeDirectorRates2 (the_director E) vpn offset
                               (num_nodes E) vars dvars ddvars fn;
          ety = model_computeTyingStrain (the_model E) vpn (the_basis E) Xpts fn vars d;
          acc = fold (addResidual_from_point stress E elemIndex Xpts vars ddvars fn (nv_etn N)
                        d dddot ety)
                  [0..<nat nquad]
                  \<lparr>ra_res = res, ra_dd = (\<lambda>_. 0), ra_dTdot = (\<lambda>_. 0), ra_dety = (\<lambda>_. 0),
                   ra_detn = (\<lambda>_. 0)\<rparr>;
          res4 = TacsShellAddDrillStrainSens U vpn offset (the_basis E) (the_director E)
                   (the_model E) (nv_Xdn N) fn vars (nv_XdinvTn N) (nv_Tn N) (nv_u0xn N)
                   (nv_Ctn N) (ra_detn acc) (ra_res acc);
          (res5, dd) = model_addComputeTyingStrainTranspose (the_model E) vpn (the_basis E)
                         Xpts fn vars d (ra_dety acc) res4 (ra_dd acc);
          res6 = director_addDirectorResidual (the_director E) vpn offset (num_nodes E)
                   vars dvars ddvars fn (ra_dTdot acc) dd res5
      in director_addRotationConstraint (the_director E) vpn offset (num_nodes E) vars res6)"

definition addJacobian_from_point ::
  "(array \<Rightarrow> point_vars \<Rightarrow> array)
     \<Rightarrow> TACSThermalShellElement \<Rightarrow> int \<Rightarrow> TacsScalar \<Rightarrow> TacsScalar \<Rightarrow> TacsScalar \<Rightarrow> array \<Rightarrow> array
     \<Rightarrow> array \<Rightarrow> array \<Rightarrow> array \<Rightarrow> array \<Rightarrow> array \<Rightarrow> array \<Rightarrow> nat \<Rightarrow> jacobian_acc \<Rightarrow> jacobian_acc"
  where
  "addJacobian_from_point stress E elemIndex alpha beta gamma Xpts vars ddvars fn etn d dddot ety
     quad_index acc =
     (let U = the_utilities E; B = the_basis E; vpn = vars_per_node E;
          (weight, pt) = quadrature_getQuadraturePoint (the_quadrature E) quad_index;
          P = point_level E Xpts vars fn etn d ety pt;
          X = pv_X P; XdinvT = pv_XdinvT P; XdinvzT = pv_XdinvzT P; T = pv_T P;
          u0x = pv_u0x P; u1x = pv_u1x P;
          detXd = pv_detXd P * weight;
          txi = basis_interpFieldsGrad B vpn 1 pt (from_cell 3 vars);
          tx = array_of [XdinvT 0 * txi 0 + XdinvT 1 * txi 1,
                         XdinvT 3 * txi 0 + XdinvT 4 * txi 1];
          q = con_evalHeatFlux (con E) elemIndex pt X tx;
          qxi = array_of [detXd * (XdinvT 0 * q 0 + XdinvT 3 * q 1),
                          detXd * (XdinvT 1 * q 0 + XdinvT 4 * q 1)];
          res1 = update_from_cell 3 (basis_addInterpFieldsGradTranspose B vpn 1 pt qxi)
                   (ja_res acc);
          Kt = con_evalTangentHeatFlux (con E) elemIndex pt X;
          Ktmp = array_of [Kt 0 * XdinvT 0 + Kt 1 * XdinvT 3,
                           Kt 0 * XdinvT 1 + Kt 1 * XdinvT 4,
                           Kt 1 * XdinvT 0 + Kt 2 * XdinvT 3,
                           Kt 1 * XdinvT 1 + Kt 2 * XdinvT 4];
          q2xi = array_of [alpha * detXd * (XdinvT 0 * Ktmp 0 + XdinvT 3 * Ktmp 2),
                           alpha * detXd * (XdinvT 0 * Ktmp 1 + XdinvT 3 * Ktmp 3),
                           alpha * detXd * (XdinvT 1 * Ktmp 0 + XdinvT 4 * Ktmp 2),
                           alpha * detXd * (XdinvT 1 * Ktmp 1 + XdinvT 4 * Ktmp 3)];
          mat1 = update_from_cell (3 * (size_vars E + 1))
                   (basis_addInterpGradOuterProduct B vpn vpn 1 1 pt q2xi) (ja_mat acc);
          Cs = con_evalTangentStiffness (con E) elemIndex pt X;
          s = stress pt P;
          (du0x, du1x, de0ty) = model_evalStrainSens (the_model E) detXd s u0x u1x;
          (d2u0x, d2u1x, d2u0xu1x, d2e0ty, d2e0tyu0x, d2e0tyu1x) =
             model_evalStrainHessian (the_model E) (alpha * detXd) s Cs u0x u1x (pv_e0ty P);
          det = detXd * s 8;
          detn = basis_addInterpFieldsTranspose B 1 1 pt (array_of [det]) (ja_detn acc);
          (res2, dd) = TacsShellAddDispGradSens U vpn B pt T XdinvT XdinvzT
                         du0x du1x res1 (ja_dd acc);
          d2et = detXd * alpha * Cs 21;
          d2etn = basis_addInterpFieldsOuterProduct B 1 1 1 1 pt (array_of [d2et])
                    (ja_d2etn acc);
          (mat2, d2d, d2du) = TacsShellAddDispGradHessian U vpn B pt T XdinvT XdinvzT
                                d2u0x d2u1x d2u0xu1x mat1 (ja_d2d acc) (ja_d2du acc);
          dgty = mat3x3SymmTransformTransSens U XdinvT de0ty;
          d2gty = mat3x3SymmTransformTransHessian U XdinvT d2e0ty;
          (d2etyu, d2etyd) = TacsShellAddTyingDispCoupling U B pt T XdinvT XdinvzT
                               d2e0tyu0x d2e0tyu1x (ja_d2etyu acc) (ja_d2etyd acc);
          dety = basis_addInterpTyingStrainTranspose B pt dgty (ja_dety acc);
          d2ety = basis_addInterpTyingStrainHessian B pt d2gty (ja_d2ety acc);
          moments = con_evalMassMoments (con E) elemIndex pt X;
          u0ddot = basis_interpFields B vpn 3 pt ddvars;
          d0ddot = basis_interpFields B 3 3 pt dddot;
          du0dot = array_of [detXd * (moments 0 * u0ddot 0 + moments 1 * d0ddot 0),
                             detXd * (moments 0 * u0ddot 1 + moments 1 * d0ddot 1),
                             detXd * (moments 0 * u0ddot 2 + moments 1 * d0ddot 2)];
          res3 = basis_addInterpFieldsTranspose B vpn 3 pt du0dot res2;
          dd0dot = array_of [detXd * (moments 1 * u0ddot 0 + moments 2 * d0ddot 0),
                             detXd * (moments 1 * u0ddot 1 + moments 2 * d0ddot 1),
                             detXd * (moments 1 * u0ddot 2 + moments 2 * d0ddot 2)];
          dTdot = basis_addInterpFieldsTranspose B 3 3 pt dd0dot (ja_dTdot acc);
          d2u0dot = diagonal3 (gamma * detXd * moments 0);
          mat3 = basis_addInterpFieldsOuterProduct B vpn vpn 3 3 pt d2u0dot mat2;
          d2Tdotd = basis_addInterpFieldsOuterProduct B 3 3 3 3 pt
                      (diagonal3 (detXd * moments 2)) (ja_d2Tdotd acc);
          d2Tdotu = basis_addInterpFieldsOuterProduct B 3 3 3 3 pt
                      (diagonal3 (detXd * moments 1)) (ja_d2Tdotu acc)
      in \<lparr>ja_res = res3, ja_mat = mat3, ja_dd = dd, ja_dTdot = dTdot, ja_d2d = d2d,
          ja_d2du = d2du, ja_d2Tdotd = d2Tdotd, ja_d2Tdotu = d2Tdotu, ja_dety = dety,
          ja_d2ety = d2ety, ja_d2etyu = d2etyu, ja_d2etyd = d2etyd, ja_detn = detn,
          ja_d2etn = d2etn\<rparr>)"

definition addJacobian_from ::
  "(array \<Rightarrow> point_vars \<Rightarrow> array)
     \<Rightarrow> TACSThermalShellElement \<Rightarrow> int \<Rightarrow> real \<Rightarrow> TacsScalar \<Rightarrow> TacsScalar \<Rightarrow> TacsScalar
     \<Rightarrow> array \<Rightarrow> array \<Rightarrow> array \<Rightarrow> array \<Rightarrow> array \<Rightarrow> array \<Rightarrow> array \<times> array" where
  "addJacobian_from stress E elemIndex time alpha beta gamma Xpts vars dvars ddvars res mat =
     (let U = the_utilities E; vpn = vars_per_node E;
          nquad = quadrature_getNumQuadraturePoints (the_quadrature E);
          N = node_level E Xpts vars;
          fn = nv_fn N;
          (d, ddot, dddot) = director_computeDirectorRates2 (the_director E) vpn offset
                               (num_nodes E) vars dvars ddvars fn;
          ety = model_computeTyingStrain (the_model E) vpn (the_basis E) Xpts fn vars d;
          acc = fold (addJacobian_from_point stress E elemIndex alpha beta gamma Xpts vars ddvars fn
                        (nv_etn N) d dddot ety)
                  [0..<nat nquad]
                  \<lparr>ja_res = res, ja_mat = mat, ja_dd = (\<lambda>_. 0), ja_dTdot = (\<lambda>_. 0),
                   ja_d2d = (\<lambda>_. 0), ja_d2du = (\<lambda>_. 0), ja_d2Tdotd = (\<lambda>_. 0),
                   ja_d2Tdotu = (\<lambda>_. 0), ja_dety = (\<lambda>_. 0), ja_d2ety = (\<lambda>_. 0),
                   ja_d2etyu = (\<lambda>_. 0), ja_d2etyd = (\<lambda>_. 0), ja_detn = (\<lambda>_. 0),
                   ja_d2etn = (\<lambda>_. 0)\<rparr>;
          (res4, mat4) = TacsShellAddDrillStrainHessian U vpn offset (the_basis E)
                           (the_director E) (the_model E) (nv_Xdn N) fn vars (nv_XdinvTn N)
                           (nv_Tn N) (nv_u0xn N) (nv_Ctn N) (ja_detn acc) (ja_d2etn acc)
                           (ja_res acc) (ja_mat acc);
          (res5, dd) = model_addComputeTyingStrainTranspose (the_model E) vpn (the_basis E)
                         Xpts fn vars d (ja_dety acc) res4 (ja_dd acc);
          (mat5, d2d, d2du) = model_addComputeTyingStrainHessian (the_model E) vpn
                                (the_basis E) alpha Xpts fn vars d (ja_dety acc)
                                (ja_d2ety acc) (ja_d2etyu acc) (ja_d2etyd acc)
                                mat4 (ja_d2d acc) (ja_d2du acc);
          (res6, mat6) = director_addDirectorJacobian (the_director E) vpn offset
                           (num_nodes E) alpha beta gamma vars dvars ddvars fn
                           (ja_dTdot acc) dd (ja_d2Tdotd acc) (ja_d2Tdotu acc) d2d d2du
                           res5 mat5
      in director_addRotationConstrJacobian (the_director E) vpn offset (num_nodes E)
           alpha vars res6 mat6)"

definition output_record_from ::
  "(array \<Rightarrow> point_vars \<Rightarrow> array) \<Rightarrow> (array
     \<Rightarrow> point_vars \<Rightarrow> TacsScalar)
     \<Rightarrow> TACSThermalShellElement \<Rightarrow> int \<Rightarrow> 32 word \<Rightarrow> array \<Rightarrow> array \<Rightarrow> array \<Rightarrow> array \<Rightarrow> array
     \<Rightarrow> array \<Rightarrow> nat \<Rightarrow> real list" where
  "output_record_from stress failure E elemIndex write_flag Xpts vars fn etn d ety index =
     (let U = the_utilities E;
          pt = basis_getNodePoint (the_basis E) index;
          P = point_level E Xpts vars fn etn d ety pt;
          X = pv_X P; e = pv_e P;
          s = stress pt P
      in (if write_flag AND TACS_OUTPUT_NODES U \<noteq> 0 then [X 0, X 1, X 2] else [])
       @ (if write_flag AND TACS_OUTPUT_DISPLACEMENTS U \<noteq> 0
          then displacement_segment E vars index else [])
       @ (if write_flag AND TACS_OUTPUT_STRAINS U \<noteq> 0 then map e [0..<9] else [])
       @ (if write_flag AND TACS_OUTPUT_STRESSES U \<noteq> 0 then map s [0..<9] else [])
       @ (if write_flag AND TACS_OUTPUT_EXTRAS U \<noteq> 0
          then [failure pt P,
                con_evalDesignFieldValue (con E) elemIndex pt X 0,
                con_evalDesignFieldValue (con E) elemIndex pt X 1,
                con_evalDesignFieldValue (con E) elemIndex pt X 2]
          else []))"

definition output_records_from ::
  "(array \<Rightarrow> point_vars \<Rightarrow> array) \<Rightarrow> (array
     \<Rightarrow> point_vars \<Rightarrow> TacsScalar)
     \<Rightarrow> TACSThermalShellElement \<Rightarrow> int \<Rightarrow> 32 word \<Rightarrow> array \<Rightarrow> array \<Rightarrow> array \<Rightarrow> real list list" where
  "output_records_from stress failure E elemIndex write_flag Xpts vars dvars =
     (let num_vis_nodes = TacsGetNumVisNodes (the_utilities E) (basis_getLayoutType (the_basis E));
          N = node_level E Xpts vars;
          d = fst (director_computeDirectorRates (the_director E) (vars_per_node E) offset
                     (num_nodes E) vars dvars (nv_fn N));
          ety = model_computeTyingStrain (the_model E) (vars_per_node E) (the_basis E)
                  Xpts (nv_fn N) vars d
      in map (output_record_from stress failure E elemIndex write_flag Xpts vars (nv_fn N)
                (nv_etn N) d ety)
           [0..<nat num_vis_nodes])"

subsection \<open>A concrete instance of the template: a two-node strip\<close>

text \<open>
  An instance small enough to follow by hand, used to run the operations on concrete
  input.  The strip has two nodes on the x axis, at \<open>Xpts[0]\<close> and \<open>Xpts[3]\<close>, with the
  linear shape functions \<open>(1 - xi)/2\<close> and \<open>(1 + xi)/2\<close> on \<open>[-1, 1]\<close> and the one-point
  Gauss rule (weight 2 at \<open>xi = 0\<close>).  There are no rotation parameters, so a node
  carries \<open>u, v, w\<close> and the temperature (four variables).  The only strains are the
  membrane strain \<open>du/dx\<close> (slot 0) and the drilling strain, half of \<open>dv/dx\<close> at the
  nodes; there are no tying points and the director is the fixed normal.  Each
  transpose or sensitivity function is the adjoint of its forward function, and each
  Hessian function the second derivative.  The constitutive object \<open>strip_con k kd a
  kappa rho\<close> is linear: stiffness \<open>k\<close> on the slots 0 to 7 and \<open>kd\<close> on the drilling
  slot, thermal strain \<open>a i * t\<close> in slot \<open>i\<close>, conductivity \<open>kappa\<close>, mass \<open>rho\<close>.
  The constants of \<open>TACSElementTypes.h\<close> have the values of that header.
\<close>

definition line_quadrature :: quadrature where
  "line_quadrature =
     \<lparr>quadrature_getNumQuadraturePoints = 1,
      quadrature_getQuadraturePoint = (\<lambda>n. (2, array_of [0, 0, 0]))\<rparr>"

definition shape :: "array \<Rightarrow> nat \<Rightarrow> real" where
  "shape pt i = (if i = 0 then (1 - pt 0) / 2 else if i = 1 then (1 + pt 0) / 2 else 0)"

definition shape_grad :: "nat \<Rightarrow> real" where
  "shape_grad i = (if i = 0 then - 1 / 2 else if i = 1 then 1 / 2 else 0)"

definition line_basis :: basis where
  "line_basis =
     \<lparr>basis_NUM_NODES = 2,
      basis_NUM_TYING_POINTS = 0,
      basis_getLayoutType = 0,
      basis_getNodePoint = (\<lambda>index. array_of [if index = 0 then - 1 else 1, 0, 0]),
      basis_interpFields = (\<lambda>vpn m pt v j.
         if j < m then shape pt 0 * v j + shape pt 1 * v (vpn + j) else 0),
      basis_interpFieldsGrad = (\<lambda>vpn m pt v k.
         if k < 2 * m \<and> even k
         then shape_grad 0 * v (k div 2) + shape_grad 1 * v (vpn + k div 2) else 0),
      basis_addInterpFieldsTranspose = (\<lambda>vpn m pt u res r.
         res r + (if r div vpn < 2 \<and> r mod vpn < m
                  then shape pt (r div vpn) * u (r mod vpn) else 0)),
      basis_addInterpFieldsGradTranspose = (\<lambda>vpn m pt g res r.
         res r + (if r div vpn < 2 \<and> r mod vpn < m
                  then shape_grad (r div vpn) * g (2 * (r mod vpn)) else 0)),
      basis_addInterpFieldsOuterProduct = (\<lambda>vi vj m n pt a mat c.
         mat c + (let row = c div (vj * 2); col = c mod (vj * 2)
                  in if row div vi < 2 \<and> row mod vi < m \<and> col mod vj < n
                     then shape pt (row div vi) * shape pt (col div vj)
                          * a ((row mod vi) * n + col mod vj)
                     else 0)),
      basis_addInterpGradOuterProduct = (\<lambda>vi vj m n pt a mat c.
         mat c + (let row = c div (vj * 2); col = c mod (vj * 2)
                  in if row div vi < 2 \<and> row mod vi < m \<and> col mod vj < n
                     then shape_grad (row div vi) * shape_grad (col div vj)
                          * a (2 * (row mod vi) * (2 * n) + 2 * (col mod vj))
                     else 0)),
      basis_interpTyingStrain = (\<lambda>pt ety. (\<lambda>_. 0)),
      basis_addInterpTyingStrainTranspose = (\<lambda>pt dgty dety. dety),
      basis_addInterpTyingStrainHessian = (\<lambda>pt d2gty d2ety. d2ety)\<rparr>"

definition fixed_director :: director where
  "fixed_director =
     \<lparr>director_NUM_PARAMETERS = 0,
      director_computeDirectorRates = (\<lambda>vpn off nn vars dvars fn. (fn, (\<lambda>_. 0))),
      director_computeDirectorRates2 =
        (\<lambda>vpn off nn vars dvars ddvars fn. (fn, (\<lambda>_. 0), (\<lambda>_. 0))),
      director_addDirectorResidual = (\<lambda>vpn off nn vars dvars ddvars fn dTdot dd res. res),
      director_addRotationConstraint = (\<lambda>vpn off nn vars res. res),
      director_addDirectorJacobian =
        (\<lambda>vpn off nn alpha beta gamma vars dvars ddvars fn dTdot dd d2Tdotd d2Tdotu d2d d2du
            res mat. (res, mat)),
      director_addRotationConstrJacobian = (\<lambda>vpn off nn alpha vars res mat. (res, mat))\<rparr>"

definition membrane_model :: model where
  "membrane_model =
     \<lparr>model_computeTyingStrain = (\<lambda>vpn B Xpts fn vars d. (\<lambda>_. 0)),
      model_evalStrain = (\<lambda>u0x u1x e0ty. array_of [u0x 0, 0, 0, 0, 0, 0, 0, 0]),
      model_evalStrainSens = (\<lambda>scale s u0x u1x. (array_of [scale * s 0], (\<lambda>_. 0), (\<lambda>_. 0))),
      model_evalStrainHessian = (\<lambda>scale s Cs u0x u1x e0ty.
         (array_of [scale * Cs 0], (\<lambda>_. 0), (\<lambda>_. 0), (\<lambda>_. 0), (\<lambda>_. 0), (\<lambda>_. 0))),
      model_addComputeTyingStrainTranspose =
        (\<lambda>vpn B Xpts fn vars d dety res dd. (res, dd)),
      model_addComputeTyingStrainHessian =
        (\<lambda>vpn B alpha Xpts fn vars d dety d2ety d2etyu d2etyd mat d2d d2du.
           (mat, d2d, d2du))\<rparr>"

definition identity_transform :: TACSShellTransform where
  "identity_transform =
     \<lparr>transform_computeTransform = (\<lambda>Xxi n0. array_of [1, 0, 0, 0, 1, 0, 0, 0, 1])\<rparr>"

definition drill_weight :: "array \<Rightarrow> nat \<Rightarrow> real" where
  "drill_weight Xdn i = 1 / (4 * Xdn (9 * i))"

definition pair_pattern :: "nat \<Rightarrow> nat \<Rightarrow> nat \<Rightarrow> real \<Rightarrow> array \<Rightarrow> array" where
  "pair_pattern ncols r1 r2 w mat =
     (\<lambda>c. mat c + (if c = r1 * ncols + r1 \<or> c = r2 * ncols + r2 then w
                    else if c = r1 * ncols + r2 \<or> c = r2 * ncols + r1 then - w else 0))"

definition strip_utilities :: shell_utilities where
  "strip_utilities =
     \<lparr>TacsShellComputeNodeNormals = (\<lambda>B Xpts.
         ((\<lambda>k. if k < 6 \<and> k mod 3 = 2 then 1 else 0),
          (\<lambda>k. if k = 0 \<or> k = 9 then (Xpts 3 - Xpts 0) / 2
                else if k \<in> {4, 8, 13, 17} then 1 else 0))),
      TacsShellComputeDrillStrain = (\<lambda>vpn off B Dir M Tr Xdn fn vars.
         ((\<lambda>k. if k = 0 \<or> k = 9 then 1 / Xdn k else 0),
          (\<lambda>_. 0),
          (\<lambda>k. if k = 3 \<or> k = 12 then (vars (vpn + 1) - vars 1) / 2 / Xdn (k - 3) else 0),
          (\<lambda>_. 0),
          (\<lambda>i. if i < 2 then (vars (vpn + 1) - vars 1) / 2 / Xdn (9 * i) / 2 else 0))),
      TacsShellComputeDispGrad = (\<lambda>vpn B pt Xpts vars fn d Xxi n0 T.
         (Xxi 0,
          array_of [1 / Xxi 0, 0, 0, 0, 1, 0, 0, 0, 1],
          (\<lambda>_. 0),
          array_of [(vars vpn - vars 0) / 2 / Xxi 0],
          (\<lambda>_. 0))),
      TacsShellAddDispGradSens = (\<lambda>vpn B pt T XdinvT XdinvzT du0x du1x res dd.
         (res(0 := res 0 - du0x 0 * XdinvT 0 / 2, vpn := res vpn + du0x 0 * XdinvT 0 / 2), dd)),
      TacsShellAddDrillStrainSens =
        (\<lambda>vpn off B Dir M Xdn fn vars XdinvTn Tn u0xn Ctn detn res.
           (let g = detn 0 * drill_weight Xdn 0 + detn 1 * drill_weight Xdn 1
            in res(1 := res 1 - g, vpn + 1 := res (vpn + 1) + g))),
      TacsShellAddDispGradHessian =
        (\<lambda>vpn B pt T XdinvT XdinvzT d2u0x d2u1x d2u0xu1x mat d2d d2du.
           (pair_pattern (2 * vpn) 0 vpn (d2u0x 0 * (XdinvT 0 / 2) * (XdinvT 0 / 2)) mat,
            d2d, d2du)),
      TacsShellAddTyingDispCoupling =
        (\<lambda>B pt T XdinvT XdinvzT d2e0tyu0x d2e0tyu1x d2etyu d2etyd. (d2etyu, d2etyd)),
      TacsShellAddDrillStrainHessian =
        (\<lambda>vpn off B Dir M Xdn fn vars XdinvTn Tn u0xn Ctn detn d2etn res mat.
           (let g = detn 0 * drill_weight Xdn 0 + detn 1 * drill_weight Xdn 1;
                w = d2etn 0 * drill_weight Xdn 0 * drill_weight Xdn 0
                  + d2etn 1 * drill_weight Xdn 0 * drill_weight Xdn 1
                  + d2etn 2 * drill_weight Xdn 1 * drill_weight Xdn 0
                  + d2etn 3 * drill_weight Xdn 1 * drill_weight Xdn 1
            in (res(1 := res 1 - g, vpn + 1 := res (vpn + 1) + g),
                pair_pattern (2 * vpn) 1 (vpn + 1) w mat))),
      mat3x3SymmTransformTranspose = (\<lambda>XdinvT gty. (\<lambda>_. 0)),
      mat3x3SymmTransformTransSens = (\<lambda>XdinvT de0ty. (\<lambda>_. 0)),
      mat3x3SymmTransformTransHessian = (\<lambda>XdinvT d2e0ty. (\<lambda>_. 0)),
      vec3Dot = (\<lambda>a b. a 0 * b 0 + a 1 * b 1 + a 2 * b 2),
      extractTangentStiffness = (\<lambda>Cs. (Cs, from_cell 6 Cs, from_cell 12 Cs, from_cell 18 Cs, Cs 21)),
      computeStress = (\<lambda>A B D As drill e. array_of
         [A 0 * e 0 + A 1 * e 1 + A 2 * e 2 + B 0 * e 3 + B 1 * e 4 + B 2 * e 5,
          A 1 * e 0 + A 3 * e 1 + A 4 * e 2 + B 1 * e 3 + B 3 * e 4 + B 4 * e 5,
          A 2 * e 0 + A 4 * e 1 + A 5 * e 2 + B 2 * e 3 + B 4 * e 4 + B 5 * e 5,
          B 0 * e 0 + B 1 * e 1 + B 2 * e 2 + D 0 * e 3 + D 1 * e 4 + D 2 * e 5,
          B 1 * e 0 + B 3 * e 1 + B 4 * e 2 + D 1 * e 3 + D 3 * e 4 + D 4 * e 5,
          B 2 * e 0 + B 4 * e 1 + B 5 * e 2 + D 2 * e 3 + D 4 * e 4 + D 5 * e 5,
          As 0 * e 6 + As 1 * e 7,
          As 1 * e 6 + As 2 * e 7,
          drill * e 8]),
      TacsGetNumVisNodes = (\<lambda>layout. 2),
      TACS_BEAM_OR_SHELL_ELEMENT = 4,
      TACS_OUTPUT_NODES = 2,
      TACS_OUTPUT_DISPLACEMENTS = 4,
      TACS_OUTPUT_STRAINS = 8,
      TACS_OUTPUT_STRESSES = 16,
      TACS_OUTPUT_EXTRAS = 32\<rparr>"

definition strip_con :: "real \<Rightarrow> real \<Rightarrow> array \<Rightarrow> real \<Rightarrow> real \<Rightarrow> TACSShellConstitutive" where
  "strip_con k kd a kappa rho =
     \<lparr>con_evalStress = (\<lambda>elemIndex pt X e i.
         if i < 8 then k * e i else if i = 8 then kd * e 8 else 0),
      con_evalMassMoments = (\<lambda>elemIndex pt X. array_of [rho, 0, 0]),
      con_evalThermalStrain = (\<lambda>elemIndex pt X t i. if i < 9 then a i * t else 0),
      con_evalHeatFlux = (\<lambda>elemIndex pt X tx. array_of [kappa * tx 0, kappa * tx 1]),
      con_evalTangentHeatFlux = (\<lambda>elemIndex pt X. array_of [kappa, 0, kappa]),
      con_evalTangentStiffness = (\<lambda>elemIndex pt X i.
         if i \<in> {0, 3, 5, 12, 15, 17, 18, 20} then k else if i = 21 then kd else 0),
      con_evalFailure = (\<lambda>elemIndex pt X e. e 0),
      con_evalDesignFieldValue = (\<lambda>elemIndex pt X index. 0)\<rparr>"

definition strip_element :: "TACSShellConstitutive \<Rightarrow> TACSThermalShellElement" where
  "strip_element c =
     \<lparr>the_quadrature = line_quadrature, the_basis = line_basis, the_director = fixed_director,
      the_model = membrane_model, the_utilities = strip_utilities,
      transform = identity_transform, con = c\<rparr>"

definition strip_Xpts :: "real \<Rightarrow> array" where
  "strip_Xpts len = array_of [0, 0, 0, len, 0, 0]"

definition strip_vars :: array where
  "strip_vars = array_of [0, 0, 0, 10, 1, 2, 0, 30]"

definition strip_dvars :: array where
  "strip_dvars = array_of [1, 0, 0, 0, 2, 0, 0, 0]"

definition strip_midpoint :: array where
  "strip_midpoint = array_of [0, 0, 0]"

definition drilling_expansion :: array where
  "drilling_expansion = (\<lambda>i. if i = 8 then 1 else 0)"

definition strip_point :: "TACSShellConstitutive \<Rightarrow> array \<Rightarrow> point_vars" where
  "strip_point c pt =
     (let E = strip_element c; N = node_level E (strip_Xpts 2) strip_vars
      in point_level E (strip_Xpts 2) strip_vars (nv_fn N) (nv_etn N) (nv_fn N) (\<lambda>_. 0) pt)"

section \<open>Proofs: TACSAverageTemperature\<close>

lemma memset_zero_apply:
  "memset_zero a n i = (if i < n then 0 else a i)"
  unfolding memset_zero_def by (induction n) auto

lemma measure_sum_append: "measure_sum (xs @ ys) = measure_sum xs + measure_sum ys"
  by (simp add: measure_sum_def)

lemma weighted_sum_append:
  "weighted_temperature_sum (xs @ ys) = weighted_temperature_sum xs + weighted_temperature_sum ys"
  by (simp add: weighted_temperature_sum_def)

lemma elementWiseEval_point_eq:
  "elementWiseEval_point (visit_elemIndex v) (visit_element v) basis (visit_time v)
      (visit_Xpts v) (visit_vars v) (visit_dvars v) (visit_ddvars v) i f =
   f\<lparr>volume := volume f + measure_sum (contributing_point v basis i),
     integral_temp := integral_temp f + weighted_temperature_sum (contributing_point v basis i)\<rparr>"
  by (simp add: elementWiseEval_point_def contributing_point_def Let_def measure_sum_def
      weighted_temperature_sum_def algebra_simps split: prod.splits)

lemma fold_points:
  "fold (elementWiseEval_point (visit_elemIndex v) (visit_element v) basis (visit_time v)
      (visit_Xpts v) (visit_vars v) (visit_dvars v) (visit_ddvars v)) is f =
   f\<lparr>volume := volume f + measure_sum (concat (map (contributing_point v basis) is)),
     integral_temp := integral_temp f
        + weighted_temperature_sum (concat (map (contributing_point v basis) is))\<rparr>"
proof (induction "is" arbitrary: f)
  case Nil
  show ?case by (simp add: measure_sum_def weighted_temperature_sum_def)
next
  case (Cons i rest)
  show ?case
    unfolding fold_Cons comp_apply Cons.IH
    by (simp add: elementWiseEval_point_eq measure_sum_append weighted_sum_append add.assoc)
qed

lemma visit_element_eval_eq:
  "visit_element_eval ftype v f =
   f\<lparr>volume := volume f + measure_sum (contributing_points v),
     integral_temp := integral_temp f + weighted_temperature_sum (contributing_points v)\<rparr>"
proof (cases "element_getElementBasis (visit_element v)")
  case None
  then show ?thesis
    by (simp add: visit_element_eval_def elementWiseEval_def contributing_points_def
        measure_sum_def weighted_temperature_sum_def)
next
  case (Some basis)
  have "contributing_points v
        = concat (map (contributing_point v basis) [0..<nat (ebasis_getNumQuadraturePoints basis)])"
    by (simp add: contributing_points_def Some)
  then show ?thesis
    by (simp add: visit_element_eval_def elementWiseEval_def Some fold_points)
qed

lemma fold_visits:
  "fold (visit_element_eval ftype) vs f =
   f\<lparr>volume := volume f + measure_sum (concat (map contributing_points vs)),
     integral_temp := integral_temp f
        + weighted_temperature_sum (concat (map contributing_points vs))\<rparr>"
proof (induction vs arbitrary: f)
  case Nil
  show ?case by (simp add: measure_sum_def weighted_temperature_sum_def)
next
  case (Cons v rest)
  show ?case
    unfolding fold_Cons comp_apply Cons.IH
    by (simp add: visit_element_eval_eq measure_sum_append weighted_sum_append add.assoc)
qed

lemma evaluate_partition_volume:
  "volume (evaluate_partition ftype p) = measure_sum (concat (map contributing_points (snd p)))"
  by (simp add: evaluate_partition_def fold_visits initEvaluation_def)

lemma evaluate_partition_integral:
  "integral_temp (evaluate_partition ftype p)
     = weighted_temperature_sum (concat (map contributing_points (snd p)))"
  by (simp add: evaluate_partition_def fold_visits initEvaluation_def)

lemma measure_sum_concat:
  "measure_sum (concat xss) = sum_list (map measure_sum xss)"
  by (induction xss) (simp_all add: measure_sum_append, simp add: measure_sum_def)

lemma weighted_sum_concat:
  "weighted_temperature_sum (concat xss) = sum_list (map weighted_temperature_sum xss)"
  by (induction xss) (simp_all add: weighted_sum_append, simp add: weighted_temperature_sum_def)

lemma reduced_volume:
  "sum_list (map (\<lambda>p. volume (evaluate_partition ftype p)) partitions)
     = measure_sum (all_points partitions)"
  by (simp add: all_points_def measure_sum_concat evaluate_partition_volume comp_def)

lemma reduced_integral:
  "sum_list (map (\<lambda>p. integral_temp (evaluate_partition ftype p)) partitions)
     = weighted_temperature_sum (all_points partitions)"
  by (simp add: all_points_def weighted_sum_concat evaluate_partition_integral comp_def)

lemma evaluate_function_eq:
  "evaluate_function ftype partitions =
     map (\<lambda>p. (evaluate_partition ftype p)
               \<lparr>volume := measure_sum (all_points partitions),
                integral_temp := weighted_temperature_sum (all_points partitions)\<rparr>) partitions"
  by (simp add: evaluate_function_def finalEvaluation_def Let_def MPI_Allreduce_SUM_def
      array_of_def comp_def reduced_volume reduced_integral)

text \<open>
  Claim C7.  After the evaluation protocol (reset, visits of the elements of each
  partition, one sum-reduction of the two accumulators in \<open>finalEvaluation\<close>), the
  value that \<open>getFunctionValue\<close> returns on every rank is the sum of
  \<open>weight * detJ * temperature\<close> over all contributing quadrature points of all
  elements of all partitions, divided once by the sum of \<open>weight * detJ\<close> over the
  same points: numerator and denominator are summed separately, and no average of
  averages is taken.
\<close>

theorem getFunctionValue_weighted_average:
  "map getFunctionValue (evaluate_function ftype partitions) =
     replicate (length partitions)
       (TacsDiv (weighted_temperature_sum (all_points partitions))
                (measure_sum (all_points partitions)))"
  by (simp add: evaluate_function_eq getFunctionValue_def comp_def map_replicate_const)

lemma contributing_point_Nil:
  "contributing_point v basis i = [] \<longleftrightarrow>
     \<not> point_count (visit_elemIndex v) (visit_element v) basis (visit_time v)
         (visit_Xpts v) (visit_vars v) (visit_dvars v) (visit_ddvars v) i \<ge> 1"
  by (simp add: contributing_point_def point_count_def Let_def)

lemma contributing_points_Nil:
  "contributing_points v = [] \<longleftrightarrow> \<not> visit_contributes v"
  by (auto simp: contributing_points_def visit_contributes_def contributes_def
      contributing_point_Nil list_ex_iff split: option.splits)

lemma all_points_Nil:
  "all_points partitions = [] \<longleftrightarrow>
     (\<forall>p \<in> set partitions. \<forall>v \<in> set (snd p). \<not> visit_contributes v)"
  by (auto simp: all_points_def contributing_points_Nil)

lemma SVSens_point_call:
  "getElementSVSens_point f elemIndex element basis time alpha beta gamma Xpts vars dvars ddvars
     i dfdu
   = (if point_count elemIndex element basis time Xpts vars dvars ddvars i \<ge> 1
      then element_addPointQuantitySVSens element elemIndex TACS_TEMPERATURE time
             alpha beta gamma i (snd (ebasis_getQuadraturePoint basis i))
             Xpts vars dvars ddvars (volume_quotient f Xpts basis i) dfdu
      else dfdu)"
  by (simp add: getElementSVSens_point_def point_count_def volume_quotient_def Let_def
      split: prod.splits)

lemma DVSens_point_call:
  "addElementDVSens_point f elemIndex element basis time scale Xpts vars dvars ddvars dvLen
     i dfdx
   = (if point_count elemIndex element basis time Xpts vars dvars ddvars i \<ge> 1
      then element_addPointQuantityDVSens element elemIndex TACS_TEMPERATURE time
             scale i (snd (ebasis_getQuadraturePoint basis i))
             Xpts vars dvars ddvars (volume_quotient f Xpts basis i) dvLen dfdx
      else dfdx)"
  by (simp add: addElementDVSens_point_def point_count_def volume_quotient_def Let_def
      split: prod.splits)

lemma SVSens_quotients:
  "getElementSVSens f elemIndex element time alpha beta gamma Xpts vars dvars ddvars dfdu
     = SVSens_calls (volume_quotient f Xpts) elemIndex element time alpha beta gamma
         Xpts vars dvars ddvars dfdu"
proof -
  have "getElementSVSens_point f elemIndex element basis time alpha beta gamma Xpts vars dvars
          ddvars
      = (\<lambda>i acc.
           if point_count elemIndex element basis time Xpts vars dvars ddvars i \<ge> 1
           then element_addPointQuantitySVSens element elemIndex TACS_TEMPERATURE time
                  alpha beta gamma i (snd (ebasis_getQuadraturePoint basis i))
                  Xpts vars dvars ddvars (volume_quotient f Xpts basis i) acc
           else acc)" for basis
    by (rule ext, rule ext, rule SVSens_point_call)
  then show ?thesis
    by (simp add: getElementSVSens_def SVSens_calls_def Let_def split: option.splits)
qed

lemma DVSens_quotients:
  "addElementDVSens f elemIndex element time scale Xpts vars dvars ddvars dvLen dfdx
     = DVSens_calls (volume_quotient f Xpts) elemIndex element time scale
         Xpts vars dvars ddvars dvLen dfdx"
proof -
  have "addElementDVSens_point f elemIndex element basis time scale Xpts vars dvars ddvars dvLen
      = (\<lambda>i acc.
           if point_count elemIndex element basis time Xpts vars dvars ddvars i \<ge> 1
           then element_addPointQuantityDVSens element elemIndex TACS_TEMPERATURE time
                  scale i (snd (ebasis_getQuadraturePoint basis i))
                  Xpts vars dvars ddvars (volume_quotient f Xpts basis i) dvLen acc
           else acc)" for basis
    by (rule ext, rule ext, rule DVSens_point_call)
  then show ?thesis
    by (simp add: addElementDVSens_def DVSens_calls_def split: option.splits)
qed

lemma zero_volume_quotient:
  "volume f = 0 \<Longrightarrow> volume_quotient f Xpts = (\<lambda>basis i. None)"
  by (simp add: volume_quotient_def TacsDiv_def fun_eq_iff)

lemma no_contribution_final:
  assumes "all_points partitions = []" and "f \<in> set (evaluate_function ftype partitions)"
  shows "volume f = 0 \<and> integral_temp f = 0 \<and> getFunctionValue f = None"
  using assms
  by (auto simp: evaluate_function_eq getFunctionValue_def TacsDiv_def measure_sum_def
      weighted_temperature_sum_def)

text \<open>
  Claim C10.  \<open>getFunctionValue\<close> divides by \<open>volume\<close> without a guard.  When no
  quadrature point contributed since \<open>initEvaluation\<close> (every visited element lacks a
  basis or reports a count below 1 at each of its points), \<open>volume\<close> and
  \<open>integral_temp\<close> are zero on every rank after \<open>finalEvaluation\<close> and the quotient
  has no value.  The scalings of \<open>getElementSVSens\<close> and \<open>addElementDVSens\<close> divide by the
  same \<open>volume\<close>, also without a guard: at every point with a count of one or more the
  element is handed the quotient \<open>detJ * weight / volume\<close>, and with a zero volume it is
  handed a scaling that is no number at each of these points, while the loop runs on.
\<close>

theorem zero_volume_division_unguarded:
  "((\<forall>p \<in> set partitions. \<forall>v \<in> set (snd p). \<not> visit_contributes v) \<longrightarrow>
      (\<forall>f \<in> set (evaluate_function ftype partitions).
          volume f = 0 \<and> integral_temp f = 0 \<and> getFunctionValue f = None))
   \<and> getElementSVSens f elemIndex element time alpha beta gamma Xpts vars dvars ddvars dfdu
       = SVSens_calls (volume_quotient f Xpts) elemIndex element time alpha beta gamma
           Xpts vars dvars ddvars dfdu
   \<and> addElementDVSens f elemIndex element time scale Xpts vars dvars ddvars dvLen dfdx
       = DVSens_calls (volume_quotient f Xpts) elemIndex element time scale
           Xpts vars dvars ddvars dvLen dfdx
   \<and> (volume f = 0 \<longrightarrow>
        getElementSVSens f elemIndex element time alpha beta gamma Xpts vars dvars ddvars dfdu
          = SVSens_calls (\<lambda>basis i. None) elemIndex element time alpha beta gamma
              Xpts vars dvars ddvars dfdu
        \<and> addElementDVSens f elemIndex element time scale Xpts vars dvars ddvars dvLen dfdx
          = DVSens_calls (\<lambda>basis i. None) elemIndex element time scale
              Xpts vars dvars ddvars dvLen dfdx)"
  using no_contribution_final[of partitions _ ftype]
  by (simp add: all_points_Nil SVSens_quotients DVSens_quotients zero_volume_quotient)

text \<open>
  Claim C8.  For every element, state and time, \<open>getElementXptSens\<close> leaves zero in
  each of the \<open>3 * numNodes\<close> cells of \<open>dfdXpts\<close> (three per node), whatever they held
  and whatever the node locations are; the cells behind them are not touched.
\<close>

theorem getElementXptSens_all_zero:
  "(\<forall>i < 3 * element_getNumNodes element.
       getElementXptSens f elemIndex element time scale Xpts vars dvars ddvars dfdXpts i = 0)
   \<and> (\<forall>i \<ge> 3 * element_getNumNodes element.
       getElementXptSens f elemIndex element time scale Xpts vars dvars ddvars dfdXpts i
         = dfdXpts i)"
  by (simp add: getElementXptSens_def memset_zero_apply)

lemmas fixture_defs = bar_basis_def bar_element_def bar_visit_def array_of_def
  TACSAverageTemperature_new_def

lemma bar_visit_points [simp]: "contributing_points (bar_visit (Some bar_basis) len temp) = [(len, temp)]"
  by (simp add: contributing_points_def contributing_point_def fixture_defs Let_def)

text \<open>
  The reduction scenario on two partitions with one bar each, of measures 1 and 3 and
  temperatures 10 and 20: the value is \<open>(1*10 + 3*20) / (1 + 3) = 35/2\<close> on both ranks.
  Each partition evaluated alone gives 10 and 20; their mean, 15, is not the value.
\<close>

theorem getFunctionValue_weighted_average_witness:
  "map getFunctionValue (evaluate_function INTEGRATE
      [(TACSAverageTemperature_new, [bar_visit (Some bar_basis) 1 10]),
       (TACSAverageTemperature_new, [bar_visit (Some bar_basis) 3 20])])
     = [Some (35 / 2), Some (35 / 2)]
   \<and> map getFunctionValue (evaluate_function INTEGRATE
      [(TACSAverageTemperature_new, [bar_visit (Some bar_basis) 1 10])]) = [Some 10]
   \<and> map getFunctionValue (evaluate_function INTEGRATE
      [(TACSAverageTemperature_new, [bar_visit (Some bar_basis) 3 20])]) = [Some 20]"
  using getFunctionValue_weighted_average [of INTEGRATE
      "[(TACSAverageTemperature_new, [bar_visit (Some bar_basis) 1 10]),
        (TACSAverageTemperature_new, [bar_visit (Some bar_basis) 3 20])]"]
    getFunctionValue_weighted_average [of INTEGRATE
      "[(TACSAverageTemperature_new, [bar_visit (Some bar_basis) 1 10])]"]
    getFunctionValue_weighted_average [of INTEGRATE
      "[(TACSAverageTemperature_new, [bar_visit (Some bar_basis) 3 20])]"]
  by (simp add: all_points_def weighted_temperature_sum_def measure_sum_def TacsDiv_def)

theorem getElementXptSens_all_zero_witness:
  "getElementXptSens TACSAverageTemperature_new 0 (bar_element (Some bar_basis)) 0 1
      (array_of [0, 0, 0, 1, 0, 0]) (array_of [10, 10]) (\<lambda>_. 0) (\<lambda>_. 0) (\<lambda>_. 7) 5 = 0
   \<and> getElementXptSens TACSAverageTemperature_new 0 (bar_element (Some bar_basis)) 0 1
      (array_of [0, 0, 0, 1, 0, 0]) (array_of [10, 10]) (\<lambda>_. 0) (\<lambda>_. 0) (\<lambda>_. 7) 6 = 7"
  using getElementXptSens_all_zero [of "bar_element (Some bar_basis)"
      TACSAverageTemperature_new 0 0 1 "array_of [0, 0, 0, 1, 0, 0]" "array_of [10, 10]"
      "\<lambda>_. 0" "\<lambda>_. 0" "\<lambda>_. 7"]
  by (simp add: bar_element_def)

theorem zero_volume_division_unguarded_witness:
  "map getFunctionValue (evaluate_function INTEGRATE
      [(TACSAverageTemperature_new, [bar_visit None 1 10])]) = [None]
   \<and> getElementSVSens TACSAverageTemperature_new 0 (bar_element (Some bar_basis)) 0 1 0 0
        (array_of [0, 0, 0, 1, 0, 0]) (array_of [10, 10]) (\<lambda>_. 0) (\<lambda>_. 0) (\<lambda>_. 7)
      = element_addPointQuantitySVSens (bar_element (Some bar_basis)) 0 TACS_TEMPERATURE 0 1 0 0
          0 (array_of [0, 0, 0]) (array_of [0, 0, 0, 1, 0, 0]) (array_of [10, 10]) (\<lambda>_. 0)
          (\<lambda>_. 0) None ((\<lambda>_. 7)(0 := 0, 1 := 0))
   \<and> addElementDVSens TACSAverageTemperature_new 0 (bar_element (Some bar_basis)) 0 1
        (array_of [0, 0, 0, 1, 0, 0]) (array_of [10, 10]) (\<lambda>_. 0) (\<lambda>_. 0) 0 (\<lambda>_. 7)
      = (\<lambda>_. 7)"
proof -
  let ?ps = "[(TACSAverageTemperature_new, [bar_visit None 1 10])]"
  let ?bar = "bar_element (Some bar_basis)"
  have quiet: "\<forall>p \<in> set ?ps. \<forall>v \<in> set (snd p). \<not> visit_contributes v"
    by (simp add: visit_contributes_def contributes_def fixture_defs)
  have empty: "volume TACSAverageTemperature_new = 0"
    by (simp add: TACSAverageTemperature_new_def)
  have len: "length (evaluate_function INTEGRATE ?ps) = 1"
    by (simp add: evaluate_function_def finalEvaluation_def Let_def)
  have count: "point_count 0 ?bar bar_basis 0 (array_of [0, 0, 0, 1, 0, 0]) (array_of [10, 10])
      (\<lambda>_. 0) (\<lambda>_. 0) 0 = 1"
    by (simp add: point_count_def bar_element_def)
  have parts: "element_getElementBasis ?bar = Some bar_basis" "element_getNumVariables ?bar = 2"
    "nat (ebasis_getNumQuadraturePoints bar_basis) = 1"
    "snd (ebasis_getQuadraturePoint bar_basis 0) = array_of [0, 0, 0]"
    by (simp_all add: bar_element_def bar_basis_def)
  have zeroed: "memset_zero (\<lambda>_. 7) 2 = (\<lambda>_. 7::real)(0 := 0, 1 := 0)"
    by (simp add: memset_zero_def eval_nat_numeral)
  have dv: "element_addPointQuantityDVSens ?bar = (\<lambda>ei q t sc i pt X v dv ddv dfdq len dfdx. dfdx)"
    by (simp add: bar_element_def)
  from zero_volume_division_unguarded [of ?ps INTEGRATE TACSAverageTemperature_new 0
      ?bar 0 1 0 0 "array_of [0, 0, 0, 1, 0, 0]" "array_of [10, 10]"
      "\<lambda>_. 0" "\<lambda>_. 0" "\<lambda>_. 7" 1 0 "\<lambda>_. 7"] quiet empty
  have a: "\<forall>f \<in> set (evaluate_function INTEGRATE ?ps). getFunctionValue f = None"
    and b: "getElementSVSens TACSAverageTemperature_new 0 ?bar 0 1 0 0
        (array_of [0, 0, 0, 1, 0, 0]) (array_of [10, 10]) (\<lambda>_. 0) (\<lambda>_. 0) (\<lambda>_. 7)
      = SVSens_calls (\<lambda>basis i. None) 0 ?bar 0 1 0 0
          (array_of [0, 0, 0, 1, 0, 0]) (array_of [10, 10]) (\<lambda>_. 0) (\<lambda>_. 0) (\<lambda>_. 7)"
    and c: "addElementDVSens TACSAverageTemperature_new 0 ?bar 0 1
        (array_of [0, 0, 0, 1, 0, 0]) (array_of [10, 10]) (\<lambda>_. 0) (\<lambda>_. 0) 0 (\<lambda>_. 7)
      = DVSens_calls (\<lambda>basis i. None) 0 ?bar 0 1
          (array_of [0, 0, 0, 1, 0, 0]) (array_of [10, 10]) (\<lambda>_. 0) (\<lambda>_. 0) 0 (\<lambda>_. 7)"
    by blast+
  from len obtain f where f: "evaluate_function INTEGRATE ?ps = [f]"
    by (cases "evaluate_function INTEGRATE ?ps") auto
  with a have first: "map getFunctionValue (evaluate_function INTEGRATE ?ps) = [None]"
    by simp
  have second: "SVSens_calls (\<lambda>basis i. None) 0 ?bar 0 1 0 0
          (array_of [0, 0, 0, 1, 0, 0]) (array_of [10, 10]) (\<lambda>_. 0) (\<lambda>_. 0) (\<lambda>_. 7)
      = element_addPointQuantitySVSens ?bar 0 TACS_TEMPERATURE 0 1 0 0
          0 (array_of [0, 0, 0]) (array_of [0, 0, 0, 1, 0, 0]) (array_of [10, 10]) (\<lambda>_. 0)
          (\<lambda>_. 0) None ((\<lambda>_. 7)(0 := 0, 1 := 0))"
    by (simp add: SVSens_calls_def parts count zeroed)
  have third: "DVSens_calls (\<lambda>basis i. None) 0 ?bar 0 1
          (array_of [0, 0, 0, 1, 0, 0]) (array_of [10, 10]) (\<lambda>_. 0) (\<lambda>_. 0) 0 (\<lambda>_. 7)
      = (\<lambda>_. 7)"
    by (simp add: DVSens_calls_def parts count dv)
  from first b c second third show ?thesis
    by simp
qed

section \<open>Proofs: TACSThermalShellElement\<close>

subsection \<open>Strain and stress at a point\<close>

lemma mechanical_strain_apply:
  "mechanical_strain e eth i = (if i < 9 then e i - eth i else 0)"
proof -
  have "fold (\<lambda>i em. em(i := e i - eth i)) [0..<n] a i = (if i < n then e i - eth i else a i)"
    for n a
    by (induction n) auto
  then show ?thesis by (simp add: mechanical_strain_def)
qed

lemma mechanical_stress_sel:
  "sv_t (mechanical_stress E elemIndex vars pt X e)
     = basis_interpFields (the_basis E) (vars_per_node E) 1 pt (from_cell 3 vars) 0"
  "sv_eth (mechanical_stress E elemIndex vars pt X e)
     = con_evalThermalStrain (con E) elemIndex pt X
         (sv_t (mechanical_stress E elemIndex vars pt X e))"
  "sv_em (mechanical_stress E elemIndex vars pt X e)
     = mechanical_strain e (sv_eth (mechanical_stress E elemIndex vars pt X e))"
  "sv_s (mechanical_stress E elemIndex vars pt X e)
     = con_evalStress (con E) elemIndex pt X (sv_em (mechanical_stress E elemIndex vars pt X e))"
  by (simp_all add: mechanical_stress_def Let_def)

lemma tangent_stress_sel:
  "sv_t (snd (tangent_stress E elemIndex vars pt X e))
     = basis_interpFields (the_basis E) (vars_per_node E) 1 pt (from_cell 3 vars) 0"
  "sv_eth (snd (tangent_stress E elemIndex vars pt X e))
     = con_evalThermalStrain (con E) elemIndex pt X
         (sv_t (snd (tangent_stress E elemIndex vars pt X e)))"
  "sv_em (snd (tangent_stress E elemIndex vars pt X e))
     = mechanical_strain e (sv_eth (snd (tangent_stress E elemIndex vars pt X e)))"
  "fst (tangent_stress E elemIndex vars pt X e) = con_evalTangentStiffness (con E) elemIndex pt X"
  by (simp_all add: tangent_stress_def Let_def split: prod.splits)

lemma tangent_stress_s:
  "sv_s (snd (tangent_stress E elemIndex vars pt X e))
     = (case extractTangentStiffness (the_utilities E)
               (con_evalTangentStiffness (con E) elemIndex pt X) of
          (A, B, D, As, drill) \<Rightarrow>
            computeStress (the_utilities E) A B D As drill
              (sv_em (snd (tangent_stress E elemIndex vars pt X e))))"
  by (simp add: tangent_stress_def Let_def split: prod.splits)

lemma point_level_e8:
  "pv_e (point_level E Xpts vars fn etn d ety pt) 8 = pv_et (point_level E Xpts vars fn etn d ety pt)"
  "pv_et (point_level E Xpts vars fn etn d ety pt) = basis_interpFields (the_basis E) 1 1 pt etn 0"
  by (simp_all add: point_level_def Let_def split: prod.splits)

lemma mechanical_strain_fun: "mechanical_strain e eth = strain_minus e eth"
  unfolding strain_minus_def by (rule ext) (rule mechanical_strain_apply)

lemma mechanical_stress_s:
  "sv_s (mechanical_stress E elemIndex vars pt (pv_X P) e)
     = con_evalStress (con E) elemIndex pt (pv_X P)
         (strain_minus e (thermal_strain_at E elemIndex vars pt P))"
  by (simp add: mechanical_stress_def Let_def mechanical_strain_fun thermal_strain_at_def
      temperature_at_def)

lemma tangent_stress_parts:
  "fst (tangent_stress E elemIndex vars pt (pv_X P) e)
     = con_evalTangentStiffness (con E) elemIndex pt (pv_X P)"
  "sv_s (snd (tangent_stress E elemIndex vars pt (pv_X P) e))
     = tangent_computeStress E elemIndex pt P
         (strain_minus e (thermal_strain_at E elemIndex vars pt P))"
  by (simp_all add: tangent_stress_def tangent_computeStress_def Let_def mechanical_strain_fun
      thermal_strain_at_def temperature_at_def case_prod_beta)

lemma point_level_strain:
  "pv_e (point_level E Xpts vars fn etn d ety pt)
     = (evalStrain_at E (point_level E Xpts vars fn etn d ety pt))
         (8 := basis_interpFields (the_basis E) 1 1 pt etn 0)"
  by (simp add: point_level_def evalStrain_at_def Let_def split: prod.splits)

text \<open>
  An operation is the operation with the stress given, when the stress given is the
  one that the operation computes at each point.
\<close>

lemma computeEnergies_point_from:
  assumes "\<And>pt. stress pt (point_level E Xpts vars fn etn d ety pt)
             = con_evalStress (con E) elemIndex pt (pv_X (point_level E Xpts vars fn etn d ety pt))
                 (pv_e (point_level E Xpts vars fn etn d ety pt))"
  shows "computeEnergies_from_point stress E elemIndex Xpts vars dvars fn etn d ddot ety
           = computeEnergies_point E elemIndex Xpts vars dvars fn etn d ddot ety"
  by (rule ext, rule ext)
     (simp add: computeEnergies_from_point_def computeEnergies_point_def Let_def case_prod_beta
        assms)

lemma computeEnergies_from_eq:
  assumes "\<And>fn d ety pt.
             stress pt (point_level E Xpts vars fn (nv_etn (node_level E Xpts vars)) d ety pt)
             = con_evalStress (con E) elemIndex pt
                 (pv_X (point_level E Xpts vars fn (nv_etn (node_level E Xpts vars)) d ety pt))
                 (pv_e (point_level E Xpts vars fn (nv_etn (node_level E Xpts vars)) d ety pt))"
  shows "computeEnergies_from stress E elemIndex time Xpts vars dvars
           = computeEnergies E elemIndex time Xpts vars dvars"
proof -
  have "computeEnergies_from_point stress E elemIndex Xpts vars dvars fn (nv_etn (node_level E Xpts vars)) d ddot ety
      = computeEnergies_point E elemIndex Xpts vars dvars fn (nv_etn (node_level E Xpts vars)) d ddot ety" for fn d ddot ety
    by (rule computeEnergies_point_from) (rule assms)
  then show ?thesis
    by (simp add: computeEnergies_from_def computeEnergies_def Let_def case_prod_beta)
qed

lemma addResidual_point_from:
  assumes "\<And>pt. stress pt (point_level E Xpts vars fn etn d ety pt)
             = sv_s (mechanical_stress E elemIndex vars pt
                       (pv_X (point_level E Xpts vars fn etn d ety pt))
                       (pv_e (point_level E Xpts vars fn etn d ety pt)))"
  shows "addResidual_from_point stress E elemIndex Xpts vars ddvars fn etn d dddot ety
           = addResidual_point E elemIndex Xpts vars ddvars fn etn d dddot ety"
  by (rule ext, rule ext)
     (simp add: addResidual_from_point_def addResidual_point_def Let_def case_prod_beta assms)

lemma addResidual_from_eq:
  assumes "\<And>fn d ety pt.
             stress pt (point_level E Xpts vars fn (nv_etn (node_level E Xpts vars)) d ety pt)
             = sv_s (mechanical_stress E elemIndex vars pt
                 (pv_X (point_level E Xpts vars fn (nv_etn (node_level E Xpts vars)) d ety pt))
                 (pv_e (point_level E Xpts vars fn (nv_etn (node_level E Xpts vars)) d ety pt)))"
  shows "addResidual_from stress E elemIndex time Xpts vars dvars ddvars res
           = addResidual E elemIndex time Xpts vars dvars ddvars res"
proof -
  have "addResidual_from_point stress E elemIndex Xpts vars ddvars fn (nv_etn (node_level E Xpts vars)) d dddot ety
      = addResidual_point E elemIndex Xpts vars ddvars fn (nv_etn (node_level E Xpts vars)) d dddot ety" for fn d dddot ety
    by (rule addResidual_point_from) (rule assms)
  then show ?thesis
    by (simp add: addResidual_from_def addResidual_def Let_def case_prod_beta)
qed

lemma addJacobian_point_from:
  assumes "\<And>pt. stress pt (point_level E Xpts vars fn etn d ety pt)
             = sv_s (snd (tangent_stress E elemIndex vars pt
                       (pv_X (point_level E Xpts vars fn etn d ety pt))
                       (pv_e (point_level E Xpts vars fn etn d ety pt))))"
  shows "addJacobian_from_point stress E elemIndex alpha beta gamma Xpts vars ddvars fn etn d
           dddot ety
           = addJacobian_point E elemIndex alpha beta gamma Xpts vars ddvars fn etn d dddot ety"
  by (rule ext, rule ext)
     (simp add: addJacobian_from_point_def addJacobian_point_def Let_def case_prod_beta assms
        tangent_stress_parts(1))

lemma addJacobian_from_eq:
  assumes "\<And>fn d ety pt.
             stress pt (point_level E Xpts vars fn (nv_etn (node_level E Xpts vars)) d ety pt)
             = sv_s (snd (tangent_stress E elemIndex vars pt
                 (pv_X (point_level E Xpts vars fn (nv_etn (node_level E Xpts vars)) d ety pt))
                 (pv_e (point_level E Xpts vars fn (nv_etn (node_level E Xpts vars)) d ety pt))))"
  shows "addJacobian_from stress E elemIndex time alpha beta gamma Xpts vars dvars ddvars res mat
           = addJacobian E elemIndex time alpha beta gamma Xpts vars dvars ddvars res mat"
proof -
  have "addJacobian_from_point stress E elemIndex alpha beta gamma Xpts vars ddvars fn (nv_etn (node_level E Xpts vars)) d dddot ety
      = addJacobian_point E elemIndex alpha beta gamma Xpts vars ddvars fn (nv_etn (node_level E Xpts vars)) d dddot ety" for fn d dddot ety
    by (rule addJacobian_point_from) (rule assms)
  then show ?thesis
    by (simp add: addJacobian_from_def addJacobian_def Let_def case_prod_beta)
qed

lemma computeEnergies_point_Ue:
  "snd (computeEnergies_point E elemIndex Xpts vars dvars fn etn d ddot ety quad_index TeUe) =
     (let pt = snd (quadrature_getQuadraturePoint (the_quadrature E) quad_index);
          weight = fst (quadrature_getQuadraturePoint (the_quadrature E) quad_index);
          P = point_level E Xpts vars fn etn d ety pt;
          s = con_evalStress (con E) elemIndex pt (pv_X P) (pv_e P)
      in snd TeUe + 0.5 * (pv_detXd P * weight) * (\<Sum>i<9. s i * pv_e P i))"
  by (simp add: computeEnergies_point_def Let_def split: prod.splits)
     (simp add: eval_nat_numeral lessThan_Suc)

subsection \<open>The output buffer\<close>

lemma fold_write_apply:
  fixes a :: array
  shows "fold (\<lambda>i a. a(p + i := v i)) [m..<n] a k
     = (if p + m \<le> k \<and> k < p + n then v (k - p) else a k)"
proof -
  define F where "F = (\<lambda>i (a :: array). a(p + i := v i))"
  have "fold F [m..<n] a k = (if p + m \<le> k \<and> k < p + n then v (k - p) else a k)"
  proof (induction n)
    case 0
    show ?case by auto
  next
    case (Suc n)
    show ?case
    proof (cases "m \<le> n")
      case True
      then have "fold F [m..<Suc n] a = F n (fold F [m..<n] a)"
        by simp
      then have "fold F [m..<Suc n] a k = (if k = p + n then v n else fold F [m..<n] a k)"
        by (simp add: F_def)
      then show ?thesis
        using True by (auto simp: Suc.IH)
    next
      case False
      then show ?thesis by auto
    qed
  qed
  then show ?thesis by (simp only: F_def)
qed

lemma fold_write:
  fixes a :: array
  shows "fold (\<lambda>i a. a(p + i := v i)) [m..<n] a
     = (\<lambda>k. if p + m \<le> k \<and> k < p + n then v (k - p) else a k)"
  using fold_write_apply [of p v m n a] by (intro ext) simp

lemma write_cells_advance:
  "advance n (write_cells n v b) = buf_append (map v [0..<n]) b"
  using fold_write [of "ob_pos b" v 0 n "ob_data b"]
  by (intro output_buffer.equality)
     (auto simp: advance_def write_cells_def buf_append_def write_list_def fun_eq_iff)

lemma buf_append_Nil: "buf_append [] b = b"
  by (intro output_buffer.equality) (auto simp: buf_append_def write_list_def fun_eq_iff)

lemma buf_append_append: "buf_append ys (buf_append xs b) = buf_append (xs @ ys) b"
  by (auto simp: buf_append_def write_list_def fun_eq_iff nth_append)

lemma buf_append_if:
  "(if c then buf_append xs b else b) = buf_append (if c then xs else []) b"
  by (simp add: buf_append_Nil)

lemma displacement_cells:
  assumes "len = (if vars_per_node E > 6 then 6 else vars_per_node E)"
    and "c1 = write_cells len (\<lambda>i. vars (i + vars_per_node E * index)) b"
  shows "advance 6 (c1\<lparr>ob_data := fold (\<lambda>i a. a(ob_pos c1 + i := 0)) [len..<6] (ob_data c1)\<rparr>)
         = buf_append (displacement_segment E vars index) b"
proof -
  have len: "len = min (vars_per_node E) 6" "len \<le> 6"
    using assms(1) by auto
  have pos: "ob_pos c1 = ob_pos b"
    by (simp add: assms(2) write_cells_def)
  have d1: "ob_data c1 = (\<lambda>k. if ob_pos b \<le> k \<and> k < ob_pos b + len
              then vars (k - ob_pos b + vars_per_node E * index) else ob_data b k)"
    using fold_write [of "ob_pos b" "\<lambda>i. vars (i + vars_per_node E * index)" 0 len "ob_data b"]
    by (simp add: assms(2) write_cells_def)
  show ?thesis
    unfolding pos fold_write d1
    using len
    by (intro output_buffer.equality)
       (auto simp: advance_def buf_append_def write_list_def displacement_segment_def fun_eq_iff
          pos)
qed

lemma upt_3: "[0..<3] = [0, 1, 2]"
  by code_simp

lemma upt_4: "[0..<4] = [0, 1, 2, 3]"
  by code_simp

lemma getOutputData_node_eq:
  "getOutputData_node E elemIndex etype write_flag Xpts vars fn etn d ety index b =
     (if etype = TACS_BEAM_OR_SHELL_ELEMENT (the_utilities E)
      then buf_append (output_record E elemIndex write_flag Xpts vars fn etn d ety index) b
      else b)"
proof -
  have extras: "map (array_of [a, b, c, d]) [0..<4] = [a, b, c, d]" for a b c d
    by (simp add: upt_4 array_of_def)
  have nodes: "map X [0..<3] = [X 0, X 1, X 2]" for X :: array
    by (simp add: upt_3)
  show ?thesis
    unfolding getOutputData_node_def output_record_def Let_def write_cells_advance
      displacement_cells [OF refl refl] buf_append_if buf_append_append extras nodes
    by simp
qed

lemma fold_nodes_skip:
  "etype \<noteq> TACS_BEAM_OR_SHELL_ELEMENT (the_utilities E) \<Longrightarrow>
   fold (getOutputData_node E elemIndex etype write_flag Xpts vars fn etn d ety) is b = b"
  by (induction "is") (simp_all add: getOutputData_node_eq)

lemma fold_nodes_write:
  "etype = TACS_BEAM_OR_SHELL_ELEMENT (the_utilities E) \<Longrightarrow>
   fold (getOutputData_node E elemIndex etype write_flag Xpts vars fn etn d ety) is b =
     buf_append (concat (map (output_record E elemIndex write_flag Xpts vars fn etn d ety) is)) b"
proof (induction "is" arbitrary: b)
  case Nil
  show ?case by (simp add: buf_append_Nil)
next
  case (Cons i rest)
  show ?case
    unfolding fold_Cons comp_apply Cons.IH [OF Cons.prems]
    by (simp add: getOutputData_node_eq Cons.prems buf_append_append)
qed

lemma getOutputData_records:
  assumes "etype = TACS_BEAM_OR_SHELL_ELEMENT (the_utilities E)"
  shows "getOutputData E elemIndex etype write_flag Xpts vars dvars ddvars ld_data data
     = write_list (concat (output_records E elemIndex write_flag Xpts vars dvars)) 0 data"
  using assms
  by (simp add: getOutputData_def output_records_def Let_def fold_nodes_write buf_append_def
      split: prod.splits)

text \<open>
  Claim C9.  A call of \<open>getOutputData\<close> with an element type other than
  \<open>TACS_BEAM_OR_SHELL_ELEMENT\<close> returns the buffer unchanged.  With that type the
  buffer holds, from its first cell on and without gaps, one record per visualization
  node, each the selected segments in the order coordinates, displacements, strains,
  stresses, extras; the cells behind the last record are unchanged.  The result
  does not depend on \<open>ld_data\<close>.
\<close>

theorem getOutputData_layout:
  "(etype \<noteq> TACS_BEAM_OR_SHELL_ELEMENT (the_utilities E) \<longrightarrow>
      getOutputData E elemIndex etype write_flag Xpts vars dvars ddvars ld_data data = data)
   \<and> (etype = TACS_BEAM_OR_SHELL_ELEMENT (the_utilities E) \<longrightarrow>
      getOutputData E elemIndex etype write_flag Xpts vars dvars ddvars ld_data data
        = write_list (concat (output_records E elemIndex write_flag Xpts vars dvars)) 0 data)
   \<and> getOutputData E elemIndex etype write_flag Xpts vars dvars ddvars ld_data data
        = getOutputData E elemIndex etype write_flag Xpts vars dvars ddvars ld_data' data"
  by (cases "etype = TACS_BEAM_OR_SHELL_ELEMENT (the_utilities E)")
     (simp_all add: getOutputData_def output_records_def Let_def fold_nodes_skip fold_nodes_write
       buf_append_def split: prod.splits)

subsection \<open>The strain handed to the constitutive object\<close>

lemma output_record_from_eq:
  assumes "\<And>pt. stress pt (point_level E Xpts vars fn etn d ety pt)
             = sv_s (mechanical_stress E elemIndex vars pt
                       (pv_X (point_level E Xpts vars fn etn d ety pt))
                       (pv_e (point_level E Xpts vars fn etn d ety pt)))"
    and "\<And>pt. failure pt (point_level E Xpts vars fn etn d ety pt)
             = con_evalFailure (con E) elemIndex pt
                 (pv_X (point_level E Xpts vars fn etn d ety pt))
                 (pv_e (point_level E Xpts vars fn etn d ety pt))"
  shows "output_record_from stress failure E elemIndex write_flag Xpts vars fn etn d ety
           = output_record E elemIndex write_flag Xpts vars fn etn d ety"
  by (rule ext) (simp add: output_record_from_def output_record_def Let_def assms)

lemma getOutputData_from_eq:
  assumes "\<And>fn d ety pt.
             stress pt (point_level E Xpts vars fn (nv_etn (node_level E Xpts vars)) d ety pt)
             = sv_s (mechanical_stress E elemIndex vars pt
                 (pv_X (point_level E Xpts vars fn (nv_etn (node_level E Xpts vars)) d ety pt))
                 (pv_e (point_level E Xpts vars fn (nv_etn (node_level E Xpts vars)) d ety pt)))"
    and "\<And>fn d ety pt.
             failure pt (point_level E Xpts vars fn (nv_etn (node_level E Xpts vars)) d ety pt)
             = con_evalFailure (con E) elemIndex pt
                 (pv_X (point_level E Xpts vars fn (nv_etn (node_level E Xpts vars)) d ety pt))
                 (pv_e (point_level E Xpts vars fn (nv_etn (node_level E Xpts vars)) d ety pt))"
    and "etype = TACS_BEAM_OR_SHELL_ELEMENT (the_utilities E)"
  shows "getOutputData E elemIndex etype write_flag Xpts vars dvars ddvars ld_data data
           = write_list (concat (output_records_from stress failure E elemIndex write_flag
               Xpts vars dvars)) 0 data"
proof -
  have "output_record_from stress failure E elemIndex write_flag Xpts vars fn
          (nv_etn (node_level E Xpts vars)) d ety
      = output_record E elemIndex write_flag Xpts vars fn (nv_etn (node_level E Xpts vars)) d ety"
    for fn d ety
    by (rule output_record_from_eq) (rule assms)+
  then have "output_records_from stress failure E elemIndex write_flag Xpts vars dvars
      = output_records E elemIndex write_flag Xpts vars dvars"
    by (simp add: output_records_from_def output_records_def Let_def)
  with getOutputData_records [OF assms(3)] show ?thesis
    by simp
qed

lemma drilling_slot:
  "pv_e (point_level E Xpts vars fn (nv_etn (node_level E Xpts vars)) d ety pt)
     = (evalStrain_at E (point_level E Xpts vars fn (nv_etn (node_level E Xpts vars)) d ety pt))
         (8 := drilling_at E Xpts vars pt)"
  unfolding drilling_at_def by (rule point_level_strain)

lemma drilling_slot_less_thermal:
  "strain_minus (e(8 := et)) eth = (strain_minus e eth)(8 := et - eth 8)"
  by (auto simp: fun_eq_iff strain_minus_def)

lemma drilling_slot_mechanical:
  "strain_minus
     (pv_e (point_level E Xpts vars fn (nv_etn (node_level E Xpts vars)) d ety pt)) eth
     = (strain_minus
          (evalStrain_at E
             (point_level E Xpts vars fn (nv_etn (node_level E Xpts vars)) d ety pt)) eth)
         (8 := drilling_at E Xpts vars pt - eth 8)"
  by (subst drilling_slot) (rule drilling_slot_less_thermal)



text \<open>
  Claim C6, as amended.  In each of the four operations the strain that
  \<open>evalStrain\<close> returns has its slot 8 overwritten with the drilling strains of the
  nodes interpolated to the evaluation point.  \<open>computeEnergies\<close> hands this strain to
  \<open>evalStress\<close>, and \<open>getOutputData\<close> hands it to \<open>evalFailure\<close>.  \<open>addResidual\<close>,
  \<open>addJacobian\<close> and \<open>getOutputData\<close> hand the stress evaluation a strain whose slot 8 is
  the interpolated drilling strain minus slot 8 of the thermal strain.
\<close>

theorem drilling_slot_of_total_strain:
  "computeEnergies E elemIndex time Xpts vars dvars
     = computeEnergies_from
         (\<lambda>pt P. con_evalStress (con E) elemIndex pt (pv_X P)
                   ((evalStrain_at E P)(8 := drilling_at E Xpts vars pt)))
         E elemIndex time Xpts vars dvars
   \<and> addResidual E elemIndex time Xpts vars dvars ddvars res
     = addResidual_from
         (\<lambda>pt P. con_evalStress (con E) elemIndex pt (pv_X P)
                   ((strain_minus (evalStrain_at E P) (thermal_strain_at E elemIndex vars pt P))
                     (8 := drilling_at E Xpts vars pt
                             - thermal_strain_at E elemIndex vars pt P 8)))
         E elemIndex time Xpts vars dvars ddvars res
   \<and> addJacobian E elemIndex time alpha beta gamma Xpts vars dvars ddvars res mat
     = addJacobian_from
         (\<lambda>pt P. tangent_computeStress E elemIndex pt P
                   ((strain_minus (evalStrain_at E P) (thermal_strain_at E elemIndex vars pt P))
                     (8 := drilling_at E Xpts vars pt
                             - thermal_strain_at E elemIndex vars pt P 8)))
         E elemIndex time alpha beta gamma Xpts vars dvars ddvars res mat
   \<and> (etype = TACS_BEAM_OR_SHELL_ELEMENT (the_utilities E) \<longrightarrow>
      getOutputData E elemIndex etype write_flag Xpts vars dvars ddvars ld_data data
        = write_list (concat (output_records_from
            (\<lambda>pt P. con_evalStress (con E) elemIndex pt (pv_X P)
                      ((strain_minus (evalStrain_at E P) (thermal_strain_at E elemIndex vars pt P))
                        (8 := drilling_at E Xpts vars pt
                                - thermal_strain_at E elemIndex vars pt P 8)))
            (\<lambda>pt P. con_evalFailure (con E) elemIndex pt (pv_X P)
                      ((evalStrain_at E P)(8 := drilling_at E Xpts vars pt)))
            E elemIndex write_flag Xpts vars dvars)) 0 data)"
proof -
  have energies:
    "computeEnergies E elemIndex time Xpts vars dvars
       = computeEnergies_from
           (\<lambda>pt P. con_evalStress (con E) elemIndex pt (pv_X P)
                     ((evalStrain_at E P)(8 := drilling_at E Xpts vars pt)))
           E elemIndex time Xpts vars dvars"
    by (rule computeEnergies_from_eq [symmetric]) (simp add: drilling_slot [symmetric])
  have general:
    "addResidual E elemIndex time Xpts vars dvars ddvars res
       = addResidual_from
           (\<lambda>pt P. con_evalStress (con E) elemIndex pt (pv_X P)
                     ((strain_minus (evalStrain_at E P) (thermal_strain_at E elemIndex vars pt P))
                       (8 := drilling_at E Xpts vars pt
                               - thermal_strain_at E elemIndex vars pt P 8)))
           E elemIndex time Xpts vars dvars ddvars res"
    "addJacobian E elemIndex time alpha beta gamma Xpts vars dvars ddvars res mat
       = addJacobian_from
           (\<lambda>pt P. tangent_computeStress E elemIndex pt P
                     ((strain_minus (evalStrain_at E P) (thermal_strain_at E elemIndex vars pt P))
                       (8 := drilling_at E Xpts vars pt
                               - thermal_strain_at E elemIndex vars pt P 8)))
           E elemIndex time alpha beta gamma Xpts vars dvars ddvars res mat"
    by (rule addResidual_from_eq [symmetric] addJacobian_from_eq [symmetric],
        simp add: mechanical_stress_s tangent_stress_parts drilling_slot_mechanical)+
  have outp:
    "getOutputData E elemIndex etype write_flag Xpts vars dvars ddvars ld_data data
       = write_list (concat (output_records_from
           (\<lambda>pt P. con_evalStress (con E) elemIndex pt (pv_X P)
                     ((strain_minus (evalStrain_at E P) (thermal_strain_at E elemIndex vars pt P))
                       (8 := drilling_at E Xpts vars pt
                               - thermal_strain_at E elemIndex vars pt P 8)))
           (\<lambda>pt P. con_evalFailure (con E) elemIndex pt (pv_X P)
                     ((evalStrain_at E P)(8 := drilling_at E Xpts vars pt)))
           E elemIndex write_flag Xpts vars dvars)) 0 data"
    if "etype = TACS_BEAM_OR_SHELL_ELEMENT (the_utilities E)"
    by (rule getOutputData_from_eq [OF _ _ that])
       (simp_all add: mechanical_stress_s drilling_slot_mechanical drilling_slot [symmetric])
  show ?thesis
    using energies general outp by simp
qed

subsection \<open>Evaluating the strip\<close>

lemma array_of_simps:
  "array_of [] i = 0"
  "array_of (x # xs) 0 = x"
  "array_of (x # xs) (Suc i) = array_of xs i"
  "array_of (x # xs) (numeral n) = array_of xs (pred_numeral n)"
  by (simp_all add: array_of_def numeral_eq_Suc)

lemma upt_small:
  "[0..<1] = [0]" "[0..<2] = [0, 1]" "[0..<6] = [0, 1, 2, 3, 4, 5]"
  "[0..<9] = [0, 1, 2, 3, 4, 5, 6, 7, 8]"
  by code_simp+

lemma strip_parts [simp]:
  "the_quadrature (strip_element c) = line_quadrature"
  "the_basis (strip_element c) = line_basis"
  "the_director (strip_element c) = fixed_director"
  "the_model (strip_element c) = membrane_model"
  "the_utilities (strip_element c) = strip_utilities"
  "transform (strip_element c) = identity_transform"
  "con (strip_element c) = c"
  by (simp_all add: strip_element_def)

lemma strip_sizes [simp]:
  "vars_per_node (strip_element c) = 4"
  "num_nodes (strip_element c) = 2"
  "size_vars (strip_element c) = 8"
  by (simp_all add: vars_per_node_def num_nodes_def size_vars_def offset_def fixed_director_def
      line_basis_def)

lemma line_interp [simp]:
  "basis_interpFields line_basis vpn m pt v j
     = (if j < m then shape pt 0 * v j + shape pt 1 * v (vpn + j) else 0)"
  "basis_interpFieldsGrad line_basis vpn m pt v k
     = (if k < 2 * m \<and> even k
        then shape_grad 0 * v (k div 2) + shape_grad 1 * v (vpn + k div 2) else 0)"
  by (simp_all add: line_basis_def)

lemma strip_node_level:
  "nv_fn (node_level (strip_element c) Xpts vars) = (\<lambda>k. if k < 6 \<and> k mod 3 = 2 then 1 else 0)"
  "nv_etn (node_level (strip_element c) Xpts vars)
     = (\<lambda>i. if i < 2 then (vars 5 - vars 1) / (2 * (Xpts 3 - Xpts 0)) else 0)"
  "nv_Xdn (node_level (strip_element c) Xpts vars) 0 = (Xpts 3 - Xpts 0) / 2"
  "nv_Xdn (node_level (strip_element c) Xpts vars) 9 = (Xpts 3 - Xpts 0) / 2"
  by (auto simp add: node_level_def Let_def strip_utilities_def fun_eq_iff)

lemma ratio2: "(2 * a - b * 2) / (2 * c - d * 2) = (a - b) / (c - d)" for a b c d :: real
proof -
  have "2 * a - b * 2 = 2 * (a - b)" "2 * c - d * 2 = 2 * (c - d)"
    by simp_all
  then show ?thesis
    by (simp only: mult_divide_mult_cancel_left_if) simp
qed

lemma strip_point_level:
  "pv_X (point_level (strip_element c) Xpts vars fn etn d ety pt)
     = basis_interpFields line_basis 3 3 pt Xpts"
  "pv_et (point_level (strip_element c) Xpts vars fn etn d ety pt)
     = shape pt 0 * etn 0 + shape pt 1 * etn 1"
  "pv_detXd (point_level (strip_element c) Xpts vars fn etn d ety pt) = (Xpts 3 - Xpts 0) / 2"
  "pv_XdinvT (point_level (strip_element c) Xpts vars fn etn d ety pt)
     = array_of [2 / (Xpts 3 - Xpts 0), 0, 0, 0, 1, 0, 0, 0, 1]"
  "pv_u0x (point_level (strip_element c) Xpts vars fn etn d ety pt)
     = array_of [(vars 4 - vars 0) / (Xpts 3 - Xpts 0)]"
  "pv_e (point_level (strip_element c) Xpts vars fn etn d ety pt)
     = (array_of [(vars 4 - vars 0) / (Xpts 3 - Xpts 0), 0, 0, 0, 0, 0, 0, 0])
         (8 := shape pt 0 * etn 0 + shape pt 1 * etn 1)"
  by (simp_all add: point_level_def Let_def strip_utilities_def membrane_model_def
      identity_transform_def shape_grad_def field_simps ratio2 array_of_simps)

lemma line_quad [simp]:
  "quadrature_getNumQuadraturePoints line_quadrature = 1"
  "quadrature_getQuadraturePoint line_quadrature n = (2, array_of [0, 0, 0])"
  by (simp_all add: line_quadrature_def)

lemma shape_mid [simp]: "shape (array_of [0, 0, 0]) 0 = 1 / 2" "shape (array_of [0, 0, 0]) 1 = 1 / 2"
  "shape (array_of [0, 0, 0]) (Suc 0) = 1 / 2"
  by (simp_all add: shape_def array_of_simps)

lemma strip_con_sel [simp]:
  "con_evalStress (strip_con k kd a kappa rho) ei pt X e
     = (\<lambda>i. if i < 8 then k * e i else if i = 8 then kd * e 8 else 0)"
  "con_evalMassMoments (strip_con k kd a kappa rho) ei pt X = array_of [rho, 0, 0]"
  "con_evalThermalStrain (strip_con k kd a kappa rho) ei pt X t = (\<lambda>i. if i < 9 then a i * t else 0)"
  "con_evalHeatFlux (strip_con k kd a kappa rho) ei pt X tx = array_of [kappa * tx 0, kappa * tx 1]"
  "con_evalTangentHeatFlux (strip_con k kd a kappa rho) ei pt X = array_of [kappa, 0, kappa]"
  "con_evalTangentStiffness (strip_con k kd a kappa rho) ei pt X
     = (\<lambda>i. if i \<in> {0, 3, 5, 12, 15, 17, 18, 20} then k else if i = 21 then kd else 0)"
  "con_evalFailure (strip_con k kd a kappa rho) ei pt X e = e 0"
  "con_evalDesignFieldValue (strip_con k kd a kappa rho) ei pt X index = 0"
  by (simp_all add: strip_con_def)

lemma strip_energies:
  "computeEnergies (strip_element (strip_con k kd a kappa rho)) ei time (strip_Xpts L) vars dvars =
     (L * (rho * ((dvars 0 / 2 + dvars 4 / 2) * (dvars 0 / 2 + dvars 4 / 2)
                + (dvars 1 / 2 + dvars 5 / 2) * (dvars 1 / 2 + dvars 5 / 2)
                + (dvars 2 / 2 + dvars 6 / 2) * (dvars 2 / 2 + dvars 6 / 2))) / 2,
      L * (k * (vars 4 - vars 0) * (vars 4 - vars 0) / (L * L)
           + kd * (vars 5 - vars 1) * (vars 5 - vars 1) / (4 * (L * L))) / 2)"
  by (simp add: computeEnergies_def computeEnergies_point_def Let_def strip_node_level
      strip_point_level fixed_director_def membrane_model_def strip_utilities_def
      array_of_simps strip_Xpts_def)

lemma line_transposes [simp]:
  "basis_addInterpFieldsTranspose line_basis vpn m pt u res
     = (\<lambda>r. res r + (if r div vpn < 2 \<and> r mod vpn < m
                  then shape pt (r div vpn) * u (r mod vpn) else 0))"
  "basis_addInterpFieldsGradTranspose line_basis vpn m pt g res
     = (\<lambda>r. res r + (if r div vpn < 2 \<and> r mod vpn < m
                  then shape_grad (r div vpn) * g (2 * (r mod vpn)) else 0))"
  "basis_addInterpTyingStrainTranspose line_basis pt dgty dety = dety"
  "basis_addInterpTyingStrainHessian line_basis pt d2gty d2ety = d2ety"
  "basis_interpTyingStrain line_basis pt ety = (\<lambda>_. 0)"
  by (simp_all add: line_basis_def)

lemma strip_vars_cells [simp]:
  "strip_vars 0 = 0" "strip_vars 1 = 0" "strip_vars 3 = 10" "strip_vars 4 = 1" "strip_vars 5 = 2"
  "strip_vars 7 = 30" "strip_vars (Suc 0) = 0"
  by (simp_all add: strip_vars_def array_of_simps)

lemma strip_Xpts_cells [simp]:
  "strip_Xpts L 0 = 0" "strip_Xpts L 3 = L"
  by (simp_all add: strip_Xpts_def array_of_simps)

lemma strip_utilities_flags [simp]:
  "TACS_BEAM_OR_SHELL_ELEMENT strip_utilities = 4"
  "TACS_OUTPUT_NODES strip_utilities = 2"
  "TACS_OUTPUT_DISPLACEMENTS strip_utilities = 4"
  "TACS_OUTPUT_STRAINS strip_utilities = 8"
  "TACS_OUTPUT_STRESSES strip_utilities = 16"
  "TACS_OUTPUT_EXTRAS strip_utilities = 32"
  "TacsGetNumVisNodes strip_utilities layout = 2"
  by (simp_all add: strip_utilities_def)

lemma line_node_point [simp]:
  "basis_getNodePoint line_basis index = array_of [if index = 0 then - 1 else 1, 0, 0]"
  "basis_getLayoutType line_basis = 0"
  by (simp_all add: line_basis_def)

lemma strip_rates [simp]:
  "director_computeDirectorRates fixed_director vpn off nn vars dvars fn = (fn, (\<lambda>_. 0))"
  "director_computeDirectorRates2 fixed_director vpn off nn vars dvars ddvars fn
     = (fn, (\<lambda>_. 0), (\<lambda>_. 0))"
  "model_computeTyingStrain membrane_model vpn B Xpts fn vars d = (\<lambda>_. 0)"
  by (simp_all add: fixed_director_def membrane_model_def)

lemmas strip_output_simps = output_records_def output_record_def displacement_segment_def Let_def
  strip_node_level strip_point_level mechanical_stress_def mechanical_strain_apply from_cell_def
  upt_small array_of_simps shape_def

lemma strip_records_hot:
  "output_records (strip_element (strip_con 3 5 (array_of [1 / 10, 1 / 10]) 7 1)) 0 22
     (strip_Xpts 2) strip_vars (\<lambda>_. 0)
   = [[0, 0, 0,   0, 0, 0, 10, 0, 0,   - 3 / 2, - 3, 0, 0, 0, 0, 0, 0, 5 / 2],
      [2, 0, 0,   1, 2, 0, 30, 0, 0,   - 15 / 2, - 9, 0, 0, 0, 0, 0, 0, 5 / 2]]"
  by (simp add: strip_output_simps strip_vars_def strip_Xpts_def)

lemma strip_records_drilling:
  "output_records (strip_element (strip_con 1 1 drilling_expansion 7 1)) 0 24
     (strip_Xpts 2) strip_vars (\<lambda>_. 0)
   = [[1 / 2, 0, 0, 0, 0, 0, 0, 0, 1 / 2,   1 / 2, 0, 0, 0, 0, 0, 0, 0, - 19 / 2],
      [1 / 2, 0, 0, 0, 0, 0, 0, 0, 1 / 2,   1 / 2, 0, 0, 0, 0, 0, 0, 0, - 59 / 2]]"
  by (simp add: strip_output_simps strip_vars_def strip_Xpts_def drilling_expansion_def)

text \<open>
  Claim C6 as stated fails.  On the strip with a unit stress law and a thermal strain
  of \<open>t\<close> in the drilling slot, the strain that \<open>addResidual\<close> hands to \<open>evalStress\<close> at the
  quadrature point has \<open>1/2 - 20\<close> in slot 8, not the interpolated drilling strain
  \<open>1/2\<close>.  \<open>getOutputData\<close> shows the same at the first node (temperature 10): it
  writes the strain \<open>1/2\<close> to cell 8 and the stress, here equal to the strain that
  \<open>evalStress\<close> received, \<open>1/2 - 10\<close> to cell 17.
\<close>

theorem drilling_slot_passed_counterexample:
  "sv_em (mechanical_stress (strip_element (strip_con 1 1 drilling_expansion 7 1)) 0 strip_vars
      strip_midpoint (pv_X (strip_point (strip_con 1 1 drilling_expansion 7 1) strip_midpoint))
      (pv_e (strip_point (strip_con 1 1 drilling_expansion 7 1) strip_midpoint))) 8
     \<noteq> pv_et (strip_point (strip_con 1 1 drilling_expansion 7 1) strip_midpoint)
   \<and> map (getOutputData (strip_element (strip_con 1 1 drilling_expansion 7 1)) 0 4 24 (strip_Xpts 2)
        strip_vars (\<lambda>_. 0) (\<lambda>_. 0) 0 (\<lambda>_. 0)) [8, 17] = [1 / 2, - 19 / 2]"
proof -
  let ?E = "strip_element (strip_con 1 1 drilling_expansion 7 1)"
  have "getOutputData ?E 0 4 24 (strip_Xpts 2) strip_vars (\<lambda>_. 0) (\<lambda>_. 0) 0 (\<lambda>_. 0)
      = write_list (concat (output_records ?E 0 24 (strip_Xpts 2) strip_vars (\<lambda>_. 0))) 0 (\<lambda>_. 0)"
    by (rule getOutputData_records) simp
  then have "map (getOutputData ?E 0 4 24 (strip_Xpts 2) strip_vars (\<lambda>_. 0) (\<lambda>_. 0) 0 (\<lambda>_. 0))
      [8, 17] = [1 / 2, - 19 / 2]"
    unfolding strip_records_drilling
    by (simp add: write_list_def)
  moreover have "sv_em (mechanical_stress ?E 0 strip_vars strip_midpoint
      (pv_X (strip_point (strip_con 1 1 drilling_expansion 7 1) strip_midpoint))
      (pv_e (strip_point (strip_con 1 1 drilling_expansion 7 1) strip_midpoint))) 8
     \<noteq> pv_et (strip_point (strip_con 1 1 drilling_expansion 7 1) strip_midpoint)"
    by (simp add: strip_point_def Let_def strip_node_level strip_point_level strip_midpoint_def
        mechanical_stress_def mechanical_strain_apply from_cell_def drilling_expansion_def)
  ultimately show ?thesis by simp
qed

theorem getOutputData_layout_witness:
  "getOutputData (strip_element (strip_con 3 5 (array_of [1 / 10, 1 / 10]) 7 1)) 0 5 62
      (strip_Xpts 2) strip_vars (\<lambda>_. 0) (\<lambda>_. 0) 0 (\<lambda>_. 99) = (\<lambda>_. 99)
   \<and> map (getOutputData (strip_element (strip_con 3 5 (array_of [1 / 10, 1 / 10]) 7 1)) 0 4 22
      (strip_Xpts 2) strip_vars (\<lambda>_. 0) (\<lambda>_. 0) 0 (\<lambda>_. 99)) [0..<38]
     = [0, 0, 0,   0, 0, 0, 10, 0, 0,   - 3 / 2, - 3, 0, 0, 0, 0, 0, 0, 5 / 2,
        2, 0, 0,   1, 2, 0, 30, 0, 0,   - 15 / 2, - 9, 0, 0, 0, 0, 0, 0, 5 / 2,   99, 99]"
proof -
  let ?E = "strip_element (strip_con 3 5 (array_of [1 / 10, 1 / 10]) 7 1)"
  have other: "5 \<noteq> TACS_BEAM_OR_SHELL_ELEMENT (the_utilities ?E)"
    and shell: "4 = TACS_BEAM_OR_SHELL_ELEMENT (the_utilities ?E)"
    by simp_all
  have records: "concat (output_records ?E 0 22 (strip_Xpts 2) strip_vars (\<lambda>_. 0))
      = [0, 0, 0,   0, 0, 0, 10, 0, 0,   - 3 / 2, - 3, 0, 0, 0, 0, 0, 0, 5 / 2,
         2, 0, 0,   1, 2, 0, 30, 0, 0,   - 15 / 2, - 9, 0, 0, 0, 0, 0, 0, 5 / 2]"
    unfolding strip_records_hot by simp
  from getOutputData_layout [of 5 ?E 0 62 "strip_Xpts 2" strip_vars "\<lambda>_. 0" "\<lambda>_. 0" 0 "\<lambda>_. 99" 0]
    other
  have a: "getOutputData ?E 0 5 62 (strip_Xpts 2) strip_vars (\<lambda>_. 0) (\<lambda>_. 0) 0 (\<lambda>_. 99) = (\<lambda>_. 99)"
    by blast
  from getOutputData_layout [of 4 ?E 0 22 "strip_Xpts 2" strip_vars "\<lambda>_. 0" "\<lambda>_. 0" 0 "\<lambda>_. 99" 0]
    shell
  have "getOutputData ?E 0 4 22 (strip_Xpts 2) strip_vars (\<lambda>_. 0) (\<lambda>_. 0) 0 (\<lambda>_. 99)
      = write_list (concat (output_records ?E 0 22 (strip_Xpts 2) strip_vars (\<lambda>_. 0))) 0 (\<lambda>_. 99)"
    by blast
  then have b: "map (getOutputData ?E 0 4 22 (strip_Xpts 2) strip_vars (\<lambda>_. 0) (\<lambda>_. 0) 0 (\<lambda>_. 99))
      [0..<38]
     = [0, 0, 0,   0, 0, 0, 10, 0, 0,   - 3 / 2, - 3, 0, 0, 0, 0, 0, 0, 5 / 2,
        2, 0, 0,   1, 2, 0, 30, 0, 0,   - 15 / 2, - 9, 0, 0, 0, 0, 0, 0, 5 / 2,   99, 99]"
    unfolding records by (simp add: write_list_def upt_conv_Cons)
  from a b show ?thesis by simp
qed

subsection \<open>Residual and tangent matrix of the strip\<close>

lemma strip_helpers [simp]:
  "model_evalStrainSens membrane_model scale s u0x u1x = (array_of [scale * s 0], (\<lambda>_. 0), (\<lambda>_. 0))"
  "model_evalStrainHessian membrane_model scale s Cs u0x u1x e0ty
     = (array_of [scale * Cs 0], (\<lambda>_. 0), (\<lambda>_. 0), (\<lambda>_. 0), (\<lambda>_. 0), (\<lambda>_. 0))"
  "model_addComputeTyingStrainTranspose membrane_model vpn B Xpts fn vars d dety res dd = (res, dd)"
  "model_addComputeTyingStrainHessian membrane_model vpn B alpha Xpts fn vars d dety d2ety d2etyu
     d2etyd mat d2d d2du = (mat, d2d, d2du)"
  "director_addDirectorResidual fixed_director vpn off nn vars dvars ddvars fn dTdot dd res = res"
  "director_addRotationConstraint fixed_director vpn off nn vars res = res"
  "director_addDirectorJacobian fixed_director vpn off nn alpha beta gamma vars dvars ddvars fn
     dTdot dd d2Tdotd d2Tdotu d2d d2du res mat = (res, mat)"
  "director_addRotationConstrJacobian fixed_director vpn off nn alpha vars res mat = (res, mat)"
  by (simp_all add: membrane_model_def fixed_director_def)

lemmas strip_run = Let_def strip_node_level strip_point_level strip_utilities_def array_of_simps
  mechanical_stress_def tangent_stress_def mechanical_strain_apply update_from_cell_def
  from_cell_def drill_weight_def shape_grad_def

lemma strip_residual:
  assumes "L \<noteq> 0"
  shows "map (addResidual (strip_element (strip_con k kd a kappa rho)) ei time (strip_Xpts L) vars
            dvars (\<lambda>_. 0) (\<lambda>_. 0)) [0, 1, 2, 3, 4, 5, 6, 7]
         = [- (k * ((vars 4 - vars 0) / L - a 0 * (vars 3 / 2 + vars 7 / 2))),
            - (kd * ((vars 5 - vars 1) / (2 * L) - a 8 * (vars 3 / 2 + vars 7 / 2)) / 2),
            0,
            - (kappa * (vars 7 - vars 3) / L),
            k * ((vars 4 - vars 0) / L - a 0 * (vars 3 / 2 + vars 7 / 2)),
            kd * ((vars 5 - vars 1) / (2 * L) - a 8 * (vars 3 / 2 + vars 7 / 2)) / 2,
            0,
            kappa * (vars 7 - vars 3) / L]"
  using assms
  by (simp add: addResidual_def addResidual_point_def strip_run)

lemma line_outer [simp]:
  "basis_addInterpFieldsOuterProduct line_basis vi vj m n pt a mat
    = (\<lambda>c. mat c + (let row = c div (vj * 2); col = c mod (vj * 2)
                  in if row div vi < 2 \<and> row mod vi < m \<and> col mod vj < n
                     then shape pt (row div vi) * shape pt (col div vj)
                          * a ((row mod vi) * n + col mod vj)
                     else 0))"
  "basis_addInterpGradOuterProduct line_basis vi vj m n pt a mat
    = (\<lambda>c. mat c + (let row = c div (vj * 2); col = c mod (vj * 2)
                  in if row div vi < 2 \<and> row mod vi < m \<and> col mod vj < n
                     then shape_grad (row div vi) * shape_grad (col div vj)
                          * a (2 * (row mod vi) * (2 * n) + 2 * (col mod vj))
                     else 0))"
  by (simp_all add: line_basis_def)

lemma strip_jacobian:
  assumes "L \<noteq> 0"
  shows "map (snd (addJacobian (strip_element (strip_con k kd a kappa rho)) ei time alpha beta gamma
            (strip_Xpts L) vars (\<lambda>_. 0) (\<lambda>_. 0) (\<lambda>_. 0) (\<lambda>_. 0)))
           [0, 1, 2, 3, 4, 5, 6, 7, 8, 9, 10, 11, 12, 13, 14, 15, 16, 17, 18, 19, 20, 21, 22, 23, 24, 25, 26, 27, 28, 29, 30, 31, 32, 33, 34, 35, 36, 37, 38, 39, 40, 41, 42, 43, 44, 45, 46, 47, 48, 49, 50, 51, 52, 53, 54, 55, 56, 57, 58, 59, 60, 61, 62, 63]
         = [
            alpha * k / L + gamma * L * rho / 4, 0, 0, 0, - (alpha * k / L) + gamma * L * rho / 4, 0, 0, 0,
            0, alpha * kd / (4 * L) + gamma * L * rho / 4, 0, 0, 0, - (alpha * kd / (4 * L)) + gamma * L * rho / 4, 0, 0,
            0, 0, gamma * L * rho / 4, 0, 0, 0, gamma * L * rho / 4, 0,
            0, 0, 0, alpha * kappa / L, 0, 0, 0, - (alpha * kappa / L),
            - (alpha * k / L) + gamma * L * rho / 4, 0, 0, 0, alpha * k / L + gamma * L * rho / 4, 0, 0, 0,
            0, - (alpha * kd / (4 * L)) + gamma * L * rho / 4, 0, 0, 0, alpha * kd / (4 * L) + gamma * L * rho / 4, 0, 0,
            0, 0, gamma * L * rho / 4, 0, 0, 0, gamma * L * rho / 4, 0,
            0, 0, 0, - (alpha * kappa / L), 0, 0, 0, alpha * kappa / L]"
  using assms
  by (simp add: addJacobian_def addJacobian_point_def strip_run diagonal3_def memset_zero_apply
      pair_pattern_def)

lemma upt_8: "[0..<8] = [0, 1, 2, 3, 4, 5, 6, 7]"
  by code_simp

lemma upt_64: "[0..<64] = [0, 1, 2, 3, 4, 5, 6, 7, 8, 9, 10, 11, 12, 13, 14, 15, 16, 17, 18, 19, 20, 21, 22, 23, 24, 25, 26, 27, 28, 29, 30, 31, 32, 33, 34, 35, 36, 37, 38, 39, 40, 41, 42, 43, 44, 45, 46, 47, 48, 49, 50, 51, 52, 53, 54, 55, 56, 57, 58, 59, 60, 61, 62, 63]"
  by code_simp

lemma entry_of_map:
  assumes "map f [0..<n] = xs" and "i < n"
  shows "f i = xs ! i"
proof -
  have "map f [0..<n] ! i = f i"
    using assms(2) by simp
  then show ?thesis
    by (simp add: assms(1))
qed

lemma strip_residual_entry:
  assumes "L \<noteq> 0" and "r < 8"
  shows "static_residual (strip_element (strip_con k kd a kappa rho)) ei time (strip_Xpts L) vars r
         = [- (k * ((vars 4 - vars 0) / L - a 0 * (vars 3 / 2 + vars 7 / 2))),
            - (kd * ((vars 5 - vars 1) / (2 * L) - a 8 * (vars 3 / 2 + vars 7 / 2)) / 2),
            0,
            - (kappa * (vars 7 - vars 3) / L),
            k * ((vars 4 - vars 0) / L - a 0 * (vars 3 / 2 + vars 7 / 2)),
            kd * ((vars 5 - vars 1) / (2 * L) - a 8 * (vars 3 / 2 + vars 7 / 2)) / 2,
            0,
            kappa * (vars 7 - vars 3) / L] ! r"
  unfolding static_residual_def
  by (rule entry_of_map [OF _ assms(2)]) (simp only: upt_8 strip_residual [OF assms(1)])

lemma strip_residual_at_entry:
  assumes "L \<noteq> 0" and "r < 8"
  shows "residual_at (strip_element (strip_con k kd a kappa rho)) ei time (strip_Xpts L) vars dvars r
         = [- (k * ((vars 4 - vars 0) / L - a 0 * (vars 3 / 2 + vars 7 / 2))),
            - (kd * ((vars 5 - vars 1) / (2 * L) - a 8 * (vars 3 / 2 + vars 7 / 2)) / 2),
            0,
            - (kappa * (vars 7 - vars 3) / L),
            k * ((vars 4 - vars 0) / L - a 0 * (vars 3 / 2 + vars 7 / 2)),
            kd * ((vars 5 - vars 1) / (2 * L) - a 8 * (vars 3 / 2 + vars 7 / 2)) / 2,
            0,
            kappa * (vars 7 - vars 3) / L] ! r"
  unfolding residual_at_def
  by (rule entry_of_map [OF _ assms(2)]) (simp only: upt_8 strip_residual [OF assms(1)])

lemma strip_coupling_entry:
  "static_jacobian (strip_element (strip_con 3 5 (array_of [1 / 10, 1 / 10]) 7 1)) 0 0
     (strip_Xpts 2) strip_vars (4 * 8 + 7) = 0"
  unfolding static_jacobian_def
  using entry_of_map [OF strip_jacobian [unfolded upt_64 [symmetric],
    of 2 3 5 "array_of [1 / 10, 1 / 10]" 7 1 0 0 1 0 0 strip_vars], of 39]
  by simp

lemma strip_coupling_derivative:
  "((\<lambda>x. static_residual (strip_element (strip_con 3 5 (array_of [1 / 10, 1 / 10]) 7 1)) 0 0
            (strip_Xpts 2) (strip_vars(7 := x)) 4)
      has_real_derivative - 3 / 20) (at (strip_vars 7))"
proof -
  have "(\<lambda>x. static_residual (strip_element (strip_con 3 5 (array_of [1 / 10, 1 / 10]) 7 1)) 0 0
            (strip_Xpts 2) (strip_vars(7 := x)) 4)
      = (\<lambda>x. 3 * (1 / 2 - 1 / 10 * (5 + x / 2)))"
    by (simp add: strip_residual_entry array_of_simps)
  moreover have "((\<lambda>x. 3 * (1 / 2 - 1 / 10 * (5 + x / 2))) has_real_derivative - 3 / 20)
      (at (strip_vars 7))"
    by (auto intro!: derivative_eq_intros)
  ultimately show ?thesis
    by simp
qed

text \<open>
  So the statement of Claim C2 is false of this strip: the matrix is not the derivative
  of the residual.
\<close>

lemma jacobian_is_not_residual_derivative:
  "\<not> jacobian_is_residual_derivative
       (strip_element (strip_con 3 5 (array_of [1 / 10, 1 / 10]) 7 1)) 0 0 (strip_Xpts 2) strip_vars"
proof
  let ?E = "strip_element (strip_con 3 5 (array_of [1 / 10, 1 / 10]) 7 1)"
  assume claim: "jacobian_is_residual_derivative ?E 0 0 (strip_Xpts 2) strip_vars"
  have "4 < size_vars ?E" "7 < size_vars ?E"
    by simp_all
  from claim [unfolded jacobian_is_residual_derivative_def, rule_format, OF this]
  have "((\<lambda>x. static_residual ?E 0 0 (strip_Xpts 2) (strip_vars(7 := x)) 4)
      has_real_derivative static_jacobian ?E 0 0 (strip_Xpts 2) strip_vars (4 * 8 + 7))
      (at (strip_vars 7))"
    by simp
  then have "((\<lambda>x. static_residual ?E 0 0 (strip_Xpts 2) (strip_vars(7 := x)) 4)
      has_real_derivative 0) (at (strip_vars 7))"
    by (simp only: strip_coupling_entry)
  from DERIV_unique [OF this strip_coupling_derivative] show False
    by simp
qed

text \<open>
  Claim C2 fails on the code.  On the strip of length 2 with membrane stiffness 3 and a
  thermal strain of \<open>t / 10\<close>, at the state \<open>(0, 0, 0, 10, 1, 2, 0, 30)\<close>, the matrix that
  \<open>addJacobian\<close> assembles with \<open>alpha = 1\<close> and \<open>beta = gamma = 0\<close> has 0 in row 4 (the
  displacement \<open>u\<close> of the second node), column 7 (the temperature of the second node),
  while the derivative of entry 4 of the residual of \<open>addResidual\<close> with respect to
  variable 7 is \<open>- 3 / 20\<close>: the residual subtracts the thermal strain from the strain
  before \<open>evalStress\<close>, and the matrix has no term for the dependence of the thermal
  strain on the temperature.
\<close>

theorem jacobian_misses_thermal_coupling:
  "static_jacobian (strip_element (strip_con 3 5 (array_of [1 / 10, 1 / 10]) 7 1)) 0 0
     (strip_Xpts 2) strip_vars (4 * 8 + 7) = 0
   \<and> ((\<lambda>x. static_residual (strip_element (strip_con 3 5 (array_of [1 / 10, 1 / 10]) 7 1)) 0 0
            (strip_Xpts 2) (strip_vars(7 := x)) 4)
      has_real_derivative - 3 / 20) (at (strip_vars 7))"
  by (intro conjI strip_coupling_entry strip_coupling_derivative)

subsection \<open>The strain handed to the constitutive object, on the strip\<close>

lemmas strip_given = strain_minus_def thermal_strain_at_def temperature_at_def evalStrain_at_def drilling_at_def
  tangent_computeStress_def

lemmas strip_from = addResidual_from_def addResidual_from_point_def addJacobian_from_def
  addJacobian_from_point_def computeEnergies_from_def computeEnergies_from_point_def
  output_records_from_def output_record_from_def displacement_segment_def shape_def upt_small
  strip_vars_def strip_Xpts_def strip_given strip_run

lemma strip_evalStrain [simp]:
  "model_evalStrain membrane_model u0x u1x e0ty = array_of [u0x 0, 0, 0, 0, 0, 0, 0, 0]"
  by (simp add: membrane_model_def)

lemma strip_shell [simp]: "TACS_BEAM_OR_SHELL_ELEMENT (the_utilities (strip_element c)) = 4"
  by (simp add: strip_utilities_def)



text \<open>
  On the strip with a unit stress law and a thermal strain of \<open>t\<close> in the drilling slot:
  the strain energy, entry 5 of the residual, and the cells of the drilling strain and
  the drilling stress of the first node in the output.
\<close>

theorem drilling_slot_of_total_strain_witness:
  "snd (computeEnergies (strip_element (strip_con 1 1 drilling_expansion 7 1)) 0 0 (strip_Xpts 2)
      strip_vars (\<lambda>_. 0)) = 1 / 2
   \<and> addResidual (strip_element (strip_con 1 1 drilling_expansion 7 1)) 0 0 (strip_Xpts 2)
      strip_vars (\<lambda>_. 0) (\<lambda>_. 0) (\<lambda>_. 0) 5 = - 39 / 4
   \<and> fst (addJacobian (strip_element (strip_con 1 1 drilling_expansion 7 1)) 0 0 1 0 0
      (strip_Xpts 2) strip_vars (\<lambda>_. 0) (\<lambda>_. 0) (\<lambda>_. 0) (\<lambda>_. 0)) 5 = - 39 / 4
   \<and> map (getOutputData (strip_element (strip_con 1 1 drilling_expansion 7 1)) 0 4 24
      (strip_Xpts 2) strip_vars (\<lambda>_. 0) (\<lambda>_. 0) 0 (\<lambda>_. 99)) [8, 17] = [1 / 2, - 19 / 2]"
proof -
  let ?E = "strip_element (strip_con 1 1 drilling_expansion 7 1)"
  note energies = drilling_slot_of_total_strain [THEN conjunct1]
  note residual = drilling_slot_of_total_strain [THEN conjunct2, THEN conjunct1]
  note jacobian = drilling_slot_of_total_strain [THEN conjunct2, THEN conjunct2, THEN conjunct1]
  note shell = drilling_slot_of_total_strain
    [THEN conjunct2, THEN conjunct2, THEN conjunct2, THEN mp]
  have a: "snd (computeEnergies ?E 0 0 (strip_Xpts 2) strip_vars (\<lambda>_. 0)) = 1 / 2"
    by (subst energies) (simp add: strip_from drilling_expansion_def)
  have b: "addResidual ?E 0 0 (strip_Xpts 2) strip_vars (\<lambda>_. 0) (\<lambda>_. 0) (\<lambda>_. 0) 5 = - 39 / 4"
    by (subst residual) (simp add: strip_from drilling_expansion_def)
  have c: "fst (addJacobian ?E 0 0 1 0 0 (strip_Xpts 2) strip_vars (\<lambda>_. 0) (\<lambda>_. 0) (\<lambda>_. 0)
      (\<lambda>_. 0)) 5 = - 39 / 4"
    by (subst jacobian) (simp add: strip_from drilling_expansion_def)
  have d: "map (getOutputData ?E 0 4 24 (strip_Xpts 2) strip_vars (\<lambda>_. 0) (\<lambda>_. 0) 0 (\<lambda>_. 99))
      [8, 17] = [1 / 2, - 19 / 2]"
    by (subst shell) (simp_all add: strip_from write_list_def drilling_expansion_def)
  from a b c d show ?thesis
    by (intro conjI)
qed

subsection \<open>Energy and residual\<close>

lemma strip_lagrangian:
  "lagrangian (strip_element (strip_con k kd a kappa rho)) ei time (strip_Xpts L) dvars vars
     = L * (rho * ((dvars 0 / 2 + dvars 4 / 2) * (dvars 0 / 2 + dvars 4 / 2)
                + (dvars 1 / 2 + dvars 5 / 2) * (dvars 1 / 2 + dvars 5 / 2)
                + (dvars 2 / 2 + dvars 6 / 2) * (dvars 2 / 2 + dvars 6 / 2))) / 2
       - L * (k * (vars 4 - vars 0) * (vars 4 - vars 0) / (L * L)
               + kd * (vars 5 - vars 1) * (vars 5 - vars 1) / (4 * (L * L))) / 2"
  by (simp add: lagrangian_def strip_energies)

text \<open>
  Two rows of the strip of length 2 with membrane stiffness 3 and conductivity 7, at
  the state \<open>(0, 0, 0, 10, 1, 2, 0, 30)\<close> at rest.  With a thermal strain of \<open>t / 10\<close>, row 4 (the
  displacement \<open>u\<close> of the second node): \<open>computeEnergies\<close> hands the total strain to
  \<open>evalStress\<close>, \<open>addResidual\<close> the strain less the thermal strain.  With no thermal
  strain, row 3 (the temperature of the first node): the residual carries the heat
  flux, and the energies do not depend on the temperature.
\<close>

lemma strip_hot_membrane_row:
  "residual_at (strip_element (strip_con 3 5 (array_of [1 / 10, 1 / 10]) 7 1)) 0 0
     (strip_Xpts 2) strip_vars (\<lambda>_. 0) 4 = - 9 / 2"
  "((\<lambda>x. lagrangian (strip_element (strip_con 3 5 (array_of [1 / 10, 1 / 10]) 7 1)) 0 0
           (strip_Xpts 2) (\<lambda>_. 0) (strip_vars(4 := x)))
      has_real_derivative - 3 / 2) (at (strip_vars 4))"
proof -
  show "residual_at (strip_element (strip_con 3 5 (array_of [1 / 10, 1 / 10]) 7 1)) 0 0
     (strip_Xpts 2) strip_vars (\<lambda>_. 0) 4 = - 9 / 2"
    by (simp add: strip_residual_at_entry array_of_simps)
  have "(\<lambda>x. lagrangian (strip_element (strip_con 3 5 (array_of [1 / 10, 1 / 10]) 7 1)) 0 0
           (strip_Xpts 2) (\<lambda>_. 0) (strip_vars(4 := x)))
      = (\<lambda>x. - (3 * x * x / 4) - 5 / 4)"
    by (simp add: strip_lagrangian array_of_simps fun_eq_iff field_simps)
  moreover have "((\<lambda>x. - (3 * x * x / 4) - 5 / 4) has_real_derivative - 3 / 2) (at (strip_vars 4))"
    by (auto intro!: derivative_eq_intros simp: array_of_simps)
  ultimately show "((\<lambda>x. lagrangian (strip_element (strip_con 3 5 (array_of [1 / 10, 1 / 10]) 7 1)) 0 0
           (strip_Xpts 2) (\<lambda>_. 0) (strip_vars(4 := x)))
      has_real_derivative - 3 / 2) (at (strip_vars 4))"
    by simp
qed

lemma strip_cold_conduction_row:
  "residual_at (strip_element (strip_con 3 5 (\<lambda>_. 0) 7 1)) 0 0
     (strip_Xpts 2) strip_vars (\<lambda>_. 0) 3 = - 70"
  "((\<lambda>x. lagrangian (strip_element (strip_con 3 5 (\<lambda>_. 0) 7 1)) 0 0
           (strip_Xpts 2) (\<lambda>_. 0) (strip_vars(3 := x)))
      has_real_derivative 0) (at (strip_vars 3))"
  by (simp_all add: strip_residual_at_entry strip_lagrangian array_of_simps)

lemma not_energy_gradient:
  assumes res: "residual_at E elemIndex time Xpts vars dvars k = r"
    and der: "((\<lambda>x. lagrangian E elemIndex time Xpts dvars (vars(k := x)))
                 has_real_derivative g) (at (vars k))"
    and k: "k < size_vars E"
    and differ: "g \<noteq> r" "g \<noteq> - r"
  shows "\<not> residual_is_energy_gradient E elemIndex time Xpts vars dvars"
proof
  assume "residual_is_energy_gradient E elemIndex time Xpts vars dvars"
  then obtain sign where sign: "sign = 1 \<or> sign = - 1"
    and all: "\<forall>k < size_vars E.
           ((\<lambda>x. lagrangian E elemIndex time Xpts dvars (vars(k := x)))
              has_real_derivative sign * residual_at E elemIndex time Xpts vars dvars k)
             (at (vars k))"
    unfolding residual_is_energy_gradient_def by blast
  from all [rule_format, OF k]
  have "((\<lambda>x. lagrangian E elemIndex time Xpts dvars (vars(k := x)))
              has_real_derivative sign * r) (at (vars k))"
    unfolding res .
  from DERIV_unique [OF this der] sign differ show False
    by auto
qed

text \<open>
  So the statement of Claim C1 is false of both strips: no sign makes the residual the
  derivative of the kinetic minus the potential energy.
\<close>

lemma residual_is_not_energy_gradient:
  "\<not> residual_is_energy_gradient
       (strip_element (strip_con 3 5 (array_of [1 / 10, 1 / 10]) 7 1)) 0 0 (strip_Xpts 2) strip_vars
       (\<lambda>_. 0)
   \<and> \<not> residual_is_energy_gradient
       (strip_element (strip_con 3 5 (\<lambda>_. 0) 7 1)) 0 0 (strip_Xpts 2) strip_vars (\<lambda>_. 0)"
  by (intro conjI not_energy_gradient [OF strip_hot_membrane_row]
        not_energy_gradient [OF strip_cold_conduction_row]) simp_all

text \<open>
  Without thermal strain the displacement rows of the strip are minus the derivative of
  the kinetic minus the potential energy, for every state, all rates and zero
  accelerations.
\<close>

lemma less_8: "i < 8 \<longleftrightarrow> i = 0 \<or> i = 1 \<or> i = 2 \<or> i = 3 \<or> i = 4 \<or> i = 5 \<or> i = 6 \<or> i = (7::nat)"
  by auto

lemma strip_gradient_without_thermal_strain:
  assumes "L \<noteq> 0" and "dof < 8" and "dof \<noteq> 3" and "dof \<noteq> 7"
  shows "((\<lambda>x. lagrangian (strip_element (strip_con k kd (\<lambda>_. 0) kappa rho)) ei time
                (strip_Xpts L) dvars (vars(dof := x)))
            has_real_derivative
          - residual_at (strip_element (strip_con k kd (\<lambda>_. 0) kappa rho)) ei time
              (strip_Xpts L) vars dvars dof) (at (vars dof))"
  unfolding strip_lagrangian strip_residual_at_entry [OF assms(1,2)]
  using assms unfolding less_8
  by (elim disjE; simp; auto intro!: derivative_eq_intros simp: field_simps)

text \<open>
  Claim C1 fails on the code.  On the strip of length 2 with membrane stiffness 3 and a
  thermal strain of \<open>t / 10\<close>, at the state \<open>(0, 0, 0, 10, 1, 2, 0, 30)\<close> at rest, entry 4
  of the residual of \<open>addResidual\<close> (the displacement \<open>u\<close> of the second node) is
  \<open>- 9 / 2\<close>, while the derivative with respect to variable 4 of the kinetic minus the
  potential energy of \<open>computeEnergies\<close> is \<open>- 3 / 2\<close>: \<open>addResidual\<close> hands \<open>evalStress\<close>
  the strain less the thermal strain, \<open>computeEnergies\<close> the total strain.
\<close>

theorem energies_miss_thermal_strain:
  "residual_at (strip_element (strip_con 3 5 (array_of [1 / 10, 1 / 10]) 7 1)) 0 0
     (strip_Xpts 2) strip_vars (\<lambda>_. 0) 4 = - 9 / 2
   \<and> ((\<lambda>x. lagrangian (strip_element (strip_con 3 5 (array_of [1 / 10, 1 / 10]) 7 1)) 0 0
            (strip_Xpts 2) (\<lambda>_. 0) (strip_vars(4 := x)))
        has_real_derivative - 3 / 2) (at (strip_vars 4))"
  by (intro conjI strip_hot_membrane_row)

subsection \<open>The tangent matrix and the thermal strain\<close>

lemma strip_jacobian_entry:
  assumes "L \<noteq> 0" and "c < 64"
  shows "static_jacobian (strip_element (strip_con k kd a kappa rho)) ei time (strip_Xpts L) vars c
     = [k / L, 0, 0, 0, - (k / L), 0, 0, 0,
        0, kd / (4 * L), 0, 0, 0, - (kd / (4 * L)), 0, 0,
        0, 0, 0, 0, 0, 0, 0, 0,
        0, 0, 0, kappa / L, 0, 0, 0, - (kappa / L),
        - (k / L), 0, 0, 0, k / L, 0, 0, 0,
        0, - (kd / (4 * L)), 0, 0, 0, kd / (4 * L), 0, 0,
        0, 0, 0, 0, 0, 0, 0, 0,
        0, 0, 0, - (kappa / L), 0, 0, 0, kappa / L] ! c"
  unfolding static_jacobian_def
  by (rule entry_of_map [OF _ assms(2)])
     (use strip_jacobian [OF assms(1), of k kd a kappa rho ei time 1 0 0 vars] in
       \<open>simp add: upt_64\<close>)

text \<open>
  Without thermal strain the matrix of the strip is the derivative of its residual in
  all 64 entries, for every state: the strip itself is consistent.
\<close>

lemma strip_jacobian_without_thermal_strain:
  assumes "L \<noteq> 0"
  shows "jacobian_is_residual_derivative (strip_element (strip_con k kd (\<lambda>_. 0) kappa rho)) ei time
           (strip_Xpts L) vars"
  unfolding jacobian_is_residual_derivative_def strip_sizes
proof (intro allI impI)
  fix i j :: nat
  assume i: "i < 8" and j: "j < 8"
  then have c: "i * 8 + j < 64"
    by simp
  show "((\<lambda>x. static_residual (strip_element (strip_con k kd (\<lambda>_. 0) kappa rho)) ei time
                 (strip_Xpts L) (vars(j := x)) i)
          has_real_derivative
        static_jacobian (strip_element (strip_con k kd (\<lambda>_. 0) kappa rho)) ei time
          (strip_Xpts L) vars (i * 8 + j)) (at (vars j))"
    unfolding strip_residual_entry [OF assms i] strip_jacobian_entry [OF assms c]
    using i j assms unfolding less_8
    by (elim disjE; simp; auto intro!: derivative_eq_intros simp: field_simps)
qed

lemma with_thermal_law_parts [simp]:
  "the_quadrature (with_thermal_law strain flux E) = the_quadrature E"
  "the_basis (with_thermal_law strain flux E) = the_basis E"
  "the_director (with_thermal_law strain flux E) = the_director E"
  "the_model (with_thermal_law strain flux E) = the_model E"
  "the_utilities (with_thermal_law strain flux E) = the_utilities E"
  "transform (with_thermal_law strain flux E) = transform E"
  "con_evalStress (con (with_thermal_law strain flux E)) = con_evalStress (con E)"
  "con_evalMassMoments (con (with_thermal_law strain flux E)) = con_evalMassMoments (con E)"
  "con_evalThermalStrain (con (with_thermal_law strain flux E)) = strain"
  "con_evalHeatFlux (con (with_thermal_law strain flux E)) = flux"
  "con_evalTangentHeatFlux (con (with_thermal_law strain flux E)) = con_evalTangentHeatFlux (con E)"
  "con_evalTangentStiffness (con (with_thermal_law strain flux E)) = con_evalTangentStiffness (con E)"
  "vars_per_node (with_thermal_law strain flux E) = vars_per_node E"
  "num_nodes (with_thermal_law strain flux E) = num_nodes E"
  "size_vars (with_thermal_law strain flux E) = size_vars E"
  by (simp_all add: with_thermal_law_def vars_per_node_def num_nodes_def size_vars_def)

lemma with_thermal_law_levels [simp]:
  "node_level (with_thermal_law strain flux E) = node_level E"
  "point_level (with_thermal_law strain flux E) = point_level E"
  by (simp_all add: node_level_def point_level_def fun_eq_iff)

text \<open>
  \<open>computeEnergies\<close> never calls \<open>evalThermalStrain\<close>: the energies are the same for
  every thermal strain law.
\<close>

lemma energies_ignore_thermal_law:
  "computeEnergies (with_thermal_law strain flux E) elemIndex time Xpts vars dvars
     = computeEnergies E elemIndex time Xpts vars dvars"
proof -
  have "computeEnergies_point (with_thermal_law strain flux E) = computeEnergies_point E"
    by (simp add: computeEnergies_point_def fun_eq_iff)
  then show ?thesis
    by (simp add: computeEnergies_def)
qed

text \<open>
  \<open>addJacobian\<close> reads the thermal strain only at the interpolated temperature of the
  state: two laws that agree there, whatever their slopes, give the same matrix.
\<close>

lemma jacobian_sees_thermal_strain_value_only:
  assumes same: "\<forall>pt X. strain elemIndex pt X (temperature_at E vars pt)
             = con_evalThermalStrain (con E) elemIndex pt X (temperature_at E vars pt)"
  shows "addJacobian (with_thermal_law strain (con_evalHeatFlux (con E)) E) elemIndex time
           alpha beta gamma Xpts vars dvars ddvars res mat
         = addJacobian E elemIndex time alpha beta gamma Xpts vars dvars ddvars res mat"
proof -
  let ?E' = "with_thermal_law strain (con_evalHeatFlux (con E)) E"
  have ts: "tangent_stress ?E' elemIndex vars pt X e = tangent_stress E elemIndex vars pt X e"
    for pt X e
    using same [rule_format, of pt X]
    by (simp add: tangent_stress_def temperature_at_def)
  have point: "addJacobian_point ?E' elemIndex alpha beta gamma Xpts vars ddvars fn etn d dddot ety
          q acc
        = addJacobian_point E elemIndex alpha beta gamma Xpts vars ddvars fn etn d dddot ety q acc"
    for fn etn d dddot ety q acc
    unfolding addJacobian_point_def
    by (simp only: with_thermal_law_parts with_thermal_law_levels ts)
  have step: "addJacobian_point ?E' elemIndex alpha beta gamma Xpts vars ddvars fn etn d dddot ety
        = addJacobian_point E elemIndex alpha beta gamma Xpts vars ddvars fn etn d dddot ety"
    for fn etn d dddot ety
    by (intro ext) (rule point)
  show ?thesis
    unfolding addJacobian_def
    by (simp only: with_thermal_law_parts with_thermal_law_levels step)
qed

end
